theory Spec2Isabelle
  imports Complex_Main "HOL-Library.Word"
begin

unbundle bit_operations_syntax

section \<open>Vectors and matrices\<close>

text \<open>
  The code's \<open>real\<close>, a 32-bit float, is modelled by the mathematical reals (exact
  arithmetic) wherever a claim is about the values computed: rounding, infinities and
  NaN are outside that model.  Two functions have claims about every value a float can
  take: \<open>friction_project\<close> is modelled a second time on the float values of the
  section on float values, and \<open>approximate_exponent\<close> is modelled on them only.
  \<open>VectorND<3, real>\<close> is \<open>vec3\<close>,
  \<open>VectorND<4, real>\<close> (\<open>VectorP\<close>, an SSE register of four lanes) is \<open>vec4\<close>, and
  \<open>MatrixND<3, real>\<close> is \<open>mat3\<close>, the three vectors \<open>m[0]\<close>, \<open>m[1]\<close>, \<open>m[2]\<close> the
  library stores (its columns).
\<close>

datatype vec3 = Vec3 real real real

datatype vec4 = Vec4 real real real real

datatype mat3 = Mat3 vec3 vec3 vec3

fun vx :: "vec3 \<Rightarrow> real" where "vx (Vec3 a b c) = a"
fun vy :: "vec3 \<Rightarrow> real" where "vy (Vec3 a b c) = b"
fun vz :: "vec3 \<Rightarrow> real" where "vz (Vec3 a b c) = c"

text \<open>\<open>v[i]\<close> for \<open>i\<close> in 0, 1, 2.\<close>

fun vnth :: "vec3 \<Rightarrow> nat \<Rightarrow> real" where
  "vnth (Vec3 a b c) i = (if i = 0 then a else if i = 1 then b else c)"

fun lane :: "vec4 \<Rightarrow> nat \<Rightarrow> real" where
  "lane (Vec4 a b c d) i = (if i = 0 then a else if i = 1 then b else if i = 2 then c else d)"

fun vadd :: "vec3 \<Rightarrow> vec3 \<Rightarrow> vec3" where
  "vadd (Vec3 a b c) (Vec3 d e f) = Vec3 (a + d) (b + e) (c + f)"

fun vsub :: "vec3 \<Rightarrow> vec3 \<Rightarrow> vec3" where
  "vsub (Vec3 a b c) (Vec3 d e f) = Vec3 (a - d) (b - e) (c - f)"

fun vscale :: "real \<Rightarrow> vec3 \<Rightarrow> vec3" where
  "vscale s (Vec3 a b c) = Vec3 (s * a) (s * b) (s * c)"

fun vneg :: "vec3 \<Rightarrow> vec3" where
  "vneg (Vec3 a b c) = Vec3 (- a) (- b) (- c)"

fun dot :: "vec3 \<Rightarrow> vec3 \<Rightarrow> real" where
  "dot (Vec3 a b c) (Vec3 d e f) = a * d + b * e + c * f"

definition length2 :: "vec3 \<Rightarrow> real" where
  "length2 v = dot v v"

definition vlength :: "vec3 \<Rightarrow> real" where
  "vlength v = sqrt (length2 v)"

definition vzero :: vec3 where
  "vzero = Vec3 0 0 0"

text \<open>\<open>Vector(s)\<close>: every component \<open>s\<close>.\<close>

definition vconst :: "real \<Rightarrow> vec3" where
  "vconst s = Vec3 s s s"

fun vaxis :: "nat \<Rightarrow> vec3" where
  "vaxis i = Vec3 (if i = 0 then 1 else 0) (if i = 1 then 1 else 0) (if i = 2 then 1 else 0)"

text \<open>Componentwise product and fused multiply-add \<open>a * b + c\<close>.\<close>

fun vmul :: "vec3 \<Rightarrow> vec3 \<Rightarrow> vec3" where
  "vmul (Vec3 a b c) (Vec3 d e f) = Vec3 (a * d) (b * e) (c * f)"

definition fused_mul_add :: "vec3 \<Rightarrow> vec3 \<Rightarrow> vec3 \<Rightarrow> vec3" where
  "fused_mul_add a b c = vadd (vmul a b) c"

fun v4add :: "vec4 \<Rightarrow> vec4 \<Rightarrow> vec4" where
  "v4add (Vec4 a b c d) (Vec4 e f g h) = Vec4 (a + e) (b + f) (c + g) (d + h)"

fun v4scale :: "real \<Rightarrow> vec4 \<Rightarrow> vec4" where
  "v4scale s (Vec4 a b c d) = Vec4 (s * a) (s * b) (s * c) (s * d)"

text \<open>\<open>VectorP(v, w)\<close> and \<open>VectorP(v)\<close> (last lane 0); \<open>Vector(p)\<close> drops the last lane.\<close>

fun VectorP :: "vec3 \<Rightarrow> real \<Rightarrow> vec4" where
  "VectorP (Vec3 a b c) w = Vec4 a b c w"

fun Vector_of :: "vec4 \<Rightarrow> vec3" where
  "Vector_of (Vec4 a b c d) = Vec3 a b c"

fun mcol :: "mat3 \<Rightarrow> nat \<Rightarrow> vec3" where
  "mcol (Mat3 c0 c1 c2) i = (if i = 0 then c0 else if i = 1 then c1 else c2)"

text \<open>\<open>m[i][j]\<close>.\<close>

definition mentry :: "mat3 \<Rightarrow> nat \<Rightarrow> nat \<Rightarrow> real" where
  "mentry m i j = vnth (mcol m i) j"

text \<open>\<open>Matrix(s)\<close>: \<open>s\<close> on the diagonal; \<open>Matrix(v)\<close>: the diagonal matrix of \<open>v\<close>.\<close>

definition mdiag :: "vec3 \<Rightarrow> mat3" where
  "mdiag v = Mat3 (Vec3 (vx v) 0 0) (Vec3 0 (vy v) 0) (Vec3 0 0 (vz v))"

definition mscalar :: "real \<Rightarrow> mat3" where
  "mscalar s = mdiag (vconst s)"

definition diag :: "mat3 \<Rightarrow> vec3" where
  "diag m = Vec3 (mentry m 0 0) (mentry m 1 1) (mentry m 2 2)"

fun madd :: "mat3 \<Rightarrow> mat3 \<Rightarrow> mat3" where
  "madd (Mat3 a b c) (Mat3 d e f) = Mat3 (vadd a d) (vadd b e) (vadd c f)"

fun msub :: "mat3 \<Rightarrow> mat3 \<Rightarrow> mat3" where
  "msub (Mat3 a b c) (Mat3 d e f) = Mat3 (vsub a d) (vsub b e) (vsub c f)"

fun mscale :: "real \<Rightarrow> mat3 \<Rightarrow> mat3" where
  "mscale s (Mat3 a b c) = Mat3 (vscale s a) (vscale s b) (vscale s c)"

text \<open>Matrix times vector: the combination of the columns.\<close>

fun mvec :: "mat3 \<Rightarrow> vec3 \<Rightarrow> vec3" where
  "mvec (Mat3 a b c) (Vec3 x y z) = vadd (vadd (vscale x a) (vscale y b)) (vscale z c)"

fun mmul :: "mat3 \<Rightarrow> mat3 \<Rightarrow> mat3" where
  "mmul m (Mat3 a b c) = Mat3 (mvec m a) (mvec m b) (mvec m c)"

fun transpose3 :: "mat3 \<Rightarrow> mat3" where
  "transpose3 (Mat3 (Vec3 a b c) (Vec3 d e f) (Vec3 g h i)) =
     Mat3 (Vec3 a d g) (Vec3 b e h) (Vec3 c f i)"

fun determinant :: "mat3 \<Rightarrow> real" where
  "determinant (Mat3 (Vec3 a b c) (Vec3 d e f) (Vec3 g h i)) =
     a * (e * i - f * h) - d * (b * i - c * h) + g * (b * f - c * e)"

text \<open>The inverse by the adjugate; the division is HOL's (the code's yields infinities
  for a singular matrix).\<close>

fun inverse3 :: "mat3 \<Rightarrow> mat3" where
  "inverse3 (Mat3 (Vec3 a b c) (Vec3 d e f) (Vec3 g h i)) =
     mscale (1 / determinant (Mat3 (Vec3 a b c) (Vec3 d e f) (Vec3 g h i)))
       (Mat3 (Vec3 (e * i - f * h) (c * h - b * i) (b * f - c * e))
             (Vec3 (f * g - d * i) (a * i - c * g) (c * d - a * f))
             (Vec3 (d * h - e * g) (b * g - a * h) (a * e - b * d)))"

definition trace :: "mat3 \<Rightarrow> real" where
  "trace m = mentry m 0 0 + mentry m 1 1 + mentry m 2 2"

text \<open>\<open>frobenius_norm2\<close> is the library's squared Frobenius norm, the sum of the squared
  entries, and \<open>frobenius_norm\<close> its square root.\<close>

fun frobenius_norm2 :: "mat3 \<Rightarrow> real" where
  "frobenius_norm2 (Mat3 a b c) = length2 a + length2 b + length2 c"

definition frobenius_norm :: "mat3 \<Rightarrow> real" where
  "frobenius_norm m = sqrt (frobenius_norm2 m)"

text \<open>\<open>Matrix::outer_product(a, b)\<close>: the vector \<open>i\<close> is \<open>a * b[i]\<close>.\<close>

fun outer_product :: "vec3 \<Rightarrow> vec3 \<Rightarrow> mat3" where
  "outer_product a (Vec3 x y z) = Mat3 (vscale x a) (vscale y a) (vscale z a)"

definition vmap :: "(real \<Rightarrow> real) \<Rightarrow> vec3 \<Rightarrow> vec3" where
  "vmap f v = Vec3 (f (vx v)) (f (vy v)) (f (vz v))"

section \<open>Grid cells\<close>

type_synonym uint32 = "32 word"
type_synonym uint64 = "64 word"

record GridState =
  velocity_and_mass :: vec4
  distance :: real
  states :: uint32
  particle_count :: uint32
  lock :: bool
  flags :: "16 word"
  granular_fluidity :: real
  aux0 :: real
  aux1 :: real
  aux2 :: real
  aux3 :: real

definition max_num_rigid_bodies :: nat where
  "max_num_rigid_bodies = 12"

definition total_bits :: nat where
  "total_bits = 32"

definition tag_bits :: nat where
  "tag_bits = max_num_rigid_bodies * 2"

definition id_bits :: nat where
  "id_bits = total_bits - tag_bits"

definition tag_mask :: uint32 where
  "tag_mask = push_bit tag_bits 1 - 1"

definition id_mask :: uint32 where
  "id_mask = push_bit tag_bits (push_bit id_bits 1 - 1)"

text \<open>\<open>get_rigid_body_id\<close> subtracts in \<open>uint32\<close> and returns the result as an \<open>int\<close>
  (two's complement); \<open>set_rigid_body_id\<close> takes an \<open>int\<close>, here the 32-bit word of its
  bits.\<close>

definition get_rigid_body_id :: "'a GridState_scheme \<Rightarrow> int" where
  "get_rigid_body_id g = sint (drop_bit tag_bits (states g) - 1)"

definition set_rigid_body_id :: "uint32 \<Rightarrow> 'a GridState_scheme \<Rightarrow> 'a GridState_scheme" where
  "set_rigid_body_id i g =
     g\<lparr>states := (states g AND NOT id_mask) OR push_bit tag_bits (i + 1)\<rparr>"

definition get_states :: "'a GridState_scheme \<Rightarrow> uint64" where
  "get_states g = ucast (states g AND tag_mask)"

definition set_states :: "uint32 \<Rightarrow> 'a GridState_scheme \<Rightarrow> 'a GridState_scheme" where
  "set_states new_states g = g\<lparr>states := (states g AND NOT tag_mask) OR new_states\<rparr>"

text \<open>A cell of an uncommitted block reads as zero.\<close>

definition zero_cell :: GridState where
  "zero_cell = \<lparr>velocity_and_mass = Vec4 0 0 0 0, distance = 0, states = 0,
     particle_count = 0, lock = False, flags = 0, granular_fluidity = 0,
     aux0 = 0, aux1 = 0, aux2 = 0, aux3 = 0\<rparr>"

section \<open>Coloring\<close>

text \<open>The test of \<open>rasterize\<close> and \<open>resample\<close>: with
  \<open>mask = (grid_state & particle_state & state_mask) >> 1\<close>, whether
  \<open>(grid_state & mask) != (particle_state & mask)\<close>.  The constant \<open>state_mask\<close> is
  declared outside the transfer code and is a parameter here.\<close>

definition color_mask :: "uint64 \<Rightarrow> uint64 \<Rightarrow> uint64 \<Rightarrow> uint64" where
  "color_mask state_mask grid_state particle_state =
     drop_bit 1 (grid_state AND particle_state AND state_mask)"

definition different_color :: "uint64 \<Rightarrow> uint64 \<Rightarrow> uint64 \<Rightarrow> bool" where
  "different_color state_mask grid_state particle_state =
     (let mask = color_mask state_mask grid_state particle_state
      in (grid_state AND mask) \<noteq> (particle_state AND mask))"

section \<open>The MLS-MPM fast kernel\<close>

text \<open>Four-lane arithmetic of the SSE intrinsics used by \<open>MLSMPMFastKernel32\<close>.\<close>

definition set1 :: "real \<Rightarrow> vec4" where
  "set1 a = Vec4 a a a a"

fun v4sub :: "vec4 \<Rightarrow> vec4 \<Rightarrow> vec4" where
  "v4sub (Vec4 a b c d) (Vec4 e f g h) = Vec4 (a - e) (b - f) (c - g) (d - h)"

fun v4mul :: "vec4 \<Rightarrow> vec4 \<Rightarrow> vec4" where
  "v4mul (Vec4 a b c d) (Vec4 e f g h) = Vec4 (a * e) (b * f) (c * g) (d * h)"

text \<open>\<open>_mm_fmadd_ps(a, b, c)\<close> is \<open>a * b + c\<close> in every lane.\<close>

definition fmadd :: "vec4 \<Rightarrow> vec4 \<Rightarrow> vec4 \<Rightarrow> vec4" where
  "fmadd a b c = v4add (v4mul a b) c"

definition make_float4 :: "real \<Rightarrow> real \<Rightarrow> real \<Rightarrow> real \<Rightarrow> vec4" where
  "make_float4 a b c d = Vec4 a b c d"

text \<open>The constructor of \<open>MLSMPMFastKernel32\<close>: \<open>w_cache pos k\<close> is the register
  \<open>w_cache[k]\<close> of axis \<open>k\<close>, and \<open>kernels pos i j\<close> the register \<open>kernels[i][j]\<close>,
  whose lane \<open>k\<close> is the weight of the stencil node \<open>(i, j, k)\<close>.  The argument is the
  particle's grid position relative to its base node.\<close>

definition p_fract :: "vec3 \<Rightarrow> vec3" where
  "p_fract pos = vsub pos (vconst 0.5)"

definition w_cache :: "vec3 \<Rightarrow> nat \<Rightarrow> vec4" where
  "w_cache pos k =
     (let t = v4sub (set1 (vnth (p_fract pos) k)) (make_float4 (- 0.5) 0.5 1.5 0);
          tt = v4mul t t
      in fmadd (make_float4 0.5 (- 1) 0.5 0) tt
           (fmadd (make_float4 (- 1.5) 0 1.5 0) t (make_float4 1.125 0.75 1.125 0)))"

definition kernels :: "vec3 \<Rightarrow> nat \<Rightarrow> nat \<Rightarrow> vec4" where
  "kernels pos i j =
     v4mul (set1 (lane (w_cache pos 0) i * lane (w_cache pos 1) j)) (w_cache pos 2)"

text \<open>The weight the unrolled loops read for \<open>node_id\<close>:
  \<open>kernels[node_id / 9][node_id / 3 % 3][node_id % 3]\<close>.\<close>

definition kernel_weight :: "vec3 \<Rightarrow> nat \<Rightarrow> real" where
  "kernel_weight pos node_id =
     lane (kernels pos (node_id div 9) (node_id div 3 mod 3)) (node_id mod 3)"

text \<open>\<open>get_stencil_start(x)\<close> is \<open>int(x - 0.5f)\<close>; the conversion truncates towards
  zero to a 32-bit \<open>int\<close>.  For a value whose truncation is outside the range of \<open>int\<close>
  C++ leaves the conversion undefined; the conversion instruction of x86
  (\<open>cvttss2si\<close>) returns \<open>INT_MIN\<close> there, and that is the value taken here.\<close>

definition trunc_int :: "real \<Rightarrow> int" where
  "trunc_int x = (if 0 \<le> x then \<lfloor>x\<rfloor> else \<lceil>x\<rceil>)"

definition int_of_real :: "real \<Rightarrow> int" where
  "int_of_real x =
     (if - (2 ^ 31) \<le> trunc_int x \<and> trunc_int x < 2 ^ 31 then trunc_int x else - (2 ^ 31))"

definition get_stencil_start :: "real \<Rightarrow> int" where
  "get_stencil_start x = int_of_real (x - 0.5)"

text \<open>The per-axis weights as the specification words them, for a fractional offset
  \<open>f\<close>: \<open>w0 = 0.5 (0.5 - f)\<^sup>2\<close>, \<open>w1 = 0.75 - f\<^sup>2\<close>, \<open>w2 = 0.5 (0.5 + f)\<^sup>2\<close>.\<close>

definition spec_axis_weights :: "real \<Rightarrow> vec4" where
  "spec_axis_weights f = Vec4 (0.5 * (0.5 - f)\<^sup>2) (0.75 - f\<^sup>2) (0.5 * (0.5 + f)\<^sup>2) 0"

section \<open>Friction projection\<close>

text \<open>\<open>friction_project\<close> in exact arithmetic.  Its division is checked: a zero
  divisor, where the reals have no quotient, gives \<open>None\<close>.  What the division of floats
  gives beyond their range, the infinities and NaN, is in \<open>friction_project_float\<close>
  below.\<close>

definition checked_div :: "real \<Rightarrow> real \<Rightarrow> real option" where
  "checked_div a b = (if b = 0 then None else Some (a / b))"

definition friction_project :: "vec3 \<Rightarrow> vec3 \<Rightarrow> vec3 \<Rightarrow> real \<Rightarrow> vec3 option" where
  "friction_project velocity base_velocity normal friction0 =
     (let relative_vel = vsub velocity base_velocity
      in if friction0 = - 1 then Some base_velocity
         else
           let slip = (friction0 \<le> - 2);
               friction = (if slip then - friction0 - 2 else friction0);
               normal_norm = dot normal relative_vel;
               tangential_relative_vel = vsub relative_vel (vscale normal_norm normal);
               tangential_norm = vlength tangential_relative_vel
           in case checked_div (max (tangential_norm + min normal_norm 0 * friction) 0)
                     (max (1 / 10 ^ 30) tangential_norm) of
                None \<Rightarrow> None
              | Some tangential_scale \<Rightarrow>
                  let projected_relative_vel =
                        vadd (vscale tangential_scale tangential_relative_vel)
                          (vscale (max 0 (normal_norm * (if slip then 0 else 1))) normal)
                  in Some (vadd projected_relative_vel base_velocity))"

section \<open>Float values\<close>

text \<open>
  The values of a 32-bit float: \<open>Fin r\<close> is the finite value \<open>r\<close>, \<open>PInf\<close> and \<open>NInf\<close>
  are the infinities and \<open>NaN\<close> is not-a-number.  An operation on finite values whose
  exact result is beyond the largest finite float \<open>FLT_MAX\<close> gives an infinity
  (\<open>to_float\<close>); the operations on infinities and NaN are those of IEEE 754.  Within
  the range the arithmetic is exact: rounding (and with it underflow) is not modelled,
  and zero has no sign, so that a non-zero value divided by zero is the infinity of
  the sign of the dividend.
\<close>

datatype float32 = Fin real | PInf | NInf | NaN

definition flt_max :: real where
  "flt_max = 340282346638528859811704183484516925440"

definition to_float :: "real \<Rightarrow> float32" where
  "to_float r = (if flt_max < r then PInf else if r < - flt_max then NInf else Fin r)"

fun fl_neg :: "float32 \<Rightarrow> float32" where
  "fl_neg (Fin a) = Fin (- a)"
| "fl_neg PInf = NInf"
| "fl_neg NInf = PInf"
| "fl_neg NaN = NaN"

fun fl_add :: "float32 \<Rightarrow> float32 \<Rightarrow> float32" where
  "fl_add (Fin a) (Fin b) = to_float (a + b)"
| "fl_add NaN y = NaN"
| "fl_add x NaN = NaN"
| "fl_add PInf NInf = NaN"
| "fl_add NInf PInf = NaN"
| "fl_add PInf y = PInf"
| "fl_add x PInf = PInf"
| "fl_add NInf y = NInf"
| "fl_add x NInf = NInf"

definition fl_sub :: "float32 \<Rightarrow> float32 \<Rightarrow> float32" where
  "fl_sub x y = fl_add x (fl_neg y)"

fun fl_mul :: "float32 \<Rightarrow> float32 \<Rightarrow> float32" where
  "fl_mul (Fin a) (Fin b) = to_float (a * b)"
| "fl_mul NaN y = NaN"
| "fl_mul x NaN = NaN"
| "fl_mul (Fin a) PInf = (if a = 0 then NaN else if 0 < a then PInf else NInf)"
| "fl_mul (Fin a) NInf = (if a = 0 then NaN else if 0 < a then NInf else PInf)"
| "fl_mul PInf (Fin b) = (if b = 0 then NaN else if 0 < b then PInf else NInf)"
| "fl_mul NInf (Fin b) = (if b = 0 then NaN else if 0 < b then NInf else PInf)"
| "fl_mul PInf PInf = PInf"
| "fl_mul PInf NInf = NInf"
| "fl_mul NInf PInf = NInf"
| "fl_mul NInf NInf = PInf"

fun fl_div :: "float32 \<Rightarrow> float32 \<Rightarrow> float32" where
  "fl_div (Fin a) (Fin b) =
     (if b = 0 then (if a = 0 then NaN else if 0 < a then PInf else NInf) else to_float (a / b))"
| "fl_div NaN y = NaN"
| "fl_div x NaN = NaN"
| "fl_div (Fin a) PInf = Fin 0"
| "fl_div (Fin a) NInf = Fin 0"
| "fl_div PInf (Fin b) = (if 0 \<le> b then PInf else NInf)"
| "fl_div NInf (Fin b) = (if 0 \<le> b then NInf else PInf)"
| "fl_div PInf PInf = NaN"
| "fl_div PInf NInf = NaN"
| "fl_div NInf PInf = NaN"
| "fl_div NInf NInf = NaN"

fun fl_sqrt :: "float32 \<Rightarrow> float32" where
  "fl_sqrt (Fin a) = (if a < 0 then NaN else Fin (sqrt a))"
| "fl_sqrt PInf = PInf"
| "fl_sqrt NInf = NaN"
| "fl_sqrt NaN = NaN"

text \<open>The comparisons \<open><\<close>, \<open>==\<close> and \<open><=\<close>: every comparison with NaN is false.\<close>

fun fl_less :: "float32 \<Rightarrow> float32 \<Rightarrow> bool" where
  "fl_less (Fin a) (Fin b) = (a < b)"
| "fl_less NaN y = False"
| "fl_less x NaN = False"
| "fl_less PInf y = False"
| "fl_less x PInf = True"
| "fl_less NInf NInf = False"
| "fl_less NInf y = True"
| "fl_less x NInf = False"

definition fl_eq :: "float32 \<Rightarrow> float32 \<Rightarrow> bool" where
  "fl_eq x y = (x \<noteq> NaN \<and> x = y)"

definition fl_le :: "float32 \<Rightarrow> float32 \<Rightarrow> bool" where
  "fl_le x y = (fl_less x y \<or> fl_eq x y)"

text \<open>\<open>std::max(a, b)\<close> is \<open>(a < b) ? b : a\<close> and \<open>std::min(a, b)\<close> is
  \<open>(b < a) ? b : a\<close>: with a NaN argument both return \<open>a\<close>.\<close>

definition std_max :: "float32 \<Rightarrow> float32 \<Rightarrow> float32" where
  "std_max a b = (if fl_less a b then b else a)"

definition std_min :: "float32 \<Rightarrow> float32 \<Rightarrow> float32" where
  "std_min a b = (if fl_less b a then b else a)"

text \<open>Vectors and matrices of float values, with the operations of \<open>vec3\<close> and \<open>mat3\<close>
  they need, in the same order of operations; \<open>of_vec3\<close> and \<open>of_mat3\<close> take a vector or
  matrix of reals to the one of finite float values.\<close>

datatype fvec3 = FVec3 float32 float32 float32

datatype fmat3 = FMat3 fvec3 fvec3 fvec3

fun flv_add :: "fvec3 \<Rightarrow> fvec3 \<Rightarrow> fvec3" where
  "flv_add (FVec3 a b c) (FVec3 d e f) = FVec3 (fl_add a d) (fl_add b e) (fl_add c f)"

fun flv_sub :: "fvec3 \<Rightarrow> fvec3 \<Rightarrow> fvec3" where
  "flv_sub (FVec3 a b c) (FVec3 d e f) = FVec3 (fl_sub a d) (fl_sub b e) (fl_sub c f)"

fun flv_scale :: "float32 \<Rightarrow> fvec3 \<Rightarrow> fvec3" where
  "flv_scale s (FVec3 a b c) = FVec3 (fl_mul s a) (fl_mul s b) (fl_mul s c)"

fun flv_dot :: "fvec3 \<Rightarrow> fvec3 \<Rightarrow> float32" where
  "flv_dot (FVec3 a b c) (FVec3 d e f) = fl_add (fl_add (fl_mul a d) (fl_mul b e)) (fl_mul c f)"

definition flv_length :: "fvec3 \<Rightarrow> float32" where
  "flv_length v = fl_sqrt (flv_dot v v)"

fun flm_scale :: "fmat3 \<Rightarrow> float32 \<Rightarrow> fmat3" where
  "flm_scale (FMat3 a b c) s = FMat3 (flv_scale s a) (flv_scale s b) (flv_scale s c)"

fun flm_add :: "fmat3 \<Rightarrow> fmat3 \<Rightarrow> fmat3" where
  "flm_add (FMat3 a b c) (FMat3 d e f) = FMat3 (flv_add a d) (flv_add b e) (flv_add c f)"

definition flm_scalar :: "float32 \<Rightarrow> fmat3" where
  "flm_scalar s =
     FMat3 (FVec3 s (Fin 0) (Fin 0)) (FVec3 (Fin 0) s (Fin 0)) (FVec3 (Fin 0) (Fin 0) s)"

fun flm_vec :: "fmat3 \<Rightarrow> fvec3 \<Rightarrow> fvec3" where
  "flm_vec (FMat3 a b c) (FVec3 x y z) =
     flv_add (flv_add (flv_scale x a) (flv_scale y b)) (flv_scale z c)"

fun flm_mul :: "fmat3 \<Rightarrow> fmat3 \<Rightarrow> fmat3" where
  "flm_mul m (FMat3 a b c) = FMat3 (flm_vec m a) (flm_vec m b) (flm_vec m c)"

fun flm_determinant :: "fmat3 \<Rightarrow> float32" where
  "flm_determinant (FMat3 (FVec3 a b c) (FVec3 d e f) (FVec3 g h i)) =
     fl_add (fl_sub (fl_mul a (fl_sub (fl_mul e i) (fl_mul f h)))
                    (fl_mul d (fl_sub (fl_mul b i) (fl_mul c h))))
       (fl_mul g (fl_sub (fl_mul b f) (fl_mul c e)))"

fun of_vec3 :: "vec3 \<Rightarrow> fvec3" where
  "of_vec3 (Vec3 a b c) = FVec3 (Fin a) (Fin b) (Fin c)"

fun of_mat3 :: "mat3 \<Rightarrow> fmat3" where
  "of_mat3 (Mat3 a b c) = FMat3 (of_vec3 a) (of_vec3 b) (of_vec3 c)"

text \<open>\<open>friction_project\<close> on float values: the same statements, each operation the one
  on floats.\<close>

definition friction_project_float :: "fvec3 \<Rightarrow> fvec3 \<Rightarrow> fvec3 \<Rightarrow> float32 \<Rightarrow> fvec3" where
  "friction_project_float velocity base_velocity normal friction0 =
     (let relative_vel = flv_sub velocity base_velocity
      in if fl_eq friction0 (Fin (- 1)) then base_velocity
         else
           let slip = fl_le friction0 (Fin (- 2));
               friction = (if slip then fl_sub (fl_neg friction0) (Fin 2) else friction0);
               normal_norm = flv_dot normal relative_vel;
               tangential_relative_vel = flv_sub relative_vel (flv_scale normal_norm normal);
               tangential_norm = flv_length tangential_relative_vel;
               tangential_scale =
                 fl_div (std_max (fl_add tangential_norm
                                    (fl_mul (std_min normal_norm (Fin 0)) friction)) (Fin 0))
                   (std_max (Fin (1 / 10 ^ 30)) tangential_norm);
               projected_relative_vel =
                 flv_add (flv_scale tangential_scale tangential_relative_vel)
                   (flv_scale (std_max (Fin 0) (fl_mul normal_norm (Fin (if slip then 0 else 1))))
                      normal)
           in flv_add projected_relative_vel base_velocity)"

section \<open>Particles, rigid bodies and the solver state\<close>

text \<open>\<open>MPMParticle\<close> is declared outside the transfer and material code; the record holds
  the members that code reads and writes.  \<open>get_velocity\<close>, \<open>get_mass\<close>, \<open>is_rigid()\<close> and
  \<open>near_boundary()\<close> are read as fields; the members \<open>p\<close> (pressure) and \<open>T\<close> (Cauchy
  tensor) are the fields \<open>p_field\<close> and \<open>T_field\<close>, the particle's \<open>states\<close> is
  \<open>particle_states\<close>.  A material class is a record extension.\<close>

record MPMParticle =
  pos :: vec3
  velocity :: vec3
  mass :: real
  vol :: real
  apic_b :: mat3
  apic_c :: mat3
  dg_e :: mat3
  dg_p :: mat3
  dg_t :: mat3
  T_field :: mat3
  p_field :: real
  gf :: real
  tau :: real
  particle_states :: uint32
  boundary_normal :: vec3
  boundary_distance :: real
  sticky :: bool
  is_rigid :: bool
  near_boundary :: bool

text \<open>A rigid body is consumed through \<open>id\<close> (here \<open>rigid_body_id\<close>), \<open>frictions[0..1]\<close> and
  \<open>get_velocity_at\<close>; \<open>apply_tmp_impulse\<close> is recorded in the solver state.\<close>

record RigidBody =
  rigid_body_id :: nat
  frictions :: "nat \<Rightarrow> real"
  get_velocity_at :: "vec3 \<Rightarrow> vec3"

type_synonym ivec3 = "int \<times> int \<times> int"

fun iadd :: "ivec3 \<Rightarrow> ivec3 \<Rightarrow> ivec3" where
  "iadd (a, b, c) (d, e, f) = (a + d, b + e, c + f)"

text \<open>\<open>i.template cast<real>()\<close>.\<close>

fun cast_real :: "ivec3 \<Rightarrow> vec3" where
  "cast_real (a, b, c) = Vec3 (real_of_int a) (real_of_int b) (real_of_int c)"

text \<open>The members of \<open>MPM<dim>\<close> the transfer code uses.  \<open>get_rigid_body_ptr\<close> returns
  \<open>None\<close> for \<open>nullptr\<close>; \<open>tmp_impulses\<close> lists the calls of \<open>apply_tmp_impulse\<close>
  (rigid body, impulse, position) in order.\<close>

record MPM =
  delta_x :: real
  inv_delta_x :: real
  base_delta_t :: real
  gravity :: vec3
  particle_gravity :: bool
  pushing_force :: real
  penalty :: real
  rpic_damping :: real
  apic_damping :: real
  state_mask :: uint64
  res :: ivec3
  eps :: real
  grid :: "ivec3 \<Rightarrow> GridState"
  get_rigid_body_ptr :: "int \<Rightarrow> RigidBody option"
  tmp_impulses :: "(nat \<times> vec3 \<times> vec3) list"
  plasticity_counter :: int

text \<open>What the transfer code calls and this code does not define: the general kernel
  class \<open>Kernel\<close> (\<open>get_dw_w\<close> gives the gradient in lanes 0 to 2 and the weight in lane
  3, \<open>inv_D\<close>), \<open>get_grid_base_pos\<close>, \<open>grid_velocity\<close>, \<open>damp_affine_momemtum\<close>, and the
  virtual material functions \<open>calculate_force\<close> and \<open>plasticity\<close> of the particle.\<close>

record 'p Collaborators =
  get_dw_w :: "vec3 \<Rightarrow> ivec3 \<Rightarrow> vec4"
  inv_D :: real
  get_grid_base_pos :: "vec3 \<Rightarrow> ivec3"
  grid_velocity :: "(ivec3 \<Rightarrow> GridState) \<Rightarrow> ivec3 \<Rightarrow> vec3"
  damp_affine_momemtum :: "mat3 \<Rightarrow> mat3"
  calculate_force :: "'p \<Rightarrow> mat3"
  plasticity :: "mat3 \<Rightarrow> 'p \<Rightarrow> 'p \<times> int"

definition mpm_kernel_order :: nat where
  "mpm_kernel_order = 2"

definition dim :: nat where
  "dim = 3"

text \<open>\<open>RegionND<dim>(VectorI(0), VectorI(Kernel::kernel_size))\<close>: the 27 offsets, the
  last coordinate running fastest.\<close>

definition region :: "ivec3 list" where
  "region = concat (map (\<lambda>i. concat (map (\<lambda>j. map (\<lambda>k. (i, j, k)) [0, 1, 2]) [0, 1, 2])) [0, 1, 2])"

text \<open>A loop whose body may fail: the first failure ends it.  The loops over particles
  (\<open>parallel_for_each_particle\<close>) are run in list order; in exact arithmetic the sums on
  the grid do not depend on the order.\<close>

fun fold_opt :: "('a \<Rightarrow> 's \<Rightarrow> 's option) \<Rightarrow> 'a list \<Rightarrow> 's \<Rightarrow> 's option" where
  "fold_opt f [] s = Some s"
| "fold_opt f (x # xs) s = (case f x s of None \<Rightarrow> None | Some s' \<Rightarrow> fold_opt f xs s')"

section \<open>Rasterize (particle to grid)\<close>

text \<open>The body of the loop over the stencil in \<open>MPM<dim>::rasterize\<close>, for the particle
  \<open>p\<close> (after the gravity update) and the stencil offset \<open>ind\<close>.\<close>

definition rasterize_node ::
  "('a MPMParticle_scheme) Collaborators \<Rightarrow> real \<Rightarrow> bool \<Rightarrow> 'a MPMParticle_scheme \<Rightarrow> ivec3
     \<Rightarrow> MPM \<Rightarrow> MPM option" where
  "rasterize_node C delta_t with_force p ind M =
     (let pos = vscale (inv_delta_x M) (pos p);
          v = velocity p;
          mass = mass p;
          apic_b_inv_d_mass = mscale (inv_D C * mass) (apic_b p);
          mass_v = vscale mass v;
          delta_t_tmp_force =
            (if with_force then mscale delta_t (calculate_force C p) else mscalar 0);
          grid_base_pos = get_grid_base_pos C pos;
          i = iadd ind grid_base_pos;
          dpos = vsub pos (cast_real i);
          dw_w = get_dw_w C pos ind;
          g = grid M i;
          grid_state = get_states g;
          particle_state = (ucast (particle_states p) :: uint64)
      in if different_color (state_mask M) grid_state particle_state then
           (case get_rigid_body_ptr M (get_rigid_body_id (grid M i)) of
              None \<Rightarrow> Some M
            | Some r \<Rightarrow>
                let grid_pos = vscale (delta_x M) (cast_real i);
                    rigid_v = get_velocity_at r grid_pos;
                    v_acc = v
                in case friction_project v_acc rigid_v (boundary_normal p)
                          (frictions r (unat (drop_bit (2 * rigid_body_id r) particle_state) mod 2)) of
                     None \<Rightarrow> None
                   | Some projected \<Rightarrow>
                       let velocity_change = vsub v_acc projected;
                           impulse = vadd (vscale (mass * lane dw_w dim) velocity_change)
                                       (mvec delta_t_tmp_force (Vector_of dw_w))
                       in Some (M\<lparr>tmp_impulses := tmp_impulses M @ [(rigid_body_id r, impulse, grid_pos)]\<rparr>))
         else
           let delta =
                 (if mpm_kernel_order = 1 then
                    v4add (v4add (v4scale (lane dw_w dim) (VectorP mass_v mass))
                             (VectorP (vscale (delta_x M)
                                (mvec (mscale mass (apic_b p)) (Vector_of dw_w))) 0))
                      (VectorP (mvec delta_t_tmp_force (Vector_of dw_w)) 0)
                  else
                    v4scale (lane dw_w dim)
                      (v4add (VectorP (vadd mass_v (mvec apic_b_inv_d_mass dpos)) mass)
                         (VectorP (vscale (inv_delta_x M)
                            (vscale 4 (mvec (mscale (- 1) delta_t_tmp_force) dpos))) 0)))
           in Some (M\<lparr>grid := (grid M)
                     (i := g\<lparr>velocity_and_mass := v4add (velocity_and_mass g) delta\<rparr>)\<rparr>))"

text \<open>The closure run for each particle: a rigid particle is skipped, gravity is added to
  the particle's velocity when \<open>particle_gravity\<close> is set.\<close>

definition rasterize_particle ::
  "('a MPMParticle_scheme) Collaborators \<Rightarrow> real \<Rightarrow> bool \<Rightarrow> 'a MPMParticle_scheme
     \<Rightarrow> MPM \<Rightarrow> (MPM \<times> 'a MPMParticle_scheme) option" where
  "rasterize_particle C delta_t with_force p M =
     (if is_rigid p then Some (M, p)
      else
        let p1 = (if particle_gravity M
                  then p\<lparr>velocity := vadd (velocity p) (vscale delta_t (gravity M))\<rparr> else p)
        in case fold_opt (rasterize_node C delta_t with_force p1) region M of
             None \<Rightarrow> None
           | Some M' \<Rightarrow> Some (M', p1))"

fun rasterize_particles ::
  "('a MPMParticle_scheme) Collaborators \<Rightarrow> real \<Rightarrow> bool \<Rightarrow> 'a MPMParticle_scheme list
     \<Rightarrow> MPM \<Rightarrow> (MPM \<times> 'a MPMParticle_scheme list) option" where
  "rasterize_particles C delta_t with_force [] M = Some (M, [])"
| "rasterize_particles C delta_t with_force (p # ps) M =
     (case rasterize_particle C delta_t with_force p M of
        None \<Rightarrow> None
      | Some (M1, p1) \<Rightarrow>
          (case rasterize_particles C delta_t with_force ps M1 of
             None \<Rightarrow> None
           | Some (M2, ps1) \<Rightarrow> Some (M2, p1 # ps1)))"

text \<open>\<open>MPM<dim>::rasterize\<close>: the rigid bodies' temporary impulses are reset, every
  particle is rasterized; the closing \<open>apply_tmp_velocity\<close> consumes \<open>tmp_impulses\<close>
  inside the rigid bodies and leaves grid and particles as they are.\<close>

definition rasterize ::
  "('a MPMParticle_scheme) Collaborators \<Rightarrow> real \<Rightarrow> bool \<Rightarrow> 'a MPMParticle_scheme list
     \<Rightarrow> MPM \<Rightarrow> (MPM \<times> 'a MPMParticle_scheme list) option" where
  "rasterize C delta_t with_force ps M =
     rasterize_particles C delta_t with_force ps (M\<lparr>tmp_impulses := []\<rparr>)"

text \<open>The total of the mass lane over the cells of the grid.\<close>

definition grid_mass :: "ivec3 set \<Rightarrow> MPM \<Rightarrow> real" where
  "grid_mass cells M = (\<Sum>c\<in>cells. lane (velocity_and_mass (grid M c)) dim)"

section \<open>Resample (grid to particle)\<close>

definition clamp :: "real \<Rightarrow> real \<Rightarrow> real \<Rightarrow> real" where
  "clamp a lo hi = (if a < lo then lo else if a > hi then hi else a)"

fun vclamp :: "vec3 \<Rightarrow> vec3 \<Rightarrow> vec3 \<Rightarrow> vec3" where
  "vclamp (Vec3 a b c) (Vec3 l m n) (Vec3 x y z) = Vec3 (clamp a l x) (clamp b m y) (clamp c n z)"

text \<open>The branch taken when grid node and particle have different colors: the velocity
  that replaces the grid velocity, and the rigid body id remembered for the penalty.
  \<open>g\<close> is the grid node, \<open>grid_pos\<close> its world position.\<close>

definition different_color_velocity ::
  "MPM \<Rightarrow> 'a MPMParticle_scheme \<Rightarrow> GridState \<Rightarrow> vec3 \<Rightarrow> int \<Rightarrow> (vec3 \<times> int) option" where
  "different_color_velocity M p g grid_pos rigid_id0 =
     (let delta_t = base_delta_t M;
          particle_state = (ucast (particle_states p) :: uint64);
          fake_v = velocity p;
          r = get_rigid_body_ptr M (get_rigid_body_id g);
          v_g = (case r of None \<Rightarrow> vconst 0 | Some rb \<Rightarrow> get_velocity_at rb grid_pos);
          rigid_id1 = (case r of None \<Rightarrow> rigid_id0 | Some rb \<Rightarrow> get_rigid_body_id g);
          friction = (case r of None \<Rightarrow> 0
                      | Some rb \<Rightarrow>
                          frictions rb (unat (drop_bit (2 * rigid_body_id rb) particle_state) mod 2))
      in if near_boundary p then
           (case friction_project (velocity p) v_g (boundary_normal p)
                   (if sticky p then - 1 else friction) of
              None \<Rightarrow> None
            | Some projected \<Rightarrow>
                Some (vadd projected
                        (vscale (delta_t * delta_x M * pushing_force M) (boundary_normal p)),
                      rigid_id1))
         else Some (fake_v, rigid_id1))"

text \<open>The body of the stencil loop of \<open>MPM<dim>::resample\<close>; the accumulators are
  \<open>v\<close>, \<open>b\<close>, \<open>cdg\<close> and \<open>rigid_id\<close>.\<close>

definition resample_node ::
  "('a MPMParticle_scheme) Collaborators \<Rightarrow> MPM \<Rightarrow> 'a MPMParticle_scheme \<Rightarrow> ivec3
     \<Rightarrow> vec3 \<times> mat3 \<times> mat3 \<times> int \<Rightarrow> (vec3 \<times> mat3 \<times> mat3 \<times> int) option" where
  "resample_node C M p ind acc =
     (case acc of (v, b, cdg, rigid_id) \<Rightarrow>
        let pos = vscale (inv_delta_x M) (pos p);
            grid_base_pos = get_grid_base_pos C pos;
            i = iadd ind grid_base_pos;
            grid_pos = vscale (delta_x M) (cast_real i);
            g = grid M i;
            grid_vel = grid_velocity C (grid M) i;
            dpos = vsub pos (cast_real i);
            dw_w = get_dw_w C pos ind;
            grid_state = get_states g;
            particle_state = (ucast (particle_states p) :: uint64)
        in case (if different_color (state_mask M) grid_state particle_state
                 then different_color_velocity M p g grid_pos rigid_id
                 else Some (grid_vel, rigid_id)) of
             None \<Rightarrow> None
           | Some (grid_vel1, rigid_id1) \<Rightarrow>
               Some (vadd v (vscale (lane dw_w dim) grid_vel1),
                     madd b (outer_product (vscale (lane dw_w dim) grid_vel1) dpos),
                     madd cdg (outer_product grid_vel1 (Vector_of dw_w)),
                     rigid_id1))"

text \<open>The position correction by penalty that ends the closure, on the particle
  \<open>p\<close> after its position update.  The code dereferences the pointer
  \<open>get_rigid_body_ptr(rigid_id)\<close> unchecked: a null pointer there is the failure
  \<open>None\<close>.\<close>

definition boundary_penalty ::
  "MPM \<Rightarrow> int \<Rightarrow> 'a MPMParticle_scheme \<Rightarrow> (MPM \<times> 'a MPMParticle_scheme) option" where
  "boundary_penalty M rigid_id p =
     (if near_boundary p then
        if boundary_distance p < - 0.05 * delta_x M \<and> boundary_distance p > - delta_x M * 0.3
        then
          let delta_velocity = vscale (penalty M) (vscale (boundary_distance p) (boundary_normal p));
              p1 = p\<lparr>velocity := vsub (velocity p) delta_velocity\<rparr>
          in if rigid_id \<noteq> - 1 then
               (case get_rigid_body_ptr M rigid_id of
                  None \<Rightarrow> None
                | Some r \<Rightarrow>
                    Some (M\<lparr>tmp_impulses := tmp_impulses M @
                              [(rigid_body_id r, vscale (mass p1) delta_velocity, pos p1)]\<rparr>, p1))
             else Some (M, p1)
        else Some (M, p)
      else Some (M, p))"

text \<open>The closure \<open>MPM<dim>::resample\<close> runs for each particle (\<open>MLSMPM\<close> is defined).\<close>

definition resample_particle ::
  "('a MPMParticle_scheme) Collaborators \<Rightarrow> 'a MPMParticle_scheme \<Rightarrow> MPM
     \<Rightarrow> (MPM \<times> 'a MPMParticle_scheme) option" where
  "resample_particle C p M =
     (if is_rigid p then Some (M, p)
      else
        case fold_opt (resample_node C M p) region (vconst 0, mscalar 0, mscalar 0, - 1) of
          None \<Rightarrow> None
        | Some (v, b, cdg0, rigid_id) \<Rightarrow>
            let delta_t = base_delta_t M;
                p1 = (if near_boundary p then p\<lparr>apic_b := mscalar 0\<rparr>
                      else p\<lparr>apic_b := damp_affine_momemtum C b\<rparr>);
                p2 = p1\<lparr>velocity := v\<rparr>;
                cdg1 = mscale (- 4 * inv_delta_x M) b;
                cdg = madd (mscalar 1) (mscale delta_t cdg1);
                (p3, n) = plasticity C cdg p2;
                M1 = M\<lparr>plasticity_counter := plasticity_counter M + n\<rparr>;
                p4 = p3\<lparr>pos := vadd (pos p3) (vscale delta_t (velocity p3))\<rparr>;
                p5 = p4\<lparr>pos := vscale (delta_x M)
                        (vclamp (vscale (inv_delta_x M) (pos p4)) (vconst 0)
                           (vsub (cast_real (res M)) (vconst (eps M))))\<rparr>
            in boundary_penalty M1 rigid_id p5)"

fun resample_particles ::
  "('a MPMParticle_scheme) Collaborators \<Rightarrow> 'a MPMParticle_scheme list \<Rightarrow> MPM
     \<Rightarrow> (MPM \<times> 'a MPMParticle_scheme list) option" where
  "resample_particles C [] M = Some (M, [])"
| "resample_particles C (p # ps) M =
     (case resample_particle C p M of
        None \<Rightarrow> None
      | Some (M1, p1) \<Rightarrow>
          (case resample_particles C ps M1 of
             None \<Rightarrow> None
           | Some (M2, ps1) \<Rightarrow> Some (M2, p1 # ps1)))"

definition resample ::
  "('a MPMParticle_scheme) Collaborators \<Rightarrow> 'a MPMParticle_scheme list \<Rightarrow> MPM
     \<Rightarrow> (MPM \<times> 'a MPMParticle_scheme list) option" where
  "resample C ps M = resample_particles C ps (M\<lparr>tmp_impulses := []\<rparr>)"

subsection \<open>The optimized resampling of \<open>MPM<3>\<close>\<close>

text \<open>The block-local \<open>GridCache\<close>: its linearized scratch array and the two scratch
  sizes \<open>kernel_linearized\<close> uses (they come from the block sizes of the sparse grid).\<close>

record 'e GridCache =
  scratch_y_size :: nat
  scratch_z_size :: nat
  linear :: "nat \<Rightarrow> 'e"

definition kernel_linearized :: "'e GridCache \<Rightarrow> nat \<Rightarrow> nat" where
  "kernel_linearized gc x =
     (x div 9) * scratch_y_size gc * scratch_z_size gc + (x div 3 mod 3) * scratch_z_size gc
       + x mod 3"

definition grid_pos_offset :: "nat \<Rightarrow> vec3" where
  "grid_pos_offset i = Vec3 (real (i div 9)) (real (i div 3 mod 3)) (real (i mod 3))"

text \<open>The stencil offset of \<open>node_id\<close> in the linearized \<open>kernels[3][3][3]\<close>.\<close>

definition node_offset :: "nat \<Rightarrow> ivec3" where
  "node_offset i = (int (i div 9), int (i div 3 mod 3), int (i mod 3))"

text \<open>Row \<open>r\<close> of a matrix replaced: the loop \<open>for (int r = 0; r < dim; r++)\<close> updates
  \<open>b[r]\<close>, \<open>c[r]\<close> and \<open>cdg[r]\<close>.\<close>

definition rows :: "(nat \<Rightarrow> vec3) \<Rightarrow> mat3" where
  "rows f = Mat3 (f 0) (f 1) (f 2)"

text \<open>The different-color branch of \<open>block_op_rigid\<close>.  It is the branch of
  \<open>MPM<dim>::resample\<close> without the test of \<open>p.sticky\<close>: the friction passed to
  \<open>friction_project\<close> is always the rigid body's (0 without a rigid body).\<close>

definition different_color_velocity_rigid ::
  "MPM \<Rightarrow> 'a MPMParticle_scheme \<Rightarrow> GridState \<Rightarrow> vec3 \<Rightarrow> int \<Rightarrow> (vec3 \<times> int) option" where
  "different_color_velocity_rigid M p g grid_pos rigid_id0 =
     (let delta_t = base_delta_t M;
          particle_state = (ucast (particle_states p) :: uint64);
          fake_v = velocity p;
          r = get_rigid_body_ptr M (get_rigid_body_id g);
          v_g = (case r of None \<Rightarrow> vconst 0 | Some rb \<Rightarrow> get_velocity_at rb grid_pos);
          rigid_id1 = (case r of None \<Rightarrow> rigid_id0 | Some rb \<Rightarrow> get_rigid_body_id g);
          friction = (case r of None \<Rightarrow> 0
                      | Some rb \<Rightarrow>
                          frictions rb (unat (drop_bit (2 * rigid_body_id rb) particle_state) mod 2))
      in if near_boundary p then
           (case friction_project (velocity p) v_g (boundary_normal p) friction of
              None \<Rightarrow> None
            | Some projected \<Rightarrow>
                Some (vadd projected
                        (vscale (delta_t * delta_x M * pushing_force M) (boundary_normal p)),
                      rigid_id1))
         else Some (fake_v, rigid_id1))"

text \<open>The node loop body of \<open>block_op_rigid\<close>; the accumulators are \<open>v\<close>, \<open>b\<close>, \<open>c\<close>,
  \<open>cdg\<close> and \<open>rigid_id\<close>.\<close>

definition resample_rigid_node ::
  "('a MPMParticle_scheme) Collaborators \<Rightarrow> MPM \<Rightarrow> GridState GridCache \<Rightarrow> nat \<Rightarrow> vec3
     \<Rightarrow> 'a MPMParticle_scheme \<Rightarrow> nat
     \<Rightarrow> vec3 \<times> mat3 \<times> mat3 \<times> mat3 \<times> int \<Rightarrow> (vec3 \<times> mat3 \<times> mat3 \<times> mat3 \<times> int) option" where
  "resample_rigid_node C M grid_cache grid_cache_offset grid_base_pos_f p node_id acc =
     (case acc of (v, b, c, cdg, rigid_id) \<Rightarrow>
        let pos = vscale (inv_delta_x M) (pos p);
            grid_pos = vadd (grid_pos_offset node_id) grid_base_pos_f;
            dpos = vsub pos grid_pos;
            g = linear grid_cache (kernel_linearized grid_cache node_id + grid_cache_offset);
            grid_vel = Vector_of (velocity_and_mass g);
            dw_w = get_dw_w C pos (node_offset node_id);
            grid_state = get_states g;
            particle_state = (ucast (particle_states p) :: uint64)
        in case (if different_color (state_mask M) grid_state particle_state
                 then different_color_velocity_rigid M p g (vscale (delta_x M) grid_pos) rigid_id
                 else Some (grid_vel, rigid_id)) of
             None \<Rightarrow> None
           | Some (grid_vel1, rigid_id1) \<Rightarrow>
               let v1 = fused_mul_add grid_vel1 (vconst (lane dw_w dim)) v;
                   w_grid_vel = vscale (lane dw_w dim) grid_vel1;
                   b1 = rows (\<lambda>r. fused_mul_add w_grid_vel (vconst (vnth dpos r)) (mcol b r));
                   c1 = rows (\<lambda>r. fused_mul_add (mcol b1 r) (vconst (vnth dpos ((r + 1) mod 3)))
                                     (mcol c r));
                   cdg1 = rows (\<lambda>r. fused_mul_add grid_vel1 (vconst (lane dw_w r)) (mcol cdg r))
               in Some (v1, b1, c1, cdg1, rigid_id1))"

text \<open>The body \<open>block_op_rigid\<close> runs for each particle of a cell.\<close>

definition resample_rigid_particle ::
  "('a MPMParticle_scheme) Collaborators \<Rightarrow> GridState GridCache \<Rightarrow> nat \<Rightarrow> vec3
     \<Rightarrow> 'a MPMParticle_scheme \<Rightarrow> MPM \<Rightarrow> (MPM \<times> 'a MPMParticle_scheme) option" where
  "resample_rigid_particle C grid_cache grid_cache_offset grid_base_pos_f p M =
     (if is_rigid p then Some (M, p)
      else
        case fold_opt (resample_rigid_node C M grid_cache grid_cache_offset grid_base_pos_f p)
               [0..<27] (vconst 0, mscalar 0, mscalar 0, mscalar 0, - 1) of
          None \<Rightarrow> None
        | Some (v, b, c, cdg0, rigid_id) \<Rightarrow>
            let delta_t = base_delta_t M;
                p1 = (if near_boundary p then p\<lparr>apic_b := mscalar 0, apic_c := mscalar 0\<rparr>
                      else p\<lparr>apic_b := damp_affine_momemtum C b,
                              apic_c := damp_affine_momemtum C c\<rparr>);
                p2 = p1\<lparr>velocity := v\<rparr>;
                delta_t_vec = vconst delta_t;
                cdg1 = mscale (- 4 * inv_delta_x M) b;
                cdg = rows (\<lambda>i. fused_mul_add delta_t_vec (mcol cdg1 i) (vaxis i));
                (p3, n) = plasticity C cdg p2;
                M1 = M\<lparr>plasticity_counter := plasticity_counter M + n\<rparr>;
                p4 = p3\<lparr>pos := fused_mul_add (velocity p3) delta_t_vec (pos p3)\<rparr>
            in boundary_penalty M1 rigid_id p4)"

text \<open>The node loop body of \<open>block_op_normal\<close> (the macro \<open>LOOP\<close> under \<open>MLSMPM\<close>); the
  cache holds \<open>velocity_and_mass\<close> only, and the accumulators \<open>v_reg\<close>, \<open>b_reg\<close> and
  \<open>c_reg\<close> are the registers \<open>v_\<close>, \<open>b_\<close> and \<open>c_\<close>.  The registers have four lanes;
  the three of a \<open>Vector\<close> are kept.\<close>

definition resample_normal_node ::
  "vec4 GridCache \<Rightarrow> nat \<Rightarrow> vec3 \<Rightarrow> nat \<Rightarrow> vec3 \<times> mat3 \<times> mat3 \<Rightarrow> vec3 \<times> mat3 \<times> mat3" where
  "resample_normal_node grid_cache grid_cache_offset rela_pos node_id acc =
     (case acc of (v_reg, b_reg, c_reg) \<Rightarrow>
        let dpos = vsub rela_pos (grid_pos_offset node_id);
            grid_vel = Vector_of
              (linear grid_cache (kernel_linearized grid_cache node_id + grid_cache_offset));
            w = kernel_weight rela_pos node_id;
            v1 = fused_mul_add grid_vel (vconst w) v_reg;
            w_grid_vel = vscale w grid_vel;
            b1 = rows (\<lambda>r. fused_mul_add w_grid_vel (vconst (vnth dpos r)) (mcol b_reg r));
            c1 = rows (\<lambda>r. fused_mul_add (mcol b1 r) (vconst (vnth dpos ((r + 1) mod 3)))
                              (mcol c_reg r))
        in (v1, b1, c1))"

text \<open>The body \<open>block_op_normal\<close> runs for each particle of a cell; \<open>b\<close> is the block
  index the closure receives, which \<open>damp_affine_momemtum(b)\<close> converts to a matrix.\<close>

definition resample_normal_particle ::
  "('a MPMParticle_scheme) Collaborators \<Rightarrow> vec4 GridCache \<Rightarrow> uint32 \<Rightarrow> nat \<Rightarrow> vec3
     \<Rightarrow> 'a MPMParticle_scheme \<Rightarrow> MPM \<Rightarrow> MPM \<times> 'a MPMParticle_scheme" where
  "resample_normal_particle C grid_cache b grid_cache_offset grid_base_pos_f p M =
     (let delta_t = base_delta_t M;
          pos = vscale (inv_delta_x M) (pos p);
          rela_pos = vsub pos grid_base_pos_f;
          (v_reg, b_reg, c_reg) = fold (resample_normal_node grid_cache grid_cache_offset rela_pos)
                           [0..<27] (vconst 0, mscalar 0, mscalar 0);
          p1 = (if rpic_damping M \<noteq> 0 \<and> apic_damping M \<noteq> 0
                then p\<lparr>apic_b := damp_affine_momemtum C (mscalar (real (unat b)))\<rparr>
                else p\<lparr>apic_b := b_reg, apic_c := c_reg\<rparr>);
          p2 = p1\<lparr>velocity := v_reg\<rparr>;
          delta_t_vec = vconst delta_t;
          scale = - 4 * inv_delta_x M * delta_t;
          cdg = rows (\<lambda>i. fused_mul_add (vconst scale) (mcol b_reg i) (vaxis i));
          (p3, n) = plasticity C cdg p2;
          p4 = p3\<lparr>pos := fused_mul_add v_reg delta_t_vec (MPMParticle.pos p3)\<rparr>
      in (M, p4))"

section \<open>Materials\<close>

text \<open>The singular value decomposition \<open>svd(m, u, sig, v)\<close> is the library's and a
  parameter of the material functions: it returns \<open>(u, sig, v)\<close>.  For a diagonal matrix
  with non-negative entries, \<open>u = v = 1\<close> and \<open>sig = m\<close> is such a decomposition.\<close>

definition svd_of_diagonal :: "mat3 \<Rightarrow> mat3 \<times> mat3 \<times> mat3" where
  "svd_of_diagonal m = (mscalar 1, m, mscalar 1)"

text \<open>The double loop \<open>for i, for j: acc += pow(m[i][j], 2)\<close>.\<close>

definition sum_squares :: "mat3 \<Rightarrow> real" where
  "sum_squares m =
     fold (\<lambda>(i, j) acc. acc + (mentry m i j)\<^sup>2) (List.product [0..<3] [0..<3]) 0"

subsection \<open>Elastic\<close>

definition Elastic_plasticity ::
  "mat3 \<Rightarrow> real \<Rightarrow> 'a MPMParticle_scheme \<Rightarrow> 'a MPMParticle_scheme \<times> int" where
  "Elastic_plasticity cdg laplacian_gf this = (this\<lparr>dg_e := mmul cdg (dg_e this)\<rparr>, 0)"

subsection \<open>Von Mises\<close>

record VonMisesParticle = MPMParticle +
  lambda_0 :: real
  mu_0 :: real
  yield_stress :: real

definition VonMises_plasticity ::
  "(mat3 \<Rightarrow> mat3 \<times> mat3 \<times> mat3) \<Rightarrow> mat3 \<Rightarrow> real \<Rightarrow> 'a VonMisesParticle_scheme
     \<Rightarrow> 'a VonMisesParticle_scheme \<times> int" where
  "VonMises_plasticity svd cdg laplacian_gf this =
     (let this1 = this\<lparr>dg_e := mmul cdg (dg_e this)\<rparr>;
          (U, sigma, V) = svd (dg_e this1);
          epsilon = mdiag (vmap ln (diag sigma));
          trace_epsilon = trace epsilon;
          epsilon_hat = msub epsilon (mscale (trace_epsilon / real dim) (mscalar 1));
          epsilon_hat_norm = frobenius_norm2 epsilon_hat;
          delta_gamma = epsilon_hat_norm - yield_stress this / (2 * mu_0 this)
      in if delta_gamma \<le> 0 then (this1, 0)
         else
           let H = msub epsilon (mscale (delta_gamma / epsilon_hat_norm) epsilon_hat);
               exp_H = mdiag (vmap exp (diag H))
           in (this1\<lparr>dg_e := mmul (mmul U exp_H) (transpose3 V)\<rparr>, 1))"

subsection \<open>Nonlocal granular fluidity\<close>

text \<open>The lambda \<open>kinematics\<close>: the equivalent shear strain rate of the increment
  \<open>cdg\<close>.\<close>

definition kinematics :: "mat3 \<Rightarrow> real \<Rightarrow> real" where
  "kinematics cdg delta_t =
     (let I = mscalar 1;
          L = mscale (1 / delta_t) (msub cdg I);
          D = mscale 0.5 (madd L (transpose3 L));
          D_0 = D;
          gamma_dot_equ = sum_squares D_0
      in 1.414 * sqrt gamma_dot_equ)"

record NonlocalParticle = MPMParticle +
  S_mod :: real
  B_mod :: real
  A_mat :: real
  dia :: real
  rho_s :: real
  rho_c :: real
  mu_s :: real
  mu_2 :: real
  I_0 :: real
  t_0 :: real
  delta_t :: real

definition Nonlocal_plasticity ::
  "(mat3 \<Rightarrow> mat3 \<times> mat3 \<times> mat3) \<Rightarrow> mat3 \<Rightarrow> real \<Rightarrow> 'a NonlocalParticle_scheme
     \<Rightarrow> 'a NonlocalParticle_scheme \<times> int" where
  "Nonlocal_plasticity svd cdg laplacian_gf this =
     (let I = mscalar 1;
          eps = 1 / 10 ^ 20;
          p_n = p_field this;
          this1 = this\<lparr>dg_t := mmul cdg (dg_t this)\<rparr>;
          rho = mass this1 / vol this1 / determinant (dg_t this1);
          dg_el = mmul (dg_t this1) (inverse3 (dg_p this1));
          (u, sig, v) = svd dg_el;
          Re = mmul u (transpose3 v);
          log_sig = mdiag (vmap ln (diag sig));
          Ee = mmul (mmul v log_sig) (transpose3 v);
          trEe = trace Ee;
          Ee_0 = msub Ee (mscale (trEe / 3) I);
          Me = madd (mscale (2 * S_mod this) Ee_0) (mscale (B_mod this * trEe) I);
          this2 = this1\<lparr>p_field := - trace Me / 3\<rparr>
      in if rho < rho_c this \<or> p_field this2 \<le> 0 then
           (this2\<lparr>T_field := mscalar 0, dg_p := dg_t this2, p_field := 0,
                   gf := max 0 (kinematics cdg (delta_t this) / mu_2 this)\<rparr>, 0)
         else
           let mu = min (tau this2 / p_n) (mu_2 this - eps);
               gdot_loc = - ((mu_s this - mu) * gf this2)
                          - ((mu_2 this - mu_s this) / I_0 this *
                               sqrt (rho_s this * (dia this)\<^sup>2 / p_n) * mu * (gf this2)\<^sup>2);
               gdot_nonloc = (A_mat this)\<^sup>2 * (dia this)\<^sup>2 * laplacian_gf;
               this3 = this2\<lparr>gf := max 0 ((delta_t this * (gdot_loc + gdot_nonloc) / t_0 this)
                                          + gf this2)\<rparr>;
               Me_0 = madd Me (mscale (p_field this3) I);
               Me_0_mag = sqrt (sum_squares Me_0);
               tau_trial = 0.707 * Me_0_mag;
               Np = (if tau_trial > 0 then mscale (0.707 / tau_trial) Me_0 else mscalar 0);
               this4 = (if p_n = 0
                        then this3\<lparr>gf := max 0 (kinematics cdg (delta_t this) / mu_2 this)\<rparr>
                        else this3);
               this5 = this4\<lparr>tau := tau_trial * p_field this4 /
                                 max (p_field this4 + S_mod this * delta_t this * gf this4) eps\<rparr>;
               this6 = (if tau this5 < 0 then this5\<lparr>tau := 0\<rparr> else this5);
               this7 = (if tau this6 > tau_trial then this6\<lparr>tau := tau_trial\<rparr> else this6);
               Me1 = msub Me (mscale (1.414 * (tau_trial - tau this7)) Np);
               mu1 = (if p_n > 0 then min (tau this7 / max (p_field this7) eps) (mu_2 this - eps)
                      else mu_2 this);
               this8 = this7\<lparr>T_field := mscale (1 / determinant (dg_t this7))
                                 (mmul (mmul Re Me1) (transpose3 Re))\<rparr>;
               this9 = this8\<lparr>dg_p := mmul (madd I (mscale (delta_t this * 0.707 * mu1 * gf this8) Np))
                                  (dg_p this8)\<rparr>
           in (this9, 0))"

subsection \<open>Visco\<close>

text \<open>\<open>ViscoParticle::approximate_exponent\<close> calls itself with half the step until the
  determinant of the truncated exponential \<open>r = (0.5 s + 1) s + 1\<close>, \<open>s = m dt\<close>, is
  positive; a computation that does not end is the value \<open>None\<close>.  It is modelled on
  float values, where the test \<open>determinant(r) > 0\<close> is false for a NaN determinant:
  \<open>float_truncation\<close> is the matrix \<open>r\<close>, and \<open>exponent_truncation\<close> the same matrix in
  exact arithmetic.\<close>

definition exponent_truncation :: "real \<Rightarrow> mat3 \<Rightarrow> mat3" where
  "exponent_truncation dt m =
     (let s = mscale dt m
      in madd (mmul (madd (mscale 0.5 s) (mscalar 1)) s) (mscalar 1))"

definition float_truncation :: "float32 \<Rightarrow> fmat3 \<Rightarrow> fmat3" where
  "float_truncation dt m =
     (let s = flm_scale m dt
      in flm_add (flm_mul (flm_add (flm_scale s (Fin 0.5)) (flm_scalar (Fin 1))) s)
           (flm_scalar (Fin 1)))"

partial_function (option) approximate_exponent :: "float32 \<Rightarrow> fmat3 \<Rightarrow> fmat3 option" where
  "approximate_exponent dt m =
     (if fl_less (Fin 0) (flm_determinant (float_truncation dt m))
      then Some (float_truncation dt m)
      else Option.bind (approximate_exponent (fl_div dt (Fin 2)) m)
             (\<lambda>tmp. Some (flm_mul tmp tmp)))"

section \<open>Derived quantities and concrete inputs\<close>

text \<open>The deviatoric part of the logarithmic (Hencky) strain of \<open>F\<close>, the matrix
  \<open>epsilon_hat\<close> of the von Mises return mapping.\<close>

definition deviatoric_log_strain :: "(mat3 \<Rightarrow> mat3 \<times> mat3 \<times> mat3) \<Rightarrow> mat3 \<Rightarrow> mat3" where
  "deviatoric_log_strain svd F =
     (let (U, sigma, V) = svd F;
          epsilon = mdiag (vmap ln (diag sigma))
      in msub epsilon (mscale (trace epsilon / real dim) (mscalar 1)))"

text \<open>A particle at rest in the middle of its cell, with unit mass and volume and no
  deformation; \<open>ext\<close> holds the members of the material class.\<close>

definition rest_particle :: "'a \<Rightarrow> 'a MPMParticle_scheme" where
  "rest_particle ext =
     \<lparr>pos = Vec3 (1 / 2) (1 / 2) (1 / 2), velocity = Vec3 0 0 0, mass = 1, vol = 1,
      apic_b = mscalar 0, apic_c = mscalar 0, dg_e = mscalar 1, dg_p = mscalar 1,
      dg_t = mscalar 1, T_field = mscalar 0, p_field = 0, gf = 0, tau = 0,
      particle_states = 0, boundary_normal = Vec3 0 1 0, boundary_distance = 0,
      sticky = False, is_rigid = False, near_boundary = False, \<dots> = ext\<rparr>"

text \<open>A von Mises particle with \<open>mu_0 = 1\<close>, \<open>yield_stress = 3\<close> (yield radius \<open>3/2\<close>) and
  the stretch \<open>diag(e, 1, 1/e)\<close>, whose logarithmic strain is \<open>diag(1, 0, -1)\<close>.\<close>

definition von_mises_example :: VonMisesParticle where
  "von_mises_example =
     rest_particle (VonMisesParticle.fields 1 1 3)\<lparr>dg_e := mdiag (Vec3 (exp 1) 1 (exp (- 1)))\<rparr>"

text \<open>A Nonlocal particle with the default parameters of \<open>initialize\<close>; its density
  is 1, below the critical density 2000.\<close>

definition nonlocal_example :: NonlocalParticle where
  "nonlocal_example =
     rest_particle (NonlocalParticle.fields 3448.3 33333 0.48 0.005 2550 2000 0.3819 0.6435 0.278
       (1 / 1000) (1 / 10000))"

text \<open>The same particle with a stress, a pressure, a fluidity and a total deformation
  \<open>diag(2, 1, 1)\<close> that differs from the plastic one; and an increment that stretches
  the first two axes at the rates 3 and 4 for one time step \<open>1e-4\<close>.  The density of the
  stretched particle is about \<open>1/2\<close>, below the critical density.\<close>

definition stretched_nonlocal :: NonlocalParticle where
  "stretched_nonlocal =
     nonlocal_example\<lparr>dg_t := mdiag (Vec3 2 1 1), T_field := mscalar 5, p_field := 7, gf := 3\<rparr>"

definition small_stretch :: mat3 where
  "small_stretch = mdiag (Vec3 (1 + 3 / 10000) (1 + 4 / 10000) 1)"

text \<open>For the particle \<open>p\<close> and the stencil offset \<open>ind\<close>: the grid node \<open>rasterize\<close>
  addresses, whether the coloring test sends the particle to the rigid-body branch
  there, and the weight \<open>dw_w[dim]\<close>.\<close>

definition stencil_node ::
  "('a MPMParticle_scheme) Collaborators \<Rightarrow> MPM \<Rightarrow> 'a MPMParticle_scheme \<Rightarrow> ivec3 \<Rightarrow> ivec3" where
  "stencil_node C M p ind = iadd ind (get_grid_base_pos C (vscale (inv_delta_x M) (pos p)))"

definition node_cut ::
  "('a MPMParticle_scheme) Collaborators \<Rightarrow> MPM \<Rightarrow> 'a MPMParticle_scheme \<Rightarrow> ivec3 \<Rightarrow> bool" where
  "node_cut C M p ind =
     different_color (state_mask M) (get_states (grid M (stencil_node C M p ind)))
       (ucast (particle_states p))"

definition node_weight ::
  "('a MPMParticle_scheme) Collaborators \<Rightarrow> MPM \<Rightarrow> 'a MPMParticle_scheme \<Rightarrow> ivec3 \<Rightarrow> real" where
  "node_weight C M p ind = lane (get_dw_w C (vscale (inv_delta_x M) (pos p)) ind) dim"

text \<open>Concrete collaborators: the base node by \<open>get_stencil_start\<close> on each axis, a
  kernel with the weights of \<open>MLSMPMFastKernel32\<close> (the gradient lanes, which the MLS
  deposit does not read, are 0), \<open>inv_D = 4\<close>, the grid velocity read from the cell, no
  damping, no material force, and the elastic \<open>plasticity\<close>.\<close>

fun stencil_base :: "vec3 \<Rightarrow> ivec3" where
  "stencil_base (Vec3 x y z) = (get_stencil_start x, get_stencil_start y, get_stencil_start z)"

fun mls_dw_w :: "vec3 \<Rightarrow> ivec3 \<Rightarrow> vec4" where
  "mls_dw_w x (i, j, k) =
     VectorP (Vec3 0 0 0) (lane (kernels (vsub x (cast_real (stencil_base x))) (nat i) (nat j)) (nat k))"

definition demo_collaborators :: "('a MPMParticle_scheme) Collaborators" where
  "demo_collaborators =
     \<lparr>get_dw_w = mls_dw_w, inv_D = 4, get_grid_base_pos = stencil_base,
      grid_velocity = (\<lambda>g i. Vector_of (velocity_and_mass (g i))),
      damp_affine_momemtum = (\<lambda>m. m),
      calculate_force = (\<lambda>p. mscalar 0),
      plasticity = (\<lambda>cdg p. Elastic_plasticity cdg 0 p)\<rparr>"

text \<open>A solver with unit grid spacing, no gravity, no rigid body, and the grid
  \<open>cells_of\<close>; \<open>demo_cells\<close> are the 27 nodes of the stencil of a particle whose base node
  is the origin.\<close>

definition demo_mpm :: "(ivec3 \<Rightarrow> GridState) \<Rightarrow> MPM" where
  "demo_mpm cells_of =
     \<lparr>delta_x = 1, inv_delta_x = 1, base_delta_t = 1 / 10000, gravity = Vec3 0 0 0,
      particle_gravity = False, pushing_force = 0, penalty = 0, rpic_damping = 0,
      apic_damping = 0, state_mask = 0xAAAAAAAAAAAAAAAA, res = (4, 4, 4),
      eps = 1 / 1000000, grid = cells_of, get_rigid_body_ptr = (\<lambda>i. None),
      tmp_impulses = [], plasticity_counter = 0\<rparr>"

definition demo_cells :: "ivec3 set" where
  "demo_cells = set region"

text \<open>An empty grid; and a grid whose nodes are all tagged active for rigid body 0 on
  side 1 (tag bits \<open>11\<close>), with a particle tagged active for rigid body 0 on side 0 (tag
  bits \<open>10\<close>).\<close>

definition empty_grid :: "ivec3 \<Rightarrow> GridState" where
  "empty_grid = (\<lambda>c. zero_cell)"

definition far_side_grid :: "ivec3 \<Rightarrow> GridState" where
  "far_side_grid = (\<lambda>c. zero_cell\<lparr>states := 3\<rparr>)"

definition near_side_particle :: "unit MPMParticle_scheme" where
  "near_side_particle = rest_particle ()\<lparr>particle_states := 2\<rparr>"

text \<open>A non-rigid particle near a boundary; and a velocity-and-mass cache of a
  4 x 4 x 4 block whose first node moves with velocity \<open>(1, 0, 0)\<close> and has mass 1 while
  every other node is empty.\<close>

definition boundary_particle :: "unit MPMParticle_scheme" where
  "boundary_particle = rest_particle ()\<lparr>near_boundary := True\<rparr>"

definition one_node_cache :: "vec4 GridCache" where
  "one_node_cache =
     \<lparr>scratch_y_size = 6, scratch_z_size = 6,
      linear = (\<lambda>n. if n = 0 then Vec4 1 0 0 1 else Vec4 0 0 0 0)\<rparr>"

text \<open>The same moving node as a grid cell, in a grid and in the cell cache of a block;
  a particle that carries the affine matrices \<open>apic_b = apic_c = 1\<close>, near a boundary
  or not; and the matrix \<open>apic_b\<close> the moving node gives a particle in the middle of
  its cell away from a boundary.\<close>

definition moving_cell :: GridState where
  "moving_cell = zero_cell\<lparr>velocity_and_mass := Vec4 1 0 0 1\<rparr>"

definition moving_grid :: "ivec3 \<Rightarrow> GridState" where
  "moving_grid = (\<lambda>c. if c = (0, 0, 0) then moving_cell else zero_cell)"

definition moving_cache :: "GridState GridCache" where
  "moving_cache =
     \<lparr>scratch_y_size = 6, scratch_z_size = 6,
      linear = (\<lambda>n. if n = 0 then moving_cell else zero_cell)\<rparr>"

definition loaded_particle :: "bool \<Rightarrow> unit MPMParticle_scheme" where
  "loaded_particle nb =
     rest_particle ()\<lparr>near_boundary := nb, apic_b := mscalar 1, apic_c := mscalar 1\<rparr>"

definition sixteenths :: mat3 where
  "sixteenths = Mat3 (Vec3 (1 / 16) 0 0) (Vec3 (1 / 16) 0 0) (Vec3 (1 / 16) 0 0)"

text \<open>Bounds on the components of a vector and on the entries of a matrix.\<close>

definition vbound :: "real \<Rightarrow> vec3 \<Rightarrow> bool" where
  "vbound B u = (\<bar>vx u\<bar> \<le> B \<and> \<bar>vy u\<bar> \<le> B \<and> \<bar>vz u\<bar> \<le> B)"

definition mbound :: "real \<Rightarrow> mat3 \<Rightarrow> bool" where
  "mbound B m = (vbound B (mcol m 0) \<and> vbound B (mcol m 1) \<and> vbound B (mcol m 2))"

text \<open>A matrix with the eigenvalues \<open>-1 + i\<close>, \<open>-1 - i\<close> and 0, for which the truncated
  exponential at \<open>dt = 1\<close> is singular; a float matrix with one NaN entry; the zero
  matrix; and two kinds of arguments that stay as they are when \<open>dt\<close> is halved: the
  matrix with the NaN entry at any step, and the zero matrix at an infinite step.\<close>

definition rotating_matrix :: mat3 where
  "rotating_matrix = Mat3 (Vec3 (- 1) 1 0) (Vec3 (- 1) (- 1) 0) (Vec3 0 0 0)"

definition nan_matrix :: fmat3 where
  "nan_matrix = FMat3 (FVec3 NaN (Fin 0) (Fin 0)) (FVec3 (Fin 0) (Fin 0) (Fin 0))
     (FVec3 (Fin 0) (Fin 0) (Fin 0))"

definition zero_matrix :: fmat3 where
  "zero_matrix = FMat3 (FVec3 (Fin 0) (Fin 0) (Fin 0)) (FVec3 (Fin 0) (Fin 0) (Fin 0))
     (FVec3 (Fin 0) (Fin 0) (Fin 0))"

definition stuck :: "float32 \<Rightarrow> fmat3 \<Rightarrow> bool" where
  "stuck dt m = (m = nan_matrix \<or> (dt = PInf \<and> m = zero_matrix))"

section \<open>Properties of the grid state words\<close>

lemma grid_state_constants:
  "tag_mask = mask 24" "id_mask = NOT (mask 24)" "tag_bits = 24"
  by (simp_all add: tag_mask_def id_mask_def tag_bits_def id_bits_def total_bits_def
      max_num_rigid_bodies_def mask_eq_exp_minus_1)

lemma low_tag_word:
  fixes w :: uint32
  assumes "w AND NOT tag_mask = 0"
  shows "w = take_bit 24 w"
proof -
  have "w = (w AND mask 24) OR (w AND NOT (mask 24))"
    by (rule bit_word_eqI) (auto simp: bit_simps)
  then have "w = w AND mask 24"
    using assms by (simp add: grid_state_constants)
  then show ?thesis
    by (simp add: take_bit_eq_mask)
qed

lemma id_bits_after_set_states:
  fixes s w :: uint32
  shows "drop_bit 24 ((s AND NOT (mask 24)) OR take_bit 24 w) = drop_bit 24 s"
proof (rule bit_word_eqI)
  fix n
  assume "n < LENGTH(32)"
  have "bit s (24 + n) \<Longrightarrow> n < 8"
    using bit_imp_le_length [of s "24 + n"] by simp
  then show "bit (drop_bit 24 ((s AND NOT (mask 24)) OR take_bit 24 w)) n = bit (drop_bit 24 s) n"
    by (auto simp: bit_simps)
qed

lemma tag_bits_after_set_states:
  fixes s w :: uint32
  shows "((s AND NOT (mask 24)) OR take_bit 24 w) AND mask 24 = take_bit 24 w"
  by (rule bit_word_eqI) (auto simp: bit_simps)

lemma set_states_keeps_id:
  assumes "new_states AND NOT tag_mask = 0"
  shows "get_rigid_body_id (set_states new_states g) = get_rigid_body_id g"
proof -
  have "new_states = take_bit 24 new_states"
    using assms by (rule low_tag_word)
  then have "drop_bit 24 ((states g AND NOT (mask 24)) OR new_states) = drop_bit 24 (states g)"
    using id_bits_after_set_states [of "states g" new_states] by simp
  then show ?thesis
    by (simp only: get_rigid_body_id_def set_states_def grid_state_constants) simp
qed

lemma set_states_stores_tags:
  assumes "new_states AND NOT tag_mask = 0"
  shows "get_states (set_states new_states g) = ucast new_states"
proof -
  have e: "new_states = take_bit 24 new_states"
    using assms by (rule low_tag_word)
  have "((states g AND NOT (mask 24)) OR new_states) AND mask 24 = new_states"
    using tag_bits_after_set_states [of "states g" new_states] e by simp
  then show ?thesis
    by (simp add: get_states_def set_states_def grid_state_constants)
qed

lemma id_bits_after_set_id:
  fixes s w :: uint32
  shows "drop_bit 24 ((s AND NOT (NOT (mask 24))) OR push_bit 24 w) = take_bit 8 w"
  by (rule bit_word_eqI) (auto simp: bit_simps)

lemma small_id_decodes:
  fixes i :: uint32
  assumes "0 \<le> sint i" "sint i < 255"
  shows "sint (take_bit 8 (i + 1) - 1) = sint i"
proof -
  define k where "k = sint i"
  have i: "i = word_of_int k" by (simp add: k_def)
  have k: "0 \<le> k" "k < 255" using assms by (simp_all add: k_def)
  have "uint i = k"
    unfolding i using k by (simp add: uint_word_of_int_eq take_bit_int_eq_self)
  then have "uint i < 255" using k by simp
  then have "i + 1 < 2 ^ 8"
    by uint_arith
  then have "(i + 1) AND mask 8 = i + 1"
    by (rule less_mask_eq)
  then have "take_bit 8 (i + 1) = i + 1"
    by (simp add: take_bit_eq_mask)
  then show ?thesis by simp
qed

lemma set_rigid_body_id_decodes:
  assumes "0 \<le> sint i" "sint i < 255"
  shows "get_rigid_body_id (set_rigid_body_id i g) = sint i"
proof -
  have "get_rigid_body_id (set_rigid_body_id i g) =
      sint (drop_bit 24 ((states g AND NOT (NOT (mask 24))) OR push_bit 24 (i + 1)) - 1)"
    by (simp only: get_rigid_body_id_def set_rigid_body_id_def grid_state_constants) simp
  also have "\<dots> = sint (take_bit 8 (i + 1) - 1)"
    by (simp only: id_bits_after_set_id)
  also have "\<dots> = sint i"
    using assms by (rule small_id_decodes)
  finally show ?thesis .
qed

lemma set_rigid_body_id_keeps_tags:
  "get_states (set_rigid_body_id i g) = get_states g"
proof -
  have "((states g AND mask 24) OR push_bit 24 (i + 1)) AND mask 24 = states g AND mask 24"
    by (rule bit_word_eqI) (auto simp: bit_simps)
  then show ?thesis
    by (simp add: get_states_def set_rigid_body_id_def grid_state_constants)
qed

text \<open>
  C7, as stated, fails for \<open>set_states\<close>: the function ORs its whole 32-bit argument
  into \<open>states\<close>, so an argument with a bit above the 24 tag bits changes the rigid body
  id.  On the empty cell, \<open>set_states(0x1000000)\<close> turns the id from \<open>-1\<close> (none) into
  \<open>0\<close>.
\<close>

theorem set_states_high_bit_changes_id:
  "get_rigid_body_id zero_cell = - 1 \<and>
   get_rigid_body_id (set_states 0x1000000 zero_cell) = 0"
  by (simp add: get_rigid_body_id_def set_states_def zero_cell_def tag_mask_def tag_bits_def
      max_num_rigid_bodies_def)

text \<open>
  C7 (amended): for every grid cell and every rigid body id \<open>i\<close> with \<open>0 \<le> i < 2\<^sup>8 - 1\<close>,
  after \<open>set_rigid_body_id(i)\<close> the id read back is \<open>i\<close> and the 24 tag bits read by
  \<open>get_states()\<close> are unchanged; and for every \<open>new_states\<close> that has no bit above the
  24 tag bits, \<open>set_states(new_states)\<close> leaves the id unchanged and makes
  \<open>get_states()\<close> return \<open>new_states\<close>.
\<close>

theorem grid_state_id_and_tags_independent:
  assumes "0 \<le> sint i" and "sint i < 2 ^ 8 - 1" and "new_states AND NOT tag_mask = 0"
  shows "get_rigid_body_id (set_rigid_body_id i g) = sint i
       \<and> get_states (set_rigid_body_id i g) = get_states g
       \<and> get_rigid_body_id (set_states new_states g) = get_rigid_body_id g
       \<and> get_states (set_states new_states g) = ucast new_states"
  using assms
  by (simp add: set_rigid_body_id_decodes set_rigid_body_id_keeps_tags set_states_keeps_id
      set_states_stores_tags)

theorem grid_state_id_and_tags_independent_witness:
  "(0 :: int) \<le> sint (3 :: uint32) \<and> sint (3 :: uint32) < 2 ^ 8 - 1
     \<and> (5 :: uint32) AND NOT tag_mask = 0
     \<and> get_rigid_body_id (set_rigid_body_id 3 zero_cell) = 3
     \<and> get_states (set_rigid_body_id 3 zero_cell) = get_states zero_cell
     \<and> get_rigid_body_id (set_states 5 zero_cell) = get_rigid_body_id zero_cell
     \<and> get_states (set_states 5 zero_cell) = 5"
proof -
  have a: "(0 :: int) \<le> sint (3 :: uint32)" by simp
  have b: "sint (3 :: uint32) < 2 ^ 8 - 1" by simp
  have c: "(5 :: uint32) AND NOT tag_mask = 0"
    by (simp add: tag_mask_def tag_bits_def max_num_rigid_bodies_def)
  show ?thesis
    using grid_state_id_and_tags_independent [OF a b c, of zero_cell] a b c by simp
qed

section \<open>Properties of the coloring test\<close>

lemma odd_bits_24: "bit (0xAAAAAA :: uint64) k \<longleftrightarrow> k < 24 \<and> odd k"
proof (cases "k < 24")
  case True
  then have "k \<in> {0,1,2,3,4,5,6,7,8,9,10,11,12,13,14,15,16,17,18,19,20,21,22,23}"
    by simp presburger
  then show ?thesis
    by (elim insertE emptyE) (simp_all add: bit_numeral_word_iff)
next
  case False
  have "take_bit 24 (0xAAAAAA :: uint64) = 0xAAAAAA" by simp
  then have "bit (0xAAAAAA :: uint64) k = bit (take_bit 24 (0xAAAAAA :: uint64)) k" by simp
  also have "\<dots> = False" using False by (simp only: bit_take_bit_iff) simp
  finally show ?thesis using False by simp
qed

lemma bit_below_24:
  fixes w :: uint64
  assumes "w < 2 ^ 24" "bit w k"
  shows "k < 24"
proof -
  have "w AND mask 24 = w" using assms(1) by (rule less_mask_eq)
  then have "bit (take_bit 24 w) k" using assms(2) by (simp add: take_bit_eq_mask)
  then show ?thesis by (simp add: bit_take_bit_iff)
qed

lemma different_color_bits:
  "different_color sm gs ps \<longleftrightarrow>
     (\<exists>n. bit gs (Suc n) \<and> bit ps (Suc n) \<and> bit sm (Suc n) \<and> bit gs n \<noteq> bit ps n)"
proof -
  define m where "m = color_mask sm gs ps"
  have m: "bit m n \<longleftrightarrow> bit gs (Suc n) \<and> bit ps (Suc n) \<and> bit sm (Suc n)" for n
    by (simp add: m_def color_mask_def bit_drop_bit_eq bit_and_iff)
  have "(gs AND m) \<noteq> (ps AND m) \<longleftrightarrow> (\<exists>n. bit (gs AND m) n \<noteq> bit (ps AND m) n)"
  proof
    assume ne: "(gs AND m) \<noteq> (ps AND m)"
    show "\<exists>n. bit (gs AND m) n \<noteq> bit (ps AND m) n"
    proof (rule ccontr)
      assume "\<not> (\<exists>n. bit (gs AND m) n \<noteq> bit (ps AND m) n)"
      then have "gs AND m = ps AND m" by (intro bit_eqI) simp
      with ne show False by simp
    qed
  next
    assume "\<exists>n. bit (gs AND m) n \<noteq> bit (ps AND m) n"
    then show "(gs AND m) \<noteq> (ps AND m)" by auto
  qed
  also have "\<dots> \<longleftrightarrow> (\<exists>n. bit m n \<and> bit gs n \<noteq> bit ps n)"
    by (auto simp: bit_and_iff)
  finally show ?thesis
    unfolding different_color_def Let_def m_def [symmetric] by (auto simp: m)
qed

text \<open>
  C2: for 24-bit state words \<open>grid_state\<close> and \<open>particle_state\<close>, and a \<open>state_mask\<close>
  whose low 24 bits are the "active" bits \<open>2r + 1\<close> (\<open>0xAAAAAA\<close>), the test
  \<open>(grid_state & mask) != (particle_state & mask)\<close> with
  \<open>mask = (grid_state & particle_state & state_mask) >> 1\<close> holds if and only if for
  some rigid body \<open>r < 12\<close> bit \<open>2r + 1\<close> is set in both words and bit \<open>2r\<close> differs.
\<close>

theorem different_color_iff_opposite_sides:
  assumes sm: "take_bit 24 sm = 0xAAAAAA" and gs: "gs < 2 ^ 24" and ps: "ps < 2 ^ 24"
  shows "different_color sm gs ps \<longleftrightarrow>
    (\<exists>r<12. bit gs (2 * r + 1) \<and> bit ps (2 * r + 1) \<and> bit gs (2 * r) \<noteq> bit ps (2 * r))"
proof -
  have smk: "bit sm k \<longleftrightarrow> odd k" if "k < 24" for k
  proof -
    have "bit sm k = bit (take_bit 24 sm) k" using that by (simp add: bit_take_bit_iff)
    also have "\<dots> = bit (0xAAAAAA :: uint64) k" by (simp only: sm)
    also have "\<dots> = odd k" using that by (simp only: odd_bits_24) simp
    finally show ?thesis .
  qed
  show ?thesis
  proof
    assume "different_color sm gs ps"
    then obtain n where n: "bit gs (Suc n)" "bit ps (Suc n)" "bit sm (Suc n)" "bit gs n \<noteq> bit ps n"
      unfolding different_color_bits by blast
    have lt: "Suc n < 24" using gs n(1) by (rule bit_below_24)
    then have "odd (Suc n)" using n(3) smk by blast
    then obtain r where r: "n = 2 * r" by (auto elim: evenE)
    with lt have "r < 12" by simp
    with n r show "\<exists>r<12. bit gs (2 * r + 1) \<and> bit ps (2 * r + 1) \<and> bit gs (2 * r) \<noteq> bit ps (2 * r)"
      by auto
  next
    assume "\<exists>r<12. bit gs (2 * r + 1) \<and> bit ps (2 * r + 1) \<and> bit gs (2 * r) \<noteq> bit ps (2 * r)"
    then obtain r where r: "r < 12" "bit gs (2 * r + 1)" "bit ps (2 * r + 1)"
        "bit gs (2 * r) \<noteq> bit ps (2 * r)"
      by blast
    have "bit sm (Suc (2 * r))" using smk [of "Suc (2 * r)"] r(1) by simp
    then show "different_color sm gs ps"
      unfolding different_color_bits using r by (intro exI [of _ "2 * r"]) simp
  qed
qed

theorem different_color_iff_opposite_sides_witness:
  "take_bit 24 (0xAAAAAAAAAAAAAAAA :: uint64) = 0xAAAAAA
     \<and> (3 :: uint64) < 2 ^ 24 \<and> (2 :: uint64) < 2 ^ 24
     \<and> different_color 0xAAAAAAAAAAAAAAAA 3 2
     \<and> (\<exists>r<12. bit (3 :: uint64) (2 * r + 1) \<and> bit (2 :: uint64) (2 * r + 1)
           \<and> bit (3 :: uint64) (2 * r) \<noteq> bit (2 :: uint64) (2 * r))"
proof -
  have a: "take_bit 24 (0xAAAAAAAAAAAAAAAA :: uint64) = 0xAAAAAA" by simp
  have b: "(3 :: uint64) < 2 ^ 24" by simp
  have c: "(2 :: uint64) < 2 ^ 24" by simp
  have d: "different_color 0xAAAAAAAAAAAAAAAA 3 2"
    by (simp add: different_color_def color_mask_def)
  show ?thesis
    using different_color_iff_opposite_sides [OF a b c] a b c d by blast
qed

section \<open>Properties of the MLS-MPM fast kernel\<close>

lemma w_cache_spec: "w_cache rp k = spec_axis_weights (vnth (p_fract rp) k - 1 / 2)"
  by (simp add: w_cache_def spec_axis_weights_def fmadd_def make_float4_def set1_def Let_def
      power2_eq_square algebra_simps)

lemma w_cache_lanes_sum:
  "lane (w_cache rp k) 0 + lane (w_cache rp k) 1 + lane (w_cache rp k) 2 = 1"
  by (simp add: w_cache_spec spec_axis_weights_def power2_eq_square algebra_simps)

lemma kernel_weight_product:
  "kernel_weight rp n =
     lane (w_cache rp 0) (n div 9) * lane (w_cache rp 1) (n div 3 mod 3)
       * lane (w_cache rp 2) (n mod 3)"
proof -
  obtain a b c d where w: "w_cache rp 2 = Vec4 a b c d" by (cases "w_cache rp 2")
  show ?thesis
    by (simp add: kernel_weight_def kernels_def set1_def w)
qed

lemma sum_27_nodes:
  fixes f :: "nat \<Rightarrow> real"
  shows "(\<Sum>n<27. f n) = f 0 + f 1 + f 2 + f 3 + f 4 + f 5 + f 6 + f 7 + f 8 + f 9 + f 10
     + f 11 + f 12 + f 13 + f 14 + f 15 + f 16 + f 17 + f 18 + f 19 + f 20 + f 21 + f 22
     + f 23 + f 24 + f 25 + f 26"
  by (simp add: eval_nat_numeral lessThan_Suc algebra_simps)

lemma kernel_weight_sum: "(\<Sum>n<27. kernel_weight rp n) = 1"
proof -
  define a where "a = lane (w_cache rp 0)"
  define b where "b = lane (w_cache rp 1)"
  define c where "c = lane (w_cache rp 2)"
  have "(\<Sum>n<27. kernel_weight rp n) = (\<Sum>n<27. a (n div 9) * b (n div 3 mod 3) * c (n mod 3))"
    by (simp only: kernel_weight_product a_def b_def c_def)
  also have "\<dots> = (a 0 + a 1 + a 2) * (b 0 + b 1 + b 2) * (c 0 + c 1 + c 2)"
    unfolding sum_27_nodes by (simp add: algebra_simps flip: numeral_2_eq_2)
  also have "\<dots> = 1"
    using w_cache_lanes_sum [of rp 0] w_cache_lanes_sum [of rp 1] w_cache_lanes_sum [of rp 2]
    by (simp add: a_def b_def c_def)
  finally show ?thesis .
qed

lemma spec_axis_weights_sum:
  "lane (spec_axis_weights f) 0 + lane (spec_axis_weights f) 1 + lane (spec_axis_weights f) 2 = 1"
  by (simp add: spec_axis_weights_def power2_eq_square algebra_simps)

lemma sum_3_axes:
  fixes f :: "nat \<Rightarrow> real"
  shows "(\<Sum>i<3. f i) = f 0 + f 1 + f 2"
  by (simp add: eval_nat_numeral lessThan_Suc algebra_simps)

lemma spec_weights_sum:
  "(\<Sum>i<3. \<Sum>j<3. \<Sum>k<3. lane (spec_axis_weights fx) i * lane (spec_axis_weights fy) j
      * lane (spec_axis_weights fz) k) = 1"
proof -
  have "(\<Sum>i<3. \<Sum>j<3. \<Sum>k<3. lane (spec_axis_weights fx) i * lane (spec_axis_weights fy) j
      * lane (spec_axis_weights fz) k)
    = (\<Sum>i<3. lane (spec_axis_weights fx) i) * (\<Sum>j<3. lane (spec_axis_weights fy) j)
        * (\<Sum>k<3. lane (spec_axis_weights fz) k)"
    unfolding sum_3_axes by (simp add: algebra_simps)
  also have "\<dots> = 1"
    unfolding sum_3_axes by (simp only: spec_axis_weights_sum mult_1)
  finally show ?thesis .
qed

text \<open>
  The offset the formulas are evaluated at is the centred one: a particle whose
  position relative to the base node is \<open>0.5\<close> on an axis (\<open>p_fract\<close> is 0 there) has
  the per-axis weights \<open>(1/2, 1/2, 0)\<close>, the formulas at \<open>-0.5\<close>; at 0 the formulas
  give \<open>(1/8, 3/4, 1/8)\<close>.  Both triples sum to 1.
\<close>

lemma fast_kernel_weights_at_offset_zero:
  "vnth (p_fract (Vec3 (1 / 2) (1 / 2) (1 / 2))) 0 = 0
     \<and> w_cache (Vec3 (1 / 2) (1 / 2) (1 / 2)) 0 = Vec4 (1 / 2) (1 / 2) 0 0
     \<and> spec_axis_weights 0 = Vec4 (1 / 8) (3 / 4) (1 / 8) 0"
  by (simp add: w_cache_def p_fract_def vconst_def fmadd_def make_float4_def set1_def Let_def
      spec_axis_weights_def power2_eq_square)

text \<open>
  C3: for every particle position, in exact arithmetic, the 27 stencil weights of the
  kernel sum to exactly 1.  The weight of the node \<open>(i, j, k)\<close> is the product of the
  per-axis weights \<open>w0 = 0.5 (0.5 - f)\<^sup>2\<close>, \<open>w1 = 0.75 - f\<^sup>2\<close>, \<open>w2 = 0.5 (0.5 + f)\<^sup>2\<close>,
  which the kernel evaluates at the offset of the particle from the centre of its
  stencil; and the 27 products of these formulas sum to exactly 1 at every offset
  \<open>f\<close>, on each axis, whatever its range.
\<close>

theorem mls_kernel_partition_of_unity:
  "kernel_weight rp node_id =
       lane (spec_axis_weights (vnth (p_fract rp) 0 - 1 / 2)) (node_id div 9)
     * lane (spec_axis_weights (vnth (p_fract rp) 1 - 1 / 2)) (node_id div 3 mod 3)
     * lane (spec_axis_weights (vnth (p_fract rp) 2 - 1 / 2)) (node_id mod 3)
   \<and> (\<Sum>node_id<27. kernel_weight rp node_id) = 1
   \<and> (\<Sum>i<3. \<Sum>j<3. \<Sum>k<3. lane (spec_axis_weights fx) i * lane (spec_axis_weights fy) j
          * lane (spec_axis_weights fz) k) = 1"
proof (intro conjI)
  show "kernel_weight rp node_id =
       lane (spec_axis_weights (vnth (p_fract rp) 0 - 1 / 2)) (node_id div 9)
     * lane (spec_axis_weights (vnth (p_fract rp) 1 - 1 / 2)) (node_id div 3 mod 3)
     * lane (spec_axis_weights (vnth (p_fract rp) 2 - 1 / 2)) (node_id mod 3)"
    by (simp only: kernel_weight_product w_cache_spec)
  show "(\<Sum>node_id<27. kernel_weight rp node_id) = 1"
    by (rule kernel_weight_sum)
  show "(\<Sum>i<3. \<Sum>j<3. \<Sum>k<3. lane (spec_axis_weights fx) i * lane (spec_axis_weights fy) j
          * lane (spec_axis_weights fz) k) = 1"
    by (rule spec_weights_sum)
qed

section \<open>Properties of the friction projection\<close>

lemma length2_nonneg: "0 \<le> length2 u"
  by (cases u) (simp add: length2_def)

lemma vlength_nonneg: "0 \<le> vlength u"
  by (simp add: vlength_def length2_nonneg)


lemma friction_divisor_positive: "0 < max (1 / 10 ^ 30) (vlength u)"
  by (simp add: max_def)

lemma friction_project_defined: "\<exists>r. friction_project v v_base n mu = Some r"
proof -
  have "checked_div a (max (1 / 10 ^ 30) (vlength u)) = Some (a / max (1 / 10 ^ 30) (vlength u))"
    for a u
    using friction_divisor_positive [of u] by (simp add: checked_div_def)
  then show ?thesis
    by (simp add: friction_project_def Let_def)
qed




section \<open>Float arithmetic within its range\<close>

lemma abs_prod_le:
  fixes x y :: real
  assumes "\<bar>x\<bar> \<le> p" "\<bar>y\<bar> \<le> q"
  shows "\<bar>x * y\<bar> \<le> p * q"
proof -
  have "\<bar>x\<bar> * \<bar>y\<bar> \<le> p * q"
    using assms by (intro mult_mono) auto
  then show ?thesis by (simp add: abs_mult)
qed

lemma to_float_fin: "\<bar>r\<bar> \<le> flt_max \<Longrightarrow> to_float r = Fin r"
  by (auto simp: to_float_def)

lemma fl_add_fin: "\<bar>a + b\<bar> \<le> flt_max \<Longrightarrow> fl_add (Fin a) (Fin b) = Fin (a + b)"
  by (simp add: to_float_fin)

lemma fl_sub_fin: "\<bar>a - b\<bar> \<le> flt_max \<Longrightarrow> fl_sub (Fin a) (Fin b) = Fin (a - b)"
  by (simp add: fl_sub_def to_float_fin)

lemma fl_mul_fin: "\<bar>a * b\<bar> \<le> flt_max \<Longrightarrow> fl_mul (Fin a) (Fin b) = Fin (a * b)"
  by (simp add: to_float_fin)

lemma vbound_nonneg: "vbound B u \<Longrightarrow> 0 \<le> B"
  by (simp add: vbound_def) linarith

lemma vbound_mono: "vbound A u \<Longrightarrow> A \<le> B \<Longrightarrow> vbound B u"
  by (simp add: vbound_def)

lemma vsub_bound: "vbound A u \<Longrightarrow> vbound B w \<Longrightarrow> vbound (A + B) (vsub u w)"
  by (cases u; cases w) (simp add: vbound_def, linarith)

lemma vadd_bound: "vbound A u \<Longrightarrow> vbound B w \<Longrightarrow> vbound (A + B) (vadd u w)"
  by (cases u; cases w) (simp add: vbound_def, linarith)

lemma vscale_bound: "\<bar>c\<bar> \<le> C \<Longrightarrow> vbound B u \<Longrightarrow> vbound (C * B) (vscale c u)"
  by (cases u) (simp add: vbound_def abs_prod_le)

lemma flv_sub_fin:
  assumes "vbound A u" "vbound B w" "A + B \<le> flt_max"
  shows "flv_sub (of_vec3 u) (of_vec3 w) = of_vec3 (vsub u w)"
proof -
  have "vbound flt_max (vsub u w)"
    using vsub_bound [OF assms(1,2)] assms(3) by (rule vbound_mono)
  then show ?thesis
    by (cases u; cases w) (simp add: vbound_def fl_sub_fin)
qed

lemma flv_add_fin:
  assumes "vbound A u" "vbound B w" "A + B \<le> flt_max"
  shows "flv_add (of_vec3 u) (of_vec3 w) = of_vec3 (vadd u w)"
proof -
  have "vbound flt_max (vadd u w)"
    using vadd_bound [OF assms(1,2)] assms(3) by (rule vbound_mono)
  then show ?thesis
    by (cases u; cases w) (auto simp: vbound_def to_float_fin)
qed

lemma flv_scale_fin:
  assumes "\<bar>c\<bar> \<le> C" "vbound B u" "C * B \<le> flt_max"
  shows "flv_scale (Fin c) (of_vec3 u) = of_vec3 (vscale c u)"
proof -
  have "vbound flt_max (vscale c u)"
    using vscale_bound [OF assms(1,2)] assms(3) by (rule vbound_mono)
  then show ?thesis
    by (cases u) (auto simp: vbound_def to_float_fin)
qed

lemma dot_bound:
  assumes "vbound A u" "vbound B w"
  shows "\<bar>dot u w\<bar> \<le> 3 * (A * B)"
proof -
  obtain a b c where u: "u = Vec3 a b c" by (cases u)
  obtain d e f where w: "w = Vec3 d e f" by (cases w)
  have "\<bar>a * d\<bar> \<le> A * B" "\<bar>b * e\<bar> \<le> A * B" "\<bar>c * f\<bar> \<le> A * B"
    using assms by (simp_all add: u w vbound_def abs_prod_le)
  then show ?thesis by (simp add: u w)
qed

lemma flv_dot_fin:
  assumes "vbound A u" "vbound B w" "3 * (A * B) \<le> flt_max"
  shows "flv_dot (of_vec3 u) (of_vec3 w) = Fin (dot u w)"
proof -
  obtain a b c where u: "u = Vec3 a b c" by (cases u)
  obtain d e f where w: "w = Vec3 d e f" by (cases w)
  have p: "\<bar>a * d\<bar> \<le> A * B" "\<bar>b * e\<bar> \<le> A * B" "\<bar>c * f\<bar> \<le> A * B"
    using assms by (simp_all add: u w vbound_def abs_prod_le)
  have "0 \<le> A * B" using p(1) by linarith
  then have r: "\<bar>a * d\<bar> \<le> flt_max" "\<bar>b * e\<bar> \<le> flt_max" "\<bar>c * f\<bar> \<le> flt_max"
    "\<bar>a * d + b * e\<bar> \<le> flt_max" "\<bar>a * d + b * e + c * f\<bar> \<le> flt_max"
    using p assms(3) by linarith+
  show ?thesis
    by (simp add: u w to_float_fin r)
qed

lemma vlength_bound:
  assumes "vbound A u"
  shows "vlength u \<le> 2 * A"
proof -
  have A: "0 \<le> A" using assms by (rule vbound_nonneg)
  have "length2 u \<le> 3 * (A * A)"
    using dot_bound [OF assms assms] by (simp add: length2_def)
  also have "\<dots> \<le> (2 * A)\<^sup>2" using A by (simp add: power2_eq_square)
  finally have "length2 u \<le> (2 * A)\<^sup>2" .
  then have "sqrt (length2 u) \<le> 2 * A"
    using A by (intro real_le_lsqrt) simp_all
  then show ?thesis by (simp add: vlength_def)
qed

lemma flv_length_fin:
  assumes "vbound A u" "3 * (A * A) \<le> flt_max"
  shows "flv_length (of_vec3 u) = Fin (vlength u)"
  using flv_dot_fin [OF assms(1) assms(1) assms(2)] length2_nonneg [of u]
  by (simp add: flv_length_def vlength_def length2_def)

lemma std_max_fin: "std_max (Fin a) (Fin b) = Fin (max a b)"
  by (simp add: std_max_def max_def)

lemma std_min_fin: "std_min (Fin a) (Fin b) = Fin (min a b)"
  by (simp add: std_min_def min_def)

lemma mbound_cols: "mbound B (Mat3 a b c) = (vbound B a \<and> vbound B b \<and> vbound B c)"
  by (simp add: mbound_def)

lemma mbound_mono: "mbound A m \<Longrightarrow> A \<le> B \<Longrightarrow> mbound B m"
  by (cases m) (auto simp: mbound_cols intro: vbound_mono)

lemma mvec_bound:
  assumes "mbound A M" "vbound B u"
  shows "vbound (3 * (B * A)) (mvec M u)"
proof -
  obtain a b c where M: "M = Mat3 a b c" by (cases M)
  obtain x y z where u: "u = Vec3 x y z" by (cases u)
  have c: "vbound A a" "vbound A b" "vbound A c" using assms(1) by (simp_all add: M mbound_cols)
  have x: "\<bar>x\<bar> \<le> B" "\<bar>y\<bar> \<le> B" "\<bar>z\<bar> \<le> B" using assms(2) by (simp_all add: u vbound_def)
  have e: "B * A + B * A + B * A = 3 * (B * A)" by simp
  have "vbound (B * A + B * A + B * A) (vadd (vadd (vscale x a) (vscale y b)) (vscale z c))"
    by (intro vadd_bound vscale_bound c x)
  then show ?thesis by (simp only: e M u mvec.simps)
qed

lemma flm_vec_fin:
  assumes "mbound A M" "vbound B u" "3 * (B * A) \<le> flt_max"
  shows "flm_vec (of_mat3 M) (of_vec3 u) = of_vec3 (mvec M u)"
proof -
  obtain a b c where M: "M = Mat3 a b c" by (cases M)
  obtain x y z where u: "u = Vec3 x y z" by (cases u)
  have c: "vbound A a" "vbound A b" "vbound A c" using assms(1) by (simp_all add: M mbound_cols)
  have x: "\<bar>x\<bar> \<le> B" "\<bar>y\<bar> \<le> B" "\<bar>z\<bar> \<le> B" using assms(2) by (simp_all add: u vbound_def)
  have ba: "0 \<le> B * A" using vbound_nonneg [OF c(1)] vbound_nonneg [OF assms(2)] by simp
  have r: "B * A \<le> flt_max" "B * A + B * A \<le> flt_max" "B * A + B * A + B * A \<le> flt_max"
    using ba assms(3) by linarith+
  have s: "flv_scale (Fin x) (of_vec3 a) = of_vec3 (vscale x a)"
    "flv_scale (Fin y) (of_vec3 b) = of_vec3 (vscale y b)"
    "flv_scale (Fin z) (of_vec3 c) = of_vec3 (vscale z c)"
    using flv_scale_fin [OF x(1) c(1) r(1)] flv_scale_fin [OF x(2) c(2) r(1)]
      flv_scale_fin [OF x(3) c(3) r(1)] by simp_all
  have sb: "vbound (B * A) (vscale x a)" "vbound (B * A) (vscale y b)"
    "vbound (B * A) (vscale z c)"
    using vscale_bound [OF x(1) c(1)] vscale_bound [OF x(2) c(2)] vscale_bound [OF x(3) c(3)]
    by simp_all
  have t: "flv_add (of_vec3 (vscale x a)) (of_vec3 (vscale y b))
      = of_vec3 (vadd (vscale x a) (vscale y b))"
    by (rule flv_add_fin [OF sb(1) sb(2) r(2)])
  have w: "flv_add (of_vec3 (vadd (vscale x a) (vscale y b))) (of_vec3 (vscale z c))
      = of_vec3 (vadd (vadd (vscale x a) (vscale y b)) (vscale z c))"
    by (rule flv_add_fin [OF vadd_bound [OF sb(1) sb(2)] sb(3) r(3)])
  show ?thesis by (simp add: M u s t w)
qed

lemma vbound_of_mbound:
  "mbound B (Mat3 a b c) \<Longrightarrow> vbound B a"
  "mbound B (Mat3 a b c) \<Longrightarrow> vbound B b"
  "mbound B (Mat3 a b c) \<Longrightarrow> vbound B c"
  by (simp_all add: mbound_cols)

lemma mmul_bound:
  assumes "mbound A M" "mbound B N"
  shows "mbound (3 * (B * A)) (mmul M N)"
proof -
  obtain a b c where N: "N = Mat3 a b c" by (cases N)
  show ?thesis
    using assms(2) unfolding N
    by (simp add: mbound_cols mvec_bound [OF assms(1)])
qed

lemma flm_mul_fin:
  assumes "mbound A M" "mbound B N" "3 * (B * A) \<le> flt_max"
  shows "flm_mul (of_mat3 M) (of_mat3 N) = of_mat3 (mmul M N)"
proof -
  obtain a b c where N: "N = Mat3 a b c" by (cases N)
  show ?thesis
    using assms(2) unfolding N
    by (simp add: mbound_cols flm_vec_fin [OF assms(1) _ assms(3)])
qed

lemma madd_bound:
  assumes "mbound A M" "mbound B N"
  shows "mbound (A + B) (madd M N)"
  using assms by (cases M; cases N) (simp add: mbound_cols vadd_bound)

lemma flm_add_fin:
  assumes "mbound A M" "mbound B N" "A + B \<le> flt_max"
  shows "flm_add (of_mat3 M) (of_mat3 N) = of_mat3 (madd M N)"
proof -
  obtain a b c where M: "M = Mat3 a b c" by (cases M)
  obtain d e f where N: "N = Mat3 d e f" by (cases N)
  have "flv_add (of_vec3 a) (of_vec3 d) = of_vec3 (vadd a d)"
    "flv_add (of_vec3 b) (of_vec3 e) = of_vec3 (vadd b e)"
    "flv_add (of_vec3 c) (of_vec3 f) = of_vec3 (vadd c f)"
    using assms(1,2) by (simp_all add: M N mbound_cols flv_add_fin [OF _ _ assms(3)])
  then show ?thesis by (simp add: M N)
qed

lemma mscale_bound:
  assumes "\<bar>c\<bar> \<le> C" "mbound B M"
  shows "mbound (C * B) (mscale c M)"
  using assms by (cases M) (simp add: mbound_cols vscale_bound)

lemma flm_scale_fin:
  assumes "\<bar>c\<bar> \<le> C" "mbound B M" "C * B \<le> flt_max"
  shows "flm_scale (of_mat3 M) (Fin c) = of_mat3 (mscale c M)"
proof -
  obtain a b d where M: "M = Mat3 a b d" by (cases M)
  have "flv_scale (Fin c) (of_vec3 a) = of_vec3 (vscale c a)"
    "flv_scale (Fin c) (of_vec3 b) = of_vec3 (vscale c b)"
    "flv_scale (Fin c) (of_vec3 d) = of_vec3 (vscale c d)"
    using assms(2) by (simp_all add: M mbound_cols flv_scale_fin [OF assms(1) _ assms(3)])
  then show ?thesis by (simp add: M)
qed

lemma flm_scalar_one: "flm_scalar (Fin 1) = of_mat3 (mscalar 1)"
  by (simp add: flm_scalar_def mscalar_def mdiag_def vconst_def)

lemma mscalar_one_bound: "mbound 1 (mscalar 1)"
  by (simp add: mscalar_def mdiag_def vconst_def mbound_cols vbound_def)

section \<open>The friction projection on float values\<close>

lemma flt_max_big: "3 * 10 ^ 38 \<le> flt_max"
  by (simp add: flt_max_def)

lemma friction_divisor_float: "fl_less (Fin 0) (std_max (Fin (1 / 10 ^ 30)) x)"
  by (cases x) (simp_all add: std_max_def)

lemma friction_project_float_exact:
  assumes v: "vbound (10 ^ 18) v" and b: "vbound (10 ^ 18) v_base" and n: "vbound 1 n"
    and mu: "mu = - 1 \<or> (- (10 ^ 18) \<le> mu \<and> mu \<le> - 2) \<or> (0 \<le> mu \<and> mu \<le> 10 ^ 18)"
  shows "map_option of_vec3 (friction_project v v_base n mu)
     = Some (friction_project_float (of_vec3 v) (of_vec3 v_base) (of_vec3 n) (Fin mu))"
proof (cases "mu = - 1")
  case True
  then show ?thesis
    by (simp add: friction_project_def friction_project_float_def Let_def fl_eq_def)
next
  case False
  define slip where "slip = (mu \<le> - 2)"
  define fr where "fr = (if slip then - mu - 2 else mu)"
  define rel where "rel = vsub v v_base"
  define nn where "nn = dot n rel"
  define t where "t = vsub rel (vscale nn n)"
  define tn where "tn = vlength t"
  define num where "num = max (tn + min nn 0 * fr) 0"
  define den where "den = max (1 / 10 ^ 30) tn"
  define sc where "sc = num / den"
  define k where "k = max 0 (nn * (if slip then 0 else 1))"
  define pr where "pr = vadd (vscale sc t) (vscale k n)"
  define res where "res = vadd pr v_base"
  have fr: "0 \<le> fr" "fr \<le> 10 ^ 18"
    using mu False by (auto simp: fr_def slip_def)
  have eq1: "fl_eq (Fin mu) (Fin (- 1)) = False" using False by (simp add: fl_eq_def)
  have eq2: "fl_le (Fin mu) (Fin (- 2)) = slip" by (auto simp: fl_le_def fl_eq_def slip_def)
  have eq3: "(if slip then fl_sub (fl_neg (Fin mu)) (Fin 2) else Fin mu) = Fin fr"
    using fr flt_max_big by (auto simp: fr_def fl_sub_fin)
  have rel: "vbound (2 * 10 ^ 18) rel"
    using vsub_bound [OF v b] by (simp add: rel_def)
  have e1: "flv_sub (of_vec3 v) (of_vec3 v_base) = of_vec3 rel"
    unfolding rel_def using flt_max_big by (intro flv_sub_fin [OF v b]) simp
  have nn: "\<bar>nn\<bar> \<le> 6 * 10 ^ 18"
    using dot_bound [OF n rel] by (simp add: nn_def)
  have e2: "flv_dot (of_vec3 n) (of_vec3 rel) = Fin nn"
    unfolding nn_def using flt_max_big by (intro flv_dot_fin [OF n rel]) simp
  have sn: "vbound (6 * 10 ^ 18) (vscale nn n)"
    using vscale_bound [OF nn n] by simp
  have e3: "flv_scale (Fin nn) (of_vec3 n) = of_vec3 (vscale nn n)"
    using flt_max_big by (intro flv_scale_fin [OF nn n]) simp
  have t: "vbound (8 * 10 ^ 18) t"
    using vsub_bound [OF rel sn] by (simp add: t_def)
  have e4: "flv_sub (of_vec3 rel) (of_vec3 (vscale nn n)) = of_vec3 t"
    unfolding t_def using flt_max_big by (intro flv_sub_fin [OF rel sn]) simp
  have tn: "0 \<le> tn" "tn \<le> 16 * 10 ^ 18"
    using vlength_nonneg [of t] vlength_bound [OF t] by (simp_all add: tn_def)
  have e5: "flv_length (of_vec3 t) = Fin tn"
    unfolding tn_def using flt_max_big by (intro flv_length_fin [OF t]) simp
  define p where "p = min nn 0 * fr"
  have m0: "\<bar>min nn 0\<bar> \<le> 6 * 10 ^ 18" using nn by linarith
  have mf: "\<bar>p\<bar> \<le> 6 * 10 ^ 36"
    using abs_prod_le [OF m0, of fr "10 ^ 18"] fr by (simp add: p_def)
  have mf0: "p \<le> 0"
    using fr(1) by (simp add: p_def mult_nonpos_nonneg)
  have e6: "fl_mul (std_min (Fin nn) (Fin 0)) (Fin fr) = Fin p"
    using mf flt_max_big by (simp add: std_min_fin to_float_fin p_def [symmetric])
  have "\<bar>tn + p\<bar> \<le> flt_max"
    using mf tn flt_max_big by simp
  then have e7: "fl_add (Fin tn) (Fin p) = Fin (tn + p)"
    by (rule fl_add_fin)
  have e8: "std_max (Fin (tn + p)) (Fin 0) = Fin num"
    by (simp add: std_max_fin num_def p_def)
  have e9: "std_max (Fin (1 / 10 ^ 30)) (Fin tn) = Fin den"
    by (simp add: std_max_fin den_def)
  have den: "0 < den" "tn \<le> den" by (simp_all add: den_def)
  have num: "0 \<le> num" "num \<le> tn" using mf0 tn by (simp_all add: num_def p_def [symmetric])
  have sc: "0 \<le> sc" "sc \<le> 1"
    using den num by (simp_all add: sc_def)
  have e10: "fl_div (Fin num) (Fin den) = Fin sc"
    using den sc flt_max_big by (simp add: sc_def [symmetric] to_float_fin)
  have sc': "\<bar>sc\<bar> \<le> 1" using sc by simp
  have st: "vbound (8 * 10 ^ 18) (vscale sc t)"
    using vscale_bound [OF sc' t] by simp
  have e11: "flv_scale (Fin sc) (of_vec3 t) = of_vec3 (vscale sc t)"
    using flt_max_big by (intro flv_scale_fin [OF sc' t]) simp
  have k0: "\<bar>nn * (if slip then 0 else 1)\<bar> \<le> 6 * 10 ^ 18" using nn by simp
  have k: "\<bar>k\<bar> \<le> 6 * 10 ^ 18" using k0 by (simp add: k_def)
  have e12: "std_max (Fin 0) (fl_mul (Fin nn) (Fin (if slip then 0 else 1))) = Fin k"
    using k0 flt_max_big by (simp add: std_max_fin to_float_fin k_def)
  have kn: "vbound (6 * 10 ^ 18) (vscale k n)"
    using vscale_bound [OF k n] by simp
  have e13: "flv_scale (Fin k) (of_vec3 n) = of_vec3 (vscale k n)"
    using flt_max_big by (intro flv_scale_fin [OF k n]) simp
  have pr: "vbound (14 * 10 ^ 18) pr"
    using vadd_bound [OF st kn] by (simp add: pr_def)
  have e14: "flv_add (of_vec3 (vscale sc t)) (of_vec3 (vscale k n)) = of_vec3 pr"
    unfolding pr_def using flt_max_big by (intro flv_add_fin [OF st kn]) simp
  have e15: "flv_add (of_vec3 pr) (of_vec3 v_base) = of_vec3 res"
    unfolding res_def using flt_max_big by (intro flv_add_fin [OF pr b]) simp
  have fl: "friction_project_float (of_vec3 v) (of_vec3 v_base) (of_vec3 n) (Fin mu) = of_vec3 res"
    by (simp only: friction_project_float_def Let_def eq1 eq2 eq3 e1 e2 e3 e4 e5 e6 e7 e8 e9 e10
        e11 e12 e13 e14 e15 if_False)
  have ex: "friction_project v v_base n mu = Some res"
    using False den(1)
    by (simp add: friction_project_def Let_def checked_div_def res_def pr_def k_def sc_def
        den_def num_def tn_def t_def nn_def rel_def fr_def slip_def)
  show ?thesis by (simp add: fl ex)
qed

text \<open>
  C9, as stated, fails on float values.  The divisor \<open>max(1e-30, |t|)\<close> is never zero,
  but for the finite input \<open>v = (2\<^sup>6\<^sup>4, -1, 0)\<close>, \<open>v_base = 0\<close>, \<open>n = (0, 1, 0)\<close>, friction 0,
  the squared length of the tangential relative velocity \<open>t = (2\<^sup>6\<^sup>4, 0, 0)\<close> overflows,
  \<open>|t|\<close> is infinite, the division is infinity by infinity, and the result is
  \<open>(NaN, NaN, NaN)\<close>.  With a friction coefficient between \<open>-2\<close> and 0 other than \<open>-1\<close>
  the quotient itself overflows at moderate velocities: for \<open>v = (0, -1e10, 0)\<close> and
  friction \<open>-0.5\<close> it is \<open>5e9 / 1e-30\<close>, infinite, and multiplies \<open>t = 0\<close>.
\<close>

theorem friction_project_overflow_gives_nan:
  "friction_project_float (FVec3 (Fin (2 ^ 64)) (Fin (- 1)) (Fin 0)) (FVec3 (Fin 0) (Fin 0) (Fin 0))
      (FVec3 (Fin 0) (Fin 1) (Fin 0)) (Fin 0) = FVec3 NaN NaN NaN
   \<and> friction_project_float (FVec3 (Fin 0) (Fin (- (10 ^ 10))) (Fin 0))
       (FVec3 (Fin 0) (Fin 0) (Fin 0)) (FVec3 (Fin 0) (Fin 1) (Fin 0)) (Fin (- (1 / 2)))
     = FVec3 NaN NaN NaN"
  by (simp add: friction_project_float_def Let_def fl_eq_def fl_le_def fl_sub_def std_max_def
      std_min_def flv_length_def to_float_def flt_max_def)

text \<open>
  C9 (amended): for every velocity and base velocity with finite components of
  magnitude at most \<open>1e18\<close>, every normal with components of magnitude at most 1 and
  every friction coefficient that is \<open>-1\<close> (sticky), from \<open>-1e18\<close> to \<open>-2\<close> (slip) or from 0
  to \<open>1e18\<close>, the result of \<open>friction_project\<close> is a vector of finite values: no
  operation leaves the range of the floats, so that the result is the one of exact
  arithmetic (rounding apart).  Its one division has the divisor \<open>max(1e-30, x)\<close>,
  which is positive for every float \<open>x\<close>, NaN and the infinities included.
\<close>

theorem friction_project_finite_in_range:
  assumes "vbound (10 ^ 18) v" and "vbound (10 ^ 18) v_base" and "vbound 1 n"
    and "mu = - 1 \<or> (- (10 ^ 18) \<le> mu \<and> mu \<le> - 2) \<or> (0 \<le> mu \<and> mu \<le> 10 ^ 18)"
  shows "map_option of_vec3 (friction_project v v_base n mu)
       = Some (friction_project_float (of_vec3 v) (of_vec3 v_base) (of_vec3 n) (Fin mu))
     \<and> fl_less (Fin 0) (std_max (Fin (1 / 10 ^ 30)) x)"
  using friction_project_float_exact [OF assms] friction_divisor_float [of x] by simp

theorem friction_project_finite_in_range_witness:
  "vbound (10 ^ 18) (Vec3 1 (- 1) 0) \<and> vbound (10 ^ 18) (Vec3 0 0 0) \<and> vbound 1 (Vec3 0 1 0)
   \<and> 0 \<le> (1 / 2 :: real) \<and> (1 / 2 :: real) \<le> 10 ^ 18
   \<and> friction_project (Vec3 1 (- 1) 0) (Vec3 0 0 0) (Vec3 0 1 0) (1 / 2) = Some (Vec3 (1 / 2) 0 0)
   \<and> friction_project_float (FVec3 (Fin 1) (Fin (- 1)) (Fin 0)) (FVec3 (Fin 0) (Fin 0) (Fin 0))
       (FVec3 (Fin 0) (Fin 1) (Fin 0)) (Fin (1 / 2)) = FVec3 (Fin (1 / 2)) (Fin 0) (Fin 0)"
proof -
  have a: "vbound (10 ^ 18) (Vec3 1 (- 1) 0)" by (simp add: vbound_def)
  have b: "vbound (10 ^ 18) (Vec3 0 0 0)" by (simp add: vbound_def)
  have c: "vbound 1 (Vec3 0 1 0)" by (simp add: vbound_def)
  have d: "(1 / 2 :: real) = - 1 \<or> (- (10 ^ 18) \<le> (1 / 2 :: real) \<and> (1 / 2 :: real) \<le> - 2)
      \<or> (0 \<le> (1 / 2 :: real) \<and> (1 / 2 :: real) \<le> 10 ^ 18)" by simp
  have e: "friction_project (Vec3 1 (- 1) 0) (Vec3 0 0 0) (Vec3 0 1 0) (1 / 2)
      = Some (Vec3 (1 / 2) 0 0)"
    by (simp add: friction_project_def Let_def checked_div_def vlength_def length2_def)
  show ?thesis
    using friction_project_finite_in_range [OF a b c d] a b c e by simp
qed

section \<open>Termination of the exponential approximation\<close>

lemma det_near_identity:
  fixes a b c d e f g h i :: real
  assumes "\<bar>a - 1\<bar> \<le> 1 / 10" "\<bar>b\<bar> \<le> 1 / 10" "\<bar>c\<bar> \<le> 1 / 10"
    and "\<bar>d\<bar> \<le> 1 / 10" "\<bar>e - 1\<bar> \<le> 1 / 10" "\<bar>f\<bar> \<le> 1 / 10"
    and "\<bar>g\<bar> \<le> 1 / 10" "\<bar>h\<bar> \<le> 1 / 10" "\<bar>i - 1\<bar> \<le> 1 / 10"
  shows "0 < determinant (Mat3 (Vec3 a b c) (Vec3 d e f) (Vec3 g h i))"
proof -
  have a: "9 / 10 \<le> a" using assms(1) by linarith
  have e: "9 / 10 \<le> e" "\<bar>e\<bar> \<le> 11 / 10" using assms(5) by linarith+
  have i: "9 / 10 \<le> i" "\<bar>i\<bar> \<le> 11 / 10" using assms(9) by linarith+
  have "9 / 10 * (9 / 10) \<le> e * i"
    using e(1) i(1) by (intro mult_mono) simp_all
  then have ei: "81 / 100 \<le> e * i" by simp
  have fh: "\<bar>f * h\<bar> \<le> 1 / 100"
    using abs_prod_le [OF assms(6) assms(8)] by simp
  have m1: "8 / 10 \<le> e * i - f * h" using ei fh by linarith
  have "9 / 10 * (8 / 10) \<le> a * (e * i - f * h)"
    using a m1 by (intro mult_mono) simp_all
  then have t1: "72 / 100 \<le> a * (e * i - f * h)" by simp
  have bi: "\<bar>b * i\<bar> \<le> 11 / 100"
    using abs_prod_le [OF assms(2) i(2)] by simp
  have ch: "\<bar>c * h\<bar> \<le> 1 / 100"
    using abs_prod_le [OF assms(3) assms(8)] by simp
  have m2: "\<bar>b * i - c * h\<bar> \<le> 12 / 100" using bi ch by linarith
  have t2: "\<bar>d * (b * i - c * h)\<bar> \<le> 12 / 1000"
    using abs_prod_le [OF assms(4) m2] by simp
  have bf: "\<bar>b * f\<bar> \<le> 1 / 100"
    using abs_prod_le [OF assms(2) assms(6)] by simp
  have ce: "\<bar>c * e\<bar> \<le> 11 / 100"
    using abs_prod_le [OF assms(3) e(2)] by simp
  have m3: "\<bar>b * f - c * e\<bar> \<le> 12 / 100" using bf ce by linarith
  have t3: "\<bar>g * (b * f - c * e)\<bar> \<le> 12 / 1000"
    using abs_prod_le [OF assms(7) m3] by simp
  have "0 < a * (e * i - f * h) - d * (b * i - c * h) + g * (b * f - c * e)"
    using t1 t2 t3 by linarith
  then show ?thesis by simp
qed

lemma small_entry:
  fixes s x1 y1 x2 y2 x3 y3 :: real
  assumes "\<bar>s\<bar> \<le> 1 / 20" "\<bar>x1\<bar> \<le> 1 / 20" "\<bar>y1\<bar> \<le> 1 / 20" "\<bar>x2\<bar> \<le> 1 / 20"
    "\<bar>y2\<bar> \<le> 1 / 20" "\<bar>x3\<bar> \<le> 1 / 20" "\<bar>y3\<bar> \<le> 1 / 20"
  shows "\<bar>s + x1 * y1 / 2 + x2 * y2 / 2 + x3 * y3 / 2\<bar> \<le> 1 / 10"
proof -
  define p1 where "p1 = x1 * y1"
  define p2 where "p2 = x2 * y2"
  define p3 where "p3 = x3 * y3"
  have p1: "\<bar>p1\<bar> \<le> 1 / 400"
    using abs_prod_le [OF assms(2) assms(3)] by (simp add: p1_def)
  have p2: "\<bar>p2\<bar> \<le> 1 / 400"
    using abs_prod_le [OF assms(4) assms(5)] by (simp add: p2_def)
  have p3: "\<bar>p3\<bar> \<le> 1 / 400"
    using abs_prod_le [OF assms(6) assms(7)] by (simp add: p3_def)
  have "\<bar>s + p1 / 2 + p2 / 2 + p3 / 2\<bar> \<le> 1 / 10"
    using assms(1) p1 p2 p3 by linarith
  then show ?thesis by (simp add: p1_def p2_def p3_def)
qed

lemma truncation_det_positive:
  fixes a b c d e f g h i :: real
  assumes "\<bar>a\<bar> \<le> 1 / 20" "\<bar>b\<bar> \<le> 1 / 20" "\<bar>c\<bar> \<le> 1 / 20"
    and "\<bar>d\<bar> \<le> 1 / 20" "\<bar>e\<bar> \<le> 1 / 20" "\<bar>f\<bar> \<le> 1 / 20"
    and "\<bar>g\<bar> \<le> 1 / 20" "\<bar>h\<bar> \<le> 1 / 20" "\<bar>i\<bar> \<le> 1 / 20"
  shows "0 < determinant (exponent_truncation 1 (Mat3 (Vec3 a b c) (Vec3 d e f) (Vec3 g h i)))"
proof -
  have eq: "exponent_truncation 1 (Mat3 (Vec3 a b c) (Vec3 d e f) (Vec3 g h i)) =
    Mat3 (Vec3 ((a + a * a / 2 + d * b / 2 + g * c / 2) + 1) (b + b * a / 2 + e * b / 2 + h * c / 2)
               (c + c * a / 2 + f * b / 2 + i * c / 2))
         (Vec3 (d + a * d / 2 + d * e / 2 + g * f / 2) ((e + b * d / 2 + e * e / 2 + h * f / 2) + 1)
               (f + c * d / 2 + f * e / 2 + i * f / 2))
         (Vec3 (g + a * g / 2 + d * h / 2 + g * i / 2) (h + b * g / 2 + e * h / 2 + h * i / 2)
               ((i + c * g / 2 + f * h / 2 + i * i / 2) + 1))"
    by (simp add: exponent_truncation_def mscalar_def mdiag_def vconst_def algebra_simps)
  show ?thesis
    unfolding eq
    by (rule det_near_identity; (simp only: add_diff_cancel)?; rule small_entry; fact)
qed

lemma scaled_entries_small:
  fixes m :: mat3 and dt :: real
  shows "\<exists>k. \<forall>i<3. \<forall>j<3. \<bar>dt / 2 ^ k * mentry m i j\<bar> \<le> 1 / 20"
proof -
  obtain a b c d e f g h i where m: "m = Mat3 (Vec3 a b c) (Vec3 d e f) (Vec3 g h i)"
    by (metis mat3.exhaust vec3.exhaust)
  define B where "B = \<bar>a\<bar> + \<bar>b\<bar> + \<bar>c\<bar> + \<bar>d\<bar> + \<bar>e\<bar> + \<bar>f\<bar> + \<bar>g\<bar> + \<bar>h\<bar> + \<bar>i\<bar>"
  obtain k :: nat where k: "20 * \<bar>dt\<bar> * B < 2 ^ k"
    using real_arch_pow [of 2 "20 * \<bar>dt\<bar> * B"] by auto
  have bound: "\<bar>dt / 2 ^ k * x\<bar> \<le> 1 / 20" if "\<bar>x\<bar> \<le> B" for x
  proof -
    have "\<bar>dt\<bar> * \<bar>x\<bar> \<le> \<bar>dt\<bar> * B"
      using that by (intro mult_left_mono) auto
    then have "20 * (\<bar>dt\<bar> * \<bar>x\<bar>) < 2 ^ k" using k by linarith
    then have "\<bar>dt\<bar> * \<bar>x\<bar> / 2 ^ k < 1 / 20"
      by (simp add: field_simps)
    then show ?thesis by (simp add: abs_mult)
  qed
  have "\<bar>mentry m i j\<bar> \<le> B" for i j
    by (simp add: m mentry_def B_def)
  then show ?thesis using bound by blast
qed

lemma mscale_one: "mscale 1 m = m"
proof -
  have "vscale 1 u = u" for u by (cases u) simp
  then show ?thesis by (cases m) simp
qed

lemma exponent_truncation_scale:
  "exponent_truncation dt m = exponent_truncation 1 (mscale dt m)"
  by (simp only: exponent_truncation_def mscale_one)

lemma flt_max_small: "48 \<le> flt_max"
  by (simp add: flt_max_def)

lemma cofactor_bound:
  fixes a x1 y1 x2 y2 :: real
  assumes "\<bar>a\<bar> \<le> 2" "\<bar>x1\<bar> \<le> 2" "\<bar>y1\<bar> \<le> 2" "\<bar>x2\<bar> \<le> 2" "\<bar>y2\<bar> \<le> 2"
  shows "\<bar>x1 * y1\<bar> \<le> 4" "\<bar>x2 * y2\<bar> \<le> 4" "\<bar>x1 * y1 - x2 * y2\<bar> \<le> 8"
    "\<bar>a * (x1 * y1 - x2 * y2)\<bar> \<le> 16"
proof -
  show p: "\<bar>x1 * y1\<bar> \<le> 4" using abs_prod_le [OF assms(2,3)] by simp
  show q: "\<bar>x2 * y2\<bar> \<le> 4" using abs_prod_le [OF assms(4,5)] by simp
  show d: "\<bar>x1 * y1 - x2 * y2\<bar> \<le> 8" using p q by linarith
  show "\<bar>a * (x1 * y1 - x2 * y2)\<bar> \<le> 16" using abs_prod_le [OF assms(1) d] by simp
qed

lemma flm_determinant_fin:
  assumes "mbound 2 M"
  shows "flm_determinant (of_mat3 M) = Fin (determinant M)"
proof -
  obtain a b c d e f g h i where M: "M = Mat3 (Vec3 a b c) (Vec3 d e f) (Vec3 g h i)"
    by (metis mat3.exhaust vec3.exhaust)
  have en: "\<bar>a\<bar> \<le> 2" "\<bar>b\<bar> \<le> 2" "\<bar>c\<bar> \<le> 2" "\<bar>d\<bar> \<le> 2" "\<bar>e\<bar> \<le> 2" "\<bar>f\<bar> \<le> 2"
    "\<bar>g\<bar> \<le> 2" "\<bar>h\<bar> \<le> 2" "\<bar>i\<bar> \<le> 2"
    using assms by (simp_all add: M mbound_cols vbound_def)
  note c1 = cofactor_bound [OF en(1) en(5) en(9) en(6) en(8)]
  note c2 = cofactor_bound [OF en(4) en(2) en(9) en(3) en(8)]
  note c3 = cofactor_bound [OF en(7) en(2) en(6) en(3) en(5)]
  define t1 where "t1 = a * (e * i - f * h)"
  define t2 where "t2 = d * (b * i - c * h)"
  define t3 where "t3 = g * (b * f - c * e)"
  have t: "\<bar>t1\<bar> \<le> 16" "\<bar>t2\<bar> \<le> 16" "\<bar>t3\<bar> \<le> 16"
    using c1(4) c2(4) c3(4) by (simp_all add: t1_def t2_def t3_def)
  have s: "\<bar>t1 - t2\<bar> \<le> flt_max" "\<bar>t1 - t2 + t3\<bar> \<le> flt_max"
    using t flt_max_small by linarith+
  have r: "\<bar>x\<bar> \<le> flt_max" if "\<bar>x\<bar> \<le> 16 \<or> \<bar>x\<bar> \<le> 8 \<or> \<bar>x\<bar> \<le> 4" for x :: real
    using that flt_max_small by linarith
  have m1: "fl_mul (Fin a) (fl_sub (fl_mul (Fin e) (Fin i)) (fl_mul (Fin f) (Fin h))) = Fin t1"
    using c1 by (simp add: to_float_fin fl_sub_fin r t1_def)
  have m2: "fl_mul (Fin d) (fl_sub (fl_mul (Fin b) (Fin i)) (fl_mul (Fin c) (Fin h))) = Fin t2"
    using c2 by (simp add: to_float_fin fl_sub_fin r t2_def)
  have m3: "fl_mul (Fin g) (fl_sub (fl_mul (Fin b) (Fin f)) (fl_mul (Fin c) (Fin e))) = Fin t3"
    using c3 by (simp add: to_float_fin fl_sub_fin r t3_def)
  have "flm_determinant (of_mat3 M) = Fin (t1 - t2 + t3)"
    by (simp only: M of_mat3.simps of_vec3.simps flm_determinant.simps m1 m2 m3
        fl_sub_fin [OF s(1)] fl_add_fin [OF s(2)])
  then show ?thesis by (simp add: M t1_def t2_def t3_def)
qed

lemma flm_scale_direct:
  assumes "mbound flt_max (mscale c M)"
  shows "flm_scale (of_mat3 M) (Fin c) = of_mat3 (mscale c M)"
proof -
  obtain a b d e f g h i j where M: "M = Mat3 (Vec3 a b d) (Vec3 e f g) (Vec3 h i j)"
    by (metis mat3.exhaust vec3.exhaust)
  show ?thesis
    using assms by (simp add: M mbound_cols vbound_def to_float_fin)
qed

lemma float_truncation_small:
  assumes S: "mbound (1 / 20) (mscale c M)"
  shows "float_truncation (Fin c) (of_mat3 M) = of_mat3 (exponent_truncation c M)"
    and "mbound 2 (exponent_truncation c M)"
proof -
  define s where "s = mscale c M"
  define hs where "hs = mscale (1 / 2) s"
  define a where "a = madd hs (mscalar 1)"
  define p where "p = mmul a s"
  define r where "r = madd p (mscalar 1)"
  have sb: "mbound (1 / 20) s" using S by (simp add: s_def)
  have e0: "flm_scale (of_mat3 M) (Fin c) = of_mat3 s"
    unfolding s_def using mbound_mono [OF S, of flt_max] flt_max_small
    by (intro flm_scale_direct) simp
  have half: "\<bar>1 / 2 :: real\<bar> \<le> 1 / 2" by simp
  have hb: "mbound (1 / 2 * (1 / 20)) hs"
    unfolding hs_def by (rule mscale_bound [OF half sb])
  have e1: "flm_scale (of_mat3 s) (Fin (1 / 2)) = of_mat3 hs"
    unfolding hs_def using flt_max_small by (intro flm_scale_fin [OF half sb]) simp
  have ab: "mbound (1 / 2 * (1 / 20) + 1) a"
    unfolding a_def by (rule madd_bound [OF hb mscalar_one_bound])
  have e2: "flm_add (of_mat3 hs) (of_mat3 (mscalar 1)) = of_mat3 a"
    unfolding a_def using flt_max_small by (intro flm_add_fin [OF hb mscalar_one_bound]) simp
  have pb: "mbound (3 * (1 / 20 * (1 / 2 * (1 / 20) + 1))) p"
    unfolding p_def by (rule mmul_bound [OF ab sb])
  have e3: "flm_mul (of_mat3 a) (of_mat3 s) = of_mat3 p"
    unfolding p_def using flt_max_small by (intro flm_mul_fin [OF ab sb]) simp
  have rb: "mbound (3 * (1 / 20 * (1 / 2 * (1 / 20) + 1)) + 1) r"
    unfolding r_def by (rule madd_bound [OF pb mscalar_one_bound])
  have e4: "flm_add (of_mat3 p) (of_mat3 (mscalar 1)) = of_mat3 r"
    unfolding r_def using flt_max_small by (intro flm_add_fin [OF pb mscalar_one_bound]) simp
  have fl: "float_truncation (Fin c) (of_mat3 M) = of_mat3 r"
    using e0 e1 e2 e3 e4 by (simp add: float_truncation_def Let_def flm_scalar_one)
  have ex: "exponent_truncation c M = r"
    by (simp add: exponent_truncation_def Let_def r_def p_def a_def hs_def s_def)
  show "float_truncation (Fin c) (of_mat3 M) = of_mat3 (exponent_truncation c M)"
    by (simp add: fl ex)
  show "mbound 2 (exponent_truncation c M)"
    unfolding ex using rb by (rule mbound_mono) simp
qed

lemma small_scaled_det_positive:
  assumes "\<forall>i<3. \<forall>j<3. \<bar>s * mentry m i j\<bar> \<le> 1 / 20"
  shows "0 < determinant (exponent_truncation s m)" and "mbound (1 / 20) (mscale s m)"
proof -
  obtain a b c d e f g h i where m: "m = Mat3 (Vec3 a b c) (Vec3 d e f) (Vec3 g h i)"
    by (metis mat3.exhaust vec3.exhaust)
  have en: "\<bar>s * mentry m i j\<bar> \<le> 1 / 20" if "i < 3" "j < 3" for i j
    using assms that by blast
  have sm: "mscale s m = Mat3 (Vec3 (s * a) (s * b) (s * c)) (Vec3 (s * d) (s * e) (s * f))
      (Vec3 (s * g) (s * h) (s * i))"
    by (simp add: m)
  have b: "\<bar>s * a\<bar> \<le> 1 / 20" "\<bar>s * b\<bar> \<le> 1 / 20" "\<bar>s * c\<bar> \<le> 1 / 20"
    "\<bar>s * d\<bar> \<le> 1 / 20" "\<bar>s * e\<bar> \<le> 1 / 20" "\<bar>s * f\<bar> \<le> 1 / 20"
    "\<bar>s * g\<bar> \<le> 1 / 20" "\<bar>s * h\<bar> \<le> 1 / 20" "\<bar>s * i\<bar> \<le> 1 / 20"
    using en [of 0 0] en [of 0 1] en [of 0 2] en [of 1 0] en [of 1 1] en [of 1 2]
      en [of 2 0] en [of 2 1] en [of 2 2]
    by (simp_all add: m mentry_def)
  have "0 < determinant (exponent_truncation 1 (mscale s m))"
    unfolding sm using b by (rule truncation_det_positive)
  then show "0 < determinant (exponent_truncation s m)"
    by (simp only: exponent_truncation_scale [of s m])
  show "mbound (1 / 20) (mscale s m)"
    unfolding sm using b by (simp add: mbound_cols vbound_def)
qed

lemma float_test_eventually_passes:
  "\<exists>k. fl_less (Fin 0) (flm_determinant (float_truncation (Fin (dt / 2 ^ k)) (of_mat3 m)))"
proof -
  obtain k where k: "\<forall>i<3. \<forall>j<3. \<bar>dt / 2 ^ k * mentry m i j\<bar> \<le> 1 / 20"
    using scaled_entries_small by blast
  note p = small_scaled_det_positive [OF k]
  note t = float_truncation_small [OF p(2)]
  have "flm_determinant (float_truncation (Fin (dt / 2 ^ k)) (of_mat3 m))
      = Fin (determinant (exponent_truncation (dt / 2 ^ k) m))"
    unfolding t(1) by (rule flm_determinant_fin [OF t(2)])
  then have "fl_less (Fin 0) (flm_determinant (float_truncation (Fin (dt / 2 ^ k)) (of_mat3 m)))"
    using p(1) by simp
  then show ?thesis by blast
qed

lemma approximate_exponent_from_step:
  assumes "\<bar>dt\<bar> \<le> flt_max"
    and "fl_less (Fin 0) (flm_determinant (float_truncation (Fin (dt / 2 ^ k)) m))"
  shows "\<exists>r. approximate_exponent (Fin dt) m = Some r"
  using assms
proof (induction k arbitrary: dt)
  case 0
  then show ?case by (simp add: approximate_exponent.simps)
next
  case (Suc k)
  show ?case
  proof (cases "fl_less (Fin 0) (flm_determinant (float_truncation (Fin dt) m))")
    case True
    then show ?thesis by (simp add: approximate_exponent.simps)
  next
    case False
    have h: "fl_div (Fin dt) (Fin 2) = Fin (dt / 2)"
      using Suc.prems(1) by (simp add: to_float_fin)
    have "\<bar>dt / 2\<bar> \<le> flt_max" using Suc.prems(1) by simp
    moreover have "fl_less (Fin 0) (flm_determinant (float_truncation (Fin (dt / 2 / 2 ^ k)) m))"
      using Suc.prems(2) by simp
    ultimately obtain r where "approximate_exponent (Fin (dt / 2)) m = Some r"
      using Suc.IH by blast
    then show ?thesis using False h by (subst approximate_exponent.simps) simp
  qed
qed

lemma nan_det: "flm_determinant (float_truncation dt nan_matrix) = NaN"
  by (cases dt)
    (simp_all add: float_truncation_def nan_matrix_def flm_scalar_def Let_def fl_sub_def)

lemma stuck_det: "stuck dt m \<Longrightarrow> flm_determinant (float_truncation dt m) = NaN"
  by (auto simp: stuck_def nan_det)
    (simp add: float_truncation_def zero_matrix_def flm_scalar_def Let_def fl_sub_def)

lemma stuck_halved: "stuck dt m \<Longrightarrow> stuck (fl_div dt (Fin 2)) m"
  by (auto simp: stuck_def)

lemma stuck_never_returns:
  assumes "approximate_exponent dt m = Some r"
  shows "\<not> stuck dt m"
proof (rule approximate_exponent.raw_induct
    [where P = "\<lambda>dt m r. \<not> stuck dt m" and dt = dt and m = m and y = r])
  fix f dt m r
  assume ih: "\<And>dt m r. f dt m = Some r \<Longrightarrow> \<not> stuck dt m"
    and body: "(if fl_less (Fin 0) (flm_determinant (float_truncation dt m))
        then Some (float_truncation dt m)
        else Option.bind (f (fl_div dt (Fin 2)) m) (\<lambda>tmp. Some (flm_mul tmp tmp))) = Some r"
  show "\<not> stuck dt m"
  proof
    assume s: "stuck dt m"
    have "Option.bind (f (fl_div dt (Fin 2)) m) (\<lambda>tmp. Some (flm_mul tmp tmp)) = Some r"
      using body by (simp add: stuck_det [OF s])
    then obtain t where "f (fl_div dt (Fin 2)) m = Some t"
      by (cases "f (fl_div dt (Fin 2)) m") auto
    then show False using ih stuck_halved [OF s] by blast
  qed
qed (rule assms)

lemma stuck_none: "stuck dt m \<Longrightarrow> approximate_exponent dt m = None"
  using stuck_never_returns [of dt m] by (cases "approximate_exponent dt m") auto

text \<open>
  C10, as stated, fails on float values.  For the matrix whose entry \<open>m[0][0]\<close> is NaN
  (every other entry 0) and \<open>dt = 1\<close>, the determinant of the truncation is NaN at
  every depth, the test \<open>determinant(r) > 0\<close> is false each time and the recursion never
  ends; the same holds for the zero matrix and the step \<open>dt = +infinity\<close>, which is
  greater than 0.
\<close>

theorem approximate_exponent_diverges_on_nan:
  "fl_less (Fin 0) (Fin 1) \<and> approximate_exponent (Fin 1) nan_matrix = None
   \<and> fl_less (Fin 0) PInf \<and> approximate_exponent PInf zero_matrix = None"
  by (simp add: stuck_none stuck_def)

text \<open>
  C10 (amended): \<open>approximate_exponent(dt, m)\<close> returns for every matrix \<open>m\<close> with finite
  entries and every finite \<open>dt\<close>, in particular every finite \<open>dt > 0\<close>: each call halves
  \<open>dt\<close>, some halved step \<open>dt / 2\<^sup>k\<close> makes the determinant of the truncation
  \<open>(0.5 s + 1) s + 1\<close>, \<open>s = m dt\<close>, positive, and the recursion ends there at the latest.
\<close>

theorem approximate_exponent_terminates_finite:
  assumes "\<bar>dt\<bar> \<le> flt_max" and "mbound flt_max m"
  shows "(\<exists>r. approximate_exponent (Fin dt) (of_mat3 m) = Some r)
     \<and> (\<exists>k. fl_less (Fin 0)
            (flm_determinant (float_truncation (Fin (dt / 2 ^ k)) (of_mat3 m))))"
  using approximate_exponent_from_step [OF assms(1)] float_test_eventually_passes [of dt m]
  by blast

lemma rotating_first: "flm_determinant (float_truncation (Fin 1) (of_mat3 rotating_matrix)) = Fin 0"
  by (simp add: float_truncation_def rotating_matrix_def flm_scalar_def Let_def fl_sub_def
      to_float_def flt_max_def)

lemma rotating_second:
  "float_truncation (Fin (1 / 2)) (of_mat3 rotating_matrix)
     = of_mat3 (Mat3 (Vec3 (1 / 2) (1 / 4) 0) (Vec3 (- (1 / 4)) (1 / 2) 0) (Vec3 0 0 1))"
  by (simp add: float_truncation_def rotating_matrix_def flm_scalar_def Let_def fl_sub_def
      to_float_def flt_max_def)

lemma rotating_second_det:
  "flm_determinant (of_mat3 (Mat3 (Vec3 (1 / 2) (1 / 4) 0) (Vec3 (- (1 / 4)) (1 / 2) 0) (Vec3 0 0 1)))
     = Fin (5 / 16)"
  by (simp add: fl_sub_def to_float_def flt_max_def)

lemma rotating_square:
  "flm_mul (of_mat3 (Mat3 (Vec3 (1 / 2) (1 / 4) 0) (Vec3 (- (1 / 4)) (1 / 2) 0) (Vec3 0 0 1)))
        (of_mat3 (Mat3 (Vec3 (1 / 2) (1 / 4) 0) (Vec3 (- (1 / 4)) (1 / 2) 0) (Vec3 0 0 1)))
     = of_mat3 (Mat3 (Vec3 (3 / 16) (1 / 4) 0) (Vec3 (- (1 / 4)) (3 / 16) 0) (Vec3 0 0 1))"
  by (simp add: to_float_def flt_max_def)

lemma rotating_value:
  "approximate_exponent (Fin 1) (of_mat3 rotating_matrix)
     = Some (of_mat3 (Mat3 (Vec3 (3 / 16) (1 / 4) 0) (Vec3 (- (1 / 4)) (3 / 16) 0) (Vec3 0 0 1)))"
proof -
  have h: "fl_div (Fin 1) (Fin 2) = Fin (1 / 2)" by (simp add: to_float_def flt_max_def)
  have s: "approximate_exponent (Fin (1 / 2)) (of_mat3 rotating_matrix)
      = Some (of_mat3 (Mat3 (Vec3 (1 / 2) (1 / 4) 0) (Vec3 (- (1 / 4)) (1 / 2) 0) (Vec3 0 0 1)))"
    by (subst approximate_exponent.simps) (simp only: rotating_second rotating_second_det, simp)
  show ?thesis
    by (subst approximate_exponent.simps)
      (simp only: rotating_first h s,
       simp add: rotating_square del: of_mat3.simps of_vec3.simps flm_mul.simps)
qed

theorem approximate_exponent_terminates_finite_witness:
  "\<bar>1 :: real\<bar> \<le> flt_max \<and> mbound flt_max rotating_matrix
   \<and> (\<exists>r. approximate_exponent (Fin 1) (of_mat3 rotating_matrix) = Some r)
   \<and> (\<exists>k. fl_less (Fin 0)
          (flm_determinant (float_truncation (Fin (1 / 2 ^ k)) (of_mat3 rotating_matrix))))
   \<and> flm_determinant (float_truncation (Fin 1) (of_mat3 rotating_matrix)) = Fin 0
   \<and> approximate_exponent (Fin 1) (of_mat3 rotating_matrix)
       = Some (of_mat3 (Mat3 (Vec3 (3 / 16) (1 / 4) 0) (Vec3 (- (1 / 4)) (3 / 16) 0) (Vec3 0 0 1)))"
proof -
  have a: "\<bar>1 :: real\<bar> \<le> flt_max" by (simp add: flt_max_def)
  have b: "mbound flt_max rotating_matrix"
    by (simp add: rotating_matrix_def mbound_cols vbound_def flt_max_def)
  show ?thesis
    using approximate_exponent_terminates_finite [OF a b] a b rotating_first rotating_value
    by simp
qed

section \<open>Properties of the material models\<close>

lemma mmul_one_diag: "mmul (mscalar 1) (mdiag v) = mdiag v"
  by (cases v) (simp add: mscalar_def mdiag_def vconst_def)

lemma upt_3: "[0..<3] = [0, 1, 2]"
  by (simp add: upt_rec numeral_3_eq_3)

lemma sum_squares_entries:
  "sum_squares (Mat3 (Vec3 a b c) (Vec3 d e f) (Vec3 g h i)) =
     a\<^sup>2 + b\<^sup>2 + c\<^sup>2 + d\<^sup>2 + e\<^sup>2 + f\<^sup>2 + g\<^sup>2 + h\<^sup>2 + i\<^sup>2"
  by (simp add: sum_squares_def upt_3 mentry_def)

lemma von_mises_example_fields:
  "mu_0 von_mises_example = 1" "yield_stress von_mises_example = 3"
  "dg_e von_mises_example = mdiag (Vec3 (exp 1) 1 (exp (- 1)))"
  by (simp_all add: von_mises_example_def rest_particle_def VonMisesParticle.defs)

lemma von_mises_example_strain:
  "deviatoric_log_strain svd_of_diagonal (mmul (mscalar 1) (dg_e von_mises_example))
     = mdiag (Vec3 1 0 (- 1))"
  by (simp add: deviatoric_log_strain_def svd_of_diagonal_def von_mises_example_fields
      mmul_one_diag mdiag_def diag_def mentry_def vmap_def trace_def mscalar_def vconst_def
      dim_def)

lemma von_mises_example_plasticity:
  "VonMises_plasticity svd_of_diagonal (mscalar 1) 0 von_mises_example =
     (von_mises_example\<lparr>dg_e := mdiag (Vec3 (exp (3 / 4)) 1 (exp (- (3 / 4))))\<rparr>, 1)"
  by (simp add: VonMises_plasticity_def svd_of_diagonal_def Let_def von_mises_example_fields
      mscalar_def mdiag_def vconst_def diag_def mentry_def vmap_def trace_def dim_def
      length2_def)

text \<open>
  C5: the code does not do what the claim says.  For the particle \<open>von_mises_example\<close>
  and the increment \<open>F_inc = 1\<close>, the deviatoric logarithmic strain \<open>diag(1, 0, -1)\<close> has
  the Frobenius norm \<open>sqrt 2\<close>, which is below the yield radius
  \<open>yield_stress / (2 mu_0) = 3/2\<close>; by the claim \<open>plasticity\<close> leaves the updated \<open>dg_e\<close>
  and returns 0.  The code compares the squared norm \<open>frobenius_norm2 = 2\<close> with the
  radius, takes the projection branch, changes \<open>dg_e\<close> and returns 1.
\<close>

theorem von_mises_plasticity_projects_inside_yield_radius:
  "frobenius_norm
       (deviatoric_log_strain svd_of_diagonal (mmul (mscalar 1) (dg_e von_mises_example)))
     \<le> yield_stress von_mises_example / (2 * mu_0 von_mises_example)
   \<and> snd (VonMises_plasticity svd_of_diagonal (mscalar 1) 0 von_mises_example) = 1
   \<and> dg_e (fst (VonMises_plasticity svd_of_diagonal (mscalar 1) 0 von_mises_example))
       \<noteq> mmul (mscalar 1) (dg_e von_mises_example)"
proof -
  have sq: "sqrt 2 \<le> 3 / 2"
    by (rule real_le_lsqrt) (simp_all add: power2_eq_square)
  have "frobenius_norm2 (mdiag (Vec3 1 0 (- 1))) = 2"
    by (simp add: mdiag_def length2_def)
  then have "frobenius_norm
      (deviatoric_log_strain svd_of_diagonal (mmul (mscalar 1) (dg_e von_mises_example))) = sqrt 2"
    by (simp only: von_mises_example_strain frobenius_norm_def)
  then have a: "frobenius_norm
       (deviatoric_log_strain svd_of_diagonal (mmul (mscalar 1) (dg_e von_mises_example)))
     \<le> yield_stress von_mises_example / (2 * mu_0 von_mises_example)"
    using sq by (simp add: von_mises_example_fields)
  have b: "snd (VonMises_plasticity svd_of_diagonal (mscalar 1) 0 von_mises_example) = 1"
    by (simp only: von_mises_example_plasticity snd_conv)
  have "exp (3 / 4 :: real) \<noteq> exp 1" by simp
  then have c: "dg_e (fst (VonMises_plasticity svd_of_diagonal (mscalar 1) 0 von_mises_example))
       \<noteq> mmul (mscalar 1) (dg_e von_mises_example)"
    by (simp add: von_mises_example_plasticity von_mises_example_fields mmul_one_diag)
      (simp add: mdiag_def)
  show ?thesis using a b c by blast
qed

lemma kinematics_entries:
  "kinematics cdg dt =
     1.414 * sqrt (\<Sum>i<3. \<Sum>j<3.
       (((mentry cdg i j - (if i = j then 1 else 0)) / dt
          + (mentry cdg j i - (if i = j then 1 else 0)) / dt) / 2)\<^sup>2)"
proof -
  obtain a b c d e f g h i where m: "cdg = Mat3 (Vec3 a b c) (Vec3 d e f) (Vec3 g h i)"
    by (metis mat3.exhaust vec3.exhaust)
  show ?thesis
    unfolding sum_3_axes
    by (cases "dt = 0")
      (simp_all add: m kinematics_def Let_def sum_squares_entries mscalar_def mdiag_def
        vconst_def mentry_def field_simps power2_eq_square)
qed

text \<open>
  C6: for a Nonlocal particle whose density \<open>rho = mass / (vol det(dg_t))\<close>, computed
  after \<open>dg_t \<leftarrow> F_inc dg_t\<close>, is below the critical density, \<open>plasticity\<close> sets the
  Cauchy tensor \<open>T\<close> to the zero matrix, the pressure \<open>p\<close> to 0, \<open>dg_p\<close> to the new
  \<open>dg_t\<close>, and the fluidity \<open>gf\<close> to \<open>max(0, gamma_dot_eq / mu_2)\<close>; it returns 0.
  \<open>gamma_dot_eq\<close> is the equivalent shear strain rate of the increment:
  \<open>1.414\<close> times the square root of the sum of the squared entries of
  \<open>D = (L + L\<^sup>T) / 2\<close>, the symmetric part of the velocity gradient
  \<open>L = (F_inc - 1) / delta_t\<close>.  The divisors \<open>vol\<close>, \<open>det(dg_t)\<close>, \<open>mu_2\<close> and \<open>delta_t\<close>
  are not zero (the code divides by them unguarded and gets infinities there, which
  exact arithmetic does not have).
\<close>

theorem nonlocal_plasticity_disconnected:
  assumes "vol this \<noteq> 0" and "determinant (mmul cdg (dg_t this)) \<noteq> 0"
    and "mu_2 this \<noteq> 0" and "delta_t this \<noteq> 0"
    and "mass this / (vol this * determinant (mmul cdg (dg_t this))) < rho_c this"
  shows "T_field (fst (Nonlocal_plasticity svd cdg laplacian_gf this)) = mscalar 0
       \<and> p_field (fst (Nonlocal_plasticity svd cdg laplacian_gf this)) = 0
       \<and> dg_t (fst (Nonlocal_plasticity svd cdg laplacian_gf this)) = mmul cdg (dg_t this)
       \<and> dg_p (fst (Nonlocal_plasticity svd cdg laplacian_gf this)) = mmul cdg (dg_t this)
       \<and> gf (fst (Nonlocal_plasticity svd cdg laplacian_gf this))
           = max 0 (1.414 * sqrt (\<Sum>i<3. \<Sum>j<3.
                 (((mentry cdg i j - (if i = j then 1 else 0)) / delta_t this
                    + (mentry cdg j i - (if i = j then 1 else 0)) / delta_t this) / 2)\<^sup>2)
               / mu_2 this)
       \<and> snd (Nonlocal_plasticity svd cdg laplacian_gf this) = 0"
proof -
  have "mass this / vol this / determinant (mmul cdg (dg_t this)) < rho_c this"
    using assms(5) by (simp add: divide_divide_eq_left)
  then show ?thesis
    by (simp add: Nonlocal_plasticity_def Let_def split_beta kinematics_entries)
qed

lemma stretched_nonlocal_fields:
  "vol stretched_nonlocal = 1" "mass stretched_nonlocal = 1"
  "dg_t stretched_nonlocal = mdiag (Vec3 2 1 1)" "dg_p stretched_nonlocal = mscalar 1"
  "T_field stretched_nonlocal = mscalar 5" "p_field stretched_nonlocal = 7"
  "gf stretched_nonlocal = 3"
  "rho_c stretched_nonlocal = 2000" "mu_2 stretched_nonlocal = 0.6435"
  "delta_t stretched_nonlocal = 1 / 10000"
  by (simp_all add: stretched_nonlocal_def nonlocal_example_def rest_particle_def
      NonlocalParticle.defs)

lemma small_stretch_product:
  "mmul small_stretch (mdiag (Vec3 2 1 1)) = mdiag (Vec3 (20006 / 10000) (10004 / 10000) 1)"
  by (simp add: small_stretch_def mdiag_def)

lemma determinant_diag: "determinant (mdiag (Vec3 x y z)) = x * y * z"
  by (simp add: mdiag_def)

lemma small_stretch_rate:
  "(\<Sum>i<3. \<Sum>j<3.
       (((mentry small_stretch i j - (if i = j then 1 else 0)) / delta_t stretched_nonlocal
          + (mentry small_stretch j i - (if i = j then 1 else 0)) / delta_t stretched_nonlocal)
        / 2)\<^sup>2) = 25"
  unfolding sum_3_axes
  by (simp add: small_stretch_def mdiag_def mentry_def stretched_nonlocal_fields)

theorem nonlocal_plasticity_disconnected_witness:
  "vol stretched_nonlocal \<noteq> 0
    \<and> determinant (mmul small_stretch (dg_t stretched_nonlocal)) \<noteq> 0
    \<and> mu_2 stretched_nonlocal \<noteq> 0 \<and> delta_t stretched_nonlocal \<noteq> 0
    \<and> mass stretched_nonlocal
          / (vol stretched_nonlocal * determinant (mmul small_stretch (dg_t stretched_nonlocal)))
        < rho_c stretched_nonlocal
    \<and> T_field stretched_nonlocal = mscalar 5 \<and> p_field stretched_nonlocal = 7
    \<and> dg_p stretched_nonlocal = mscalar 1 \<and> gf stretched_nonlocal = 3
    \<and> T_field (fst (Nonlocal_plasticity svd_of_diagonal small_stretch 0 stretched_nonlocal))
        = mscalar 0
    \<and> p_field (fst (Nonlocal_plasticity svd_of_diagonal small_stretch 0 stretched_nonlocal)) = 0
    \<and> dg_p (fst (Nonlocal_plasticity svd_of_diagonal small_stretch 0 stretched_nonlocal))
        = mdiag (Vec3 (20006 / 10000) (10004 / 10000) 1)
    \<and> gf (fst (Nonlocal_plasticity svd_of_diagonal small_stretch 0 stretched_nonlocal))
        = 14140 / 1287"
proof -
  have a: "vol stretched_nonlocal \<noteq> 0" by (simp add: stretched_nonlocal_fields)
  have b: "determinant (mmul small_stretch (dg_t stretched_nonlocal)) \<noteq> 0"
    by (simp add: stretched_nonlocal_fields small_stretch_product determinant_diag)
  have c: "mu_2 stretched_nonlocal \<noteq> 0" by (simp add: stretched_nonlocal_fields)
  have d: "delta_t stretched_nonlocal \<noteq> 0" by (simp add: stretched_nonlocal_fields)
  have e: "mass stretched_nonlocal
          / (vol stretched_nonlocal * determinant (mmul small_stretch (dg_t stretched_nonlocal)))
        < rho_c stretched_nonlocal"
    by (simp add: stretched_nonlocal_fields small_stretch_product determinant_diag)
  have f: "sqrt 25 = 5" using real_sqrt_abs [of 5] by simp
  show ?thesis
    using nonlocal_plasticity_disconnected [OF a b c d e, of svd_of_diagonal 0] a b c d e
    unfolding small_stretch_rate f
    by (simp add: stretched_nonlocal_fields small_stretch_product)
qed

section \<open>Mass conservation of rasterize\<close>

lemma sum_cell_update:
  fixes F :: "GridState \<Rightarrow> real"
  assumes "finite S" "i \<in> S"
  shows "(\<Sum>c\<in>S. F ((g(i := v)) c)) = (\<Sum>c\<in>S. F (g c)) - F (g i) + F v"
proof -
  have "(\<Sum>c\<in>S. F ((g(i := v)) c)) = F v + (\<Sum>c\<in>S - {i}. F ((g(i := v)) c))"
    using assms by (simp add: sum.remove)
  also have "(\<Sum>c\<in>S - {i}. F ((g(i := v)) c)) = (\<Sum>c\<in>S - {i}. F (g c))"
    by (rule sum.cong) auto
  also have "(\<Sum>c\<in>S. F (g c)) = F (g i) + (\<Sum>c\<in>S - {i}. F (g c))"
    using assms by (simp add: sum.remove)
  ultimately show ?thesis by simp
qed

lemma mass_lane_deposit:
  "lane (v4add a (v4scale w (v4add (VectorP x m) (VectorP y 0)))) dim = lane a dim + w * m"
  by (cases a; cases x; cases y) (simp add: dim_def algebra_simps)

lemma rasterize_node_deposit:
  assumes "\<not> node_cut C M p ind"
  shows "\<exists>M'. rasterize_node C dt wforce p ind M = Some M'
     \<and> inv_delta_x M' = inv_delta_x M \<and> state_mask M' = state_mask M
     \<and> (\<forall>c. states (grid M' c) = states (grid M c))
     \<and> (finite cells \<longrightarrow> stencil_node C M p ind \<in> cells \<longrightarrow>
          grid_mass cells M' = grid_mass cells M + node_weight C M p ind * mass p)"
proof -
  define i where "i = stencil_node C M p ind"
  define g where "g = grid M i"
  obtain delta where
    r: "rasterize_node C dt wforce p ind M =
          Some (M\<lparr>grid := (grid M)(i := g\<lparr>velocity_and_mass := v4add (velocity_and_mass g) delta\<rparr>)\<rparr>)"
    and d: "lane (v4add (velocity_and_mass g) delta) dim
          = lane (velocity_and_mass g) dim + node_weight C M p ind * mass p"
    using assms
    by (simp add: rasterize_node_def node_cut_def stencil_node_def node_weight_def Let_def
        mpm_kernel_order_def i_def g_def mass_lane_deposit)
  define M' where
    "M' = M\<lparr>grid := (grid M)(i := g\<lparr>velocity_and_mass := v4add (velocity_and_mass g) delta\<rparr>)\<rparr>"
  have m: "grid_mass cells M' = grid_mass cells M + node_weight C M p ind * mass p"
    if "finite cells" "i \<in> cells"
  proof -
    have "grid_mass cells M' = (\<Sum>c\<in>cells. (\<lambda>gs. lane (velocity_and_mass gs) dim)
        (((grid M)(i := g\<lparr>velocity_and_mass := v4add (velocity_and_mass g) delta\<rparr>)) c))"
      by (simp only: grid_mass_def M'_def) simp
    also have "\<dots> = (\<Sum>c\<in>cells. lane (velocity_and_mass (grid M c)) dim)
        - lane (velocity_and_mass (grid M i)) dim
        + lane (velocity_and_mass (g\<lparr>velocity_and_mass := v4add (velocity_and_mass g) delta\<rparr>)) dim"
      by (rule sum_cell_update [OF that])
    also have "\<dots> = grid_mass cells M + node_weight C M p ind * mass p"
      using d by (simp add: grid_mass_def g_def)
    finally show ?thesis .
  qed
  have "states (grid M' c) = states (grid M c)" for c
    by (simp add: M'_def g_def)
  then show ?thesis
    using m r by (auto simp: M'_def [symmetric] i_def [symmetric]) (simp_all add: M'_def)
qed


lemma rasterize_nodes_deposit:
  assumes "finite cells"
    and "\<forall>ind\<in>set inds. stencil_node C M p ind \<in> cells \<and> \<not> node_cut C M p ind"
  shows "\<exists>M'. fold_opt (rasterize_node C dt wforce p) inds M = Some M'
     \<and> inv_delta_x M' = inv_delta_x M \<and> state_mask M' = state_mask M
     \<and> (\<forall>c. states (grid M' c) = states (grid M c))
     \<and> grid_mass cells M' = grid_mass cells M + (\<Sum>ind\<leftarrow>inds. node_weight C M p ind) * mass p"
  using assms(2)
proof (induction inds arbitrary: M)
  case Nil
  then show ?case by simp
next
  case (Cons ind inds)
  have cut: "\<not> node_cut C M p ind" and inside: "stencil_node C M p ind \<in> cells"
    using Cons.prems by simp_all
  obtain M1 where s1: "rasterize_node C dt wforce p ind M = Some M1"
    and k1: "inv_delta_x M1 = inv_delta_x M" "state_mask M1 = state_mask M"
      "\<forall>c. states (grid M1 c) = states (grid M c)"
    and m1: "grid_mass cells M1 = grid_mass cells M + node_weight C M p ind * mass p"
    using rasterize_node_deposit [OF cut, of dt wforce cells] assms(1) inside by blast
  have same: "stencil_node C M1 p j = stencil_node C M p j"
    "node_cut C M1 p j = node_cut C M p j" "node_weight C M1 p j = node_weight C M p j" for j
    using k1(1,2) by (simp_all add: stencil_node_def node_cut_def node_weight_def get_states_def
        k1(3) [rule_format])
  have "\<forall>j\<in>set inds. stencil_node C M1 p j \<in> cells \<and> \<not> node_cut C M1 p j"
    using Cons.prems by (simp add: same)
  then obtain M2 where s2: "fold_opt (rasterize_node C dt wforce p) inds M1 = Some M2"
    and k2: "inv_delta_x M2 = inv_delta_x M1" "state_mask M2 = state_mask M1"
      "\<forall>c. states (grid M2 c) = states (grid M1 c)"
    and m2: "grid_mass cells M2
        = grid_mass cells M1 + (\<Sum>j\<leftarrow>inds. node_weight C M1 p j) * mass p"
    using Cons.IH [of M1] by blast
  have "grid_mass cells M2
      = grid_mass cells M + (\<Sum>j\<leftarrow>ind # inds. node_weight C M p j) * mass p"
    using m1 m2 by (simp add: same algebra_simps)
  then show ?case
    using s1 s2 k1 k2 by simp
qed

lemma rasterize_particle_deposit:
  assumes "finite cells" and "\<not> is_rigid p"
    and "\<forall>ind\<in>set region. stencil_node C M p ind \<in> cells \<and> \<not> node_cut C M p ind"
    and "(\<Sum>ind\<leftarrow>region. node_weight C M p ind) = 1"
  shows "\<exists>M' p'. rasterize_particle C dt wforce p M = Some (M', p')
     \<and> inv_delta_x M' = inv_delta_x M \<and> state_mask M' = state_mask M
     \<and> (\<forall>c. states (grid M' c) = states (grid M c))
     \<and> grid_mass cells M' = grid_mass cells M + mass p"
proof -
  define p1 where "p1 = (if particle_gravity M
      then p\<lparr>velocity := vadd (velocity p) (vscale dt (gravity M))\<rparr> else p)"
  have same: "stencil_node C M p1 j = stencil_node C M p j"
    "node_cut C M p1 j = node_cut C M p j" "node_weight C M p1 j = node_weight C M p j"
    "mass p1 = mass p" for j
    by (simp_all add: p1_def stencil_node_def node_cut_def node_weight_def)
  have "\<forall>ind\<in>set region. stencil_node C M p1 ind \<in> cells \<and> \<not> node_cut C M p1 ind"
    using assms(3) by (simp add: same)
  then obtain M' where s: "fold_opt (rasterize_node C dt wforce p1) region M = Some M'"
    and k: "inv_delta_x M' = inv_delta_x M" "state_mask M' = state_mask M"
      "\<forall>c. states (grid M' c) = states (grid M c)"
    and m: "grid_mass cells M'
        = grid_mass cells M + (\<Sum>ind\<leftarrow>region. node_weight C M p1 ind) * mass p1"
    using rasterize_nodes_deposit [OF assms(1), of region C M p1 dt wforce] by blast
  have "grid_mass cells M' = grid_mass cells M + mass p"
    using m assms(4) by (simp add: same)
  moreover have "rasterize_particle C dt wforce p M = Some (M', p1)"
    using s assms(2) by (simp add: rasterize_particle_def p1_def Let_def)
  ultimately show ?thesis using k by blast
qed

lemma rasterize_particles_deposit:
  assumes "finite cells"
    and "\<forall>p\<in>set ps. \<not> is_rigid p"
    and "\<forall>p\<in>set ps. \<forall>ind\<in>set region. stencil_node C M p ind \<in> cells \<and> \<not> node_cut C M p ind"
    and "\<forall>p\<in>set ps. (\<Sum>ind\<leftarrow>region. node_weight C M p ind) = 1"
  shows "\<exists>M' ps'. rasterize_particles C dt wforce ps M = Some (M', ps')
     \<and> grid_mass cells M' = grid_mass cells M + (\<Sum>p\<leftarrow>ps. mass p)"
  using assms(2-4)
proof (induction ps arbitrary: M)
  case Nil
  then show ?case by simp
next
  case (Cons p ps)
  obtain M1 p1 where s1: "rasterize_particle C dt wforce p M = Some (M1, p1)"
    and k1: "inv_delta_x M1 = inv_delta_x M" "state_mask M1 = state_mask M"
      "\<forall>c. states (grid M1 c) = states (grid M c)"
    and m1: "grid_mass cells M1 = grid_mass cells M + mass p"
    using rasterize_particle_deposit [OF assms(1), of p C M dt wforce] Cons.prems by auto
  have same: "stencil_node C M1 q j = stencil_node C M q j"
    "node_cut C M1 q j = node_cut C M q j" "node_weight C M1 q j = node_weight C M q j" for q j
    using k1(1,2) by (simp_all add: stencil_node_def node_cut_def node_weight_def get_states_def
        k1(3) [rule_format])
  obtain M2 ps1 where s2: "rasterize_particles C dt wforce ps M1 = Some (M2, ps1)"
    and m2: "grid_mass cells M2 = grid_mass cells M1 + (\<Sum>q\<leftarrow>ps. mass q)"
    using Cons.IH [of M1] Cons.prems by (auto simp: same)
  show ?case
    using s1 s2 m1 m2 by simp
qed

text \<open>
  C1 (amended): when no particle is rigid, the coloring test is false at every stencil
  node of every particle (no particle is cut off from a node by a rigid body), every
  stencil lies inside the grid, and the kernel weights of each particle sum to 1 (as
  those of \<open>MLSMPMFastKernel32\<close> do), \<open>rasterize\<close> returns and raises the total of
  the mass lane over the grid by the sum of the particles' masses: on a grid whose mass
  lanes start at zero the total equals that sum, exactly.
\<close>

theorem rasterize_conserves_mass_without_cuts:
  assumes "finite cells"
    and "\<forall>p\<in>set ps. \<not> is_rigid p"
    and "\<forall>p\<in>set ps. \<forall>ind\<in>set region. stencil_node C M p ind \<in> cells \<and> \<not> node_cut C M p ind"
    and "\<forall>p\<in>set ps. (\<Sum>ind\<leftarrow>region. node_weight C M p ind) = 1"
  shows "\<exists>M' ps'. rasterize C dt wforce ps M = Some (M', ps')
     \<and> grid_mass cells M' = grid_mass cells M + (\<Sum>p\<leftarrow>ps. mass p)"
proof -
  define M0 where "M0 = M\<lparr>tmp_impulses := []\<rparr>"
  have same: "stencil_node C M0 q j = stencil_node C M q j"
    "node_cut C M0 q j = node_cut C M q j" "node_weight C M0 q j = node_weight C M q j" for q j
    by (simp_all add: M0_def stencil_node_def node_cut_def node_weight_def)
  have "grid_mass cells M0 = grid_mass cells M"
    by (simp add: M0_def grid_mass_def)
  then show ?thesis
    using rasterize_particles_deposit [OF assms(1), of ps C M0 dt wforce] assms(2-4)
    by (simp add: rasterize_def M0_def [symmetric] same)
qed


lemma far_side_node_skipped:
  "rasterize_node demo_collaborators dt wforce near_side_particle ind (demo_mpm far_side_grid)
     = Some (demo_mpm far_side_grid)"
  by (simp add: rasterize_node_def Let_def demo_mpm_def far_side_grid_def near_side_particle_def
      rest_particle_def zero_cell_def different_color_def color_mask_def get_states_def
      tag_mask_def tag_bits_def max_num_rigid_bodies_def)

lemma far_side_nodes_skipped:
  "fold_opt (rasterize_node demo_collaborators dt wforce near_side_particle) inds
     (demo_mpm far_side_grid) = Some (demo_mpm far_side_grid)"
  by (induction inds) (simp_all add: far_side_node_skipped)

text \<open>
  C1, as stated, fails for a particle that a rigid body separates from its grid nodes:
  \<open>rasterize\<close> then diverts the particle's contribution into an impulse on the rigid
  body (or drops it when the node names no rigid body) and writes nothing to the node.
  With every node on the far side of rigid body 0, a particle of mass 1 leaves the grid
  as it was, with total mass 0.
\<close>

theorem rasterize_cut_particle_deposits_no_mass:
  "rasterize demo_collaborators (1 / 10000) True [near_side_particle] (demo_mpm far_side_grid)
     = Some (demo_mpm far_side_grid, [near_side_particle])
   \<and> grid_mass demo_cells (demo_mpm far_side_grid) = 0
   \<and> (\<Sum>p\<leftarrow>[near_side_particle]. mass p) = 1"
proof -
  have a: "demo_mpm far_side_grid\<lparr>tmp_impulses := []\<rparr> = demo_mpm far_side_grid"
    by (simp add: demo_mpm_def)
  have b: "\<not> is_rigid near_side_particle" "\<not> particle_gravity (demo_mpm far_side_grid)"
    "mass near_side_particle = 1"
    by (simp_all add: near_side_particle_def rest_particle_def demo_mpm_def)
  have "rasterize demo_collaborators (1 / 10000) True [near_side_particle] (demo_mpm far_side_grid)
     = Some (demo_mpm far_side_grid, [near_side_particle])"
    by (simp add: rasterize_def a rasterize_particle_def b far_side_nodes_skipped)
  moreover have "grid_mass demo_cells (demo_mpm far_side_grid) = 0"
    by (simp add: grid_mass_def demo_mpm_def far_side_grid_def zero_cell_def dim_def)
  ultimately show ?thesis by (simp add: b)
qed

lemma region_nodes: "region = [(0,0,0),(0,0,1),(0,0,2),(0,1,0),(0,1,1),(0,1,2),(0,2,0),(0,2,1),(0,2,2),
   (1,0,0),(1,0,1),(1,0,2),(1,1,0),(1,1,1),(1,1,2),(1,2,0),(1,2,1),(1,2,2),
   (2,0,0),(2,0,1),(2,0,2),(2,1,0),(2,1,1),(2,1,2),(2,2,0),(2,2,1),(2,2,2)]"
  by (simp add: region_def)

theorem rasterize_conserves_mass_without_cuts_witness:
  "finite demo_cells
   \<and> \<not> is_rigid (rest_particle ())
   \<and> list_all (\<lambda>ind.
         stencil_node demo_collaborators (demo_mpm empty_grid) (rest_particle ()) ind \<in> demo_cells
         \<and> \<not> node_cut demo_collaborators (demo_mpm empty_grid) (rest_particle ()) ind) region
   \<and> (\<Sum>ind\<leftarrow>region.
         node_weight demo_collaborators (demo_mpm empty_grid) (rest_particle ()) ind) = 1
   \<and> (\<exists>M' ps'. rasterize demo_collaborators (1 / 10000) True [rest_particle ()] (demo_mpm empty_grid)
           = Some (M', ps')
        \<and> grid_mass demo_cells M' = 1)"
proof -
  have base: "stencil_node demo_collaborators (demo_mpm empty_grid) (rest_particle ()) ind = ind" for ind
    by (cases ind) (simp add: stencil_node_def demo_collaborators_def demo_mpm_def rest_particle_def
        get_stencil_start_def int_of_real_def trunc_int_def)
  have nocut: "\<not> node_cut demo_collaborators (demo_mpm empty_grid) (rest_particle ()) ind" for ind
    by (simp add: node_cut_def demo_mpm_def empty_grid_def zero_cell_def rest_particle_def
        different_color_def color_mask_def get_states_def)
  have a: "finite demo_cells" by (simp add: demo_cells_def)
  have b: "\<forall>p\<in>set [rest_particle ()]. \<not> is_rigid p" by (simp add: rest_particle_def)
  have c: "\<forall>p\<in>set [rest_particle ()]. \<forall>ind\<in>set region.
         stencil_node demo_collaborators (demo_mpm empty_grid) p ind \<in> demo_cells
         \<and> \<not> node_cut demo_collaborators (demo_mpm empty_grid) p ind"
    by (simp add: base nocut demo_cells_def)
  have w: "node_weight demo_collaborators (demo_mpm empty_grid) (rest_particle ()) (i, j, k)
      = lane (kernels (Vec3 (1 / 2) (1 / 2) (1 / 2)) (nat i) (nat j)) (nat k)" for i j k
    by (simp add: node_weight_def demo_collaborators_def demo_mpm_def rest_particle_def
        get_stencil_start_def int_of_real_def trunc_int_def dim_def)
  have wc: "w_cache (Vec3 (1 / 2) (1 / 2) (1 / 2)) k = Vec4 (1 / 2) (1 / 2) 0 0" for k
    by (simp add: w_cache_def p_fract_def vconst_def fmadd_def make_float4_def set1_def Let_def)
  have d: "\<forall>p\<in>set [rest_particle ()].
         (\<Sum>ind\<leftarrow>region. node_weight demo_collaborators (demo_mpm empty_grid) p ind) = 1"
    by (simp add: region_nodes w kernels_def wc set1_def)
  have e: "grid_mass demo_cells (demo_mpm empty_grid) = 0"
    by (simp add: grid_mass_def demo_mpm_def empty_grid_def zero_cell_def dim_def)
  have f: "mass (rest_particle ()) = 1" by (simp add: rest_particle_def)
  show ?thesis
    using rasterize_conserves_mass_without_cuts [OF a b c d, of "1 / 10000" True] a b c d
    by (simp add: e f list_all_iff)
qed

section \<open>The affine matrices of near-boundary particles after resample\<close>

lemma fold_opt_invariant:
  assumes step: "\<And>x s. I s \<Longrightarrow> \<exists>s'. f x s = Some s' \<and> I s'"
    and "I s"
  shows "\<exists>s'. fold_opt f xs s = Some s' \<and> I s'"
  using assms(2)
proof (induction xs arbitrary: s)
  case Nil
  then show ?case by simp
next
  case (Cons x xs)
  obtain s1 where "f x s = Some s1" "I s1" using step [OF Cons.prems] by blast
  then show ?case using Cons.IH [of s1] by simp
qed

lemma friction_project_not_None: "friction_project v v_base n mu \<noteq> None"
  using friction_project_defined [of v v_base n mu] by auto

lemma different_color_velocity_defined:
  assumes "rid = - 1 \<or> get_rigid_body_ptr M rid \<noteq> None"
  shows "\<exists>v rid'. different_color_velocity M p g grid_pos rid = Some (v, rid')
     \<and> (rid' = - 1 \<or> get_rigid_body_ptr M rid' \<noteq> None)"
proof (cases "get_rigid_body_ptr M (get_rigid_body_id g)")
  case None
  then show ?thesis
    using assms
    by (auto simp: different_color_velocity_def Let_def friction_project_not_None
        split: option.splits)
next
  case (Some rb)
  then show ?thesis
    by (auto simp: different_color_velocity_def Let_def friction_project_not_None
        split: option.splits)
qed

lemma different_color_velocity_rigid_defined:
  assumes "rid = - 1 \<or> get_rigid_body_ptr M rid \<noteq> None"
  shows "\<exists>v rid'. different_color_velocity_rigid M p g grid_pos rid = Some (v, rid')
     \<and> (rid' = - 1 \<or> get_rigid_body_ptr M rid' \<noteq> None)"
proof (cases "get_rigid_body_ptr M (get_rigid_body_id g)")
  case None
  then show ?thesis
    using assms
    by (auto simp: different_color_velocity_rigid_def Let_def friction_project_not_None
        split: option.splits)
next
  case (Some rb)
  then show ?thesis
    by (auto simp: different_color_velocity_rigid_def Let_def friction_project_not_None
        split: option.splits)
qed

lemma resample_rigid_node_defined:
  assumes "case acc of (v, b, c, cdg, rid) \<Rightarrow> rid = - 1 \<or> get_rigid_body_ptr M rid \<noteq> None"
  shows "\<exists>acc'. resample_rigid_node C M gc off base p node_id acc = Some acc'
     \<and> (case acc' of (v, b, c, cdg, rid) \<Rightarrow> rid = - 1 \<or> get_rigid_body_ptr M rid \<noteq> None)"
proof -
  obtain v b c cdg rid where acc: "acc = (v, b, c, cdg, rid)" by (cases acc) auto
  have rid: "rid = - 1 \<or> get_rigid_body_ptr M rid \<noteq> None" using assms by (simp add: acc)
  define g where "g = linear gc (kernel_linearized gc node_id + off)"
  define gp where "gp = vscale (delta_x M)
      (vadd (grid_pos_offset node_id) base)"
  obtain fv rid' where d: "different_color_velocity_rigid M p g gp rid = Some (fv, rid')"
    and r': "rid' = - 1 \<or> get_rigid_body_ptr M rid' \<noteq> None"
    using different_color_velocity_rigid_defined [OF rid] by blast
  show ?thesis
    using d r' rid
    by (auto simp: resample_rigid_node_def acc Let_def g_def [symmetric] gp_def [symmetric])
qed

lemma resample_node_defined:
  assumes "case acc of (v, b, cdg, rid) \<Rightarrow> rid = - 1 \<or> get_rigid_body_ptr M rid \<noteq> None"
  shows "\<exists>acc'. resample_node C M p ind acc = Some acc'
     \<and> (case acc' of (v, b, cdg, rid) \<Rightarrow> rid = - 1 \<or> get_rigid_body_ptr M rid \<noteq> None)"
proof -
  obtain v b cdg rid where acc: "acc = (v, b, cdg, rid)" by (cases acc) auto
  have rid: "rid = - 1 \<or> get_rigid_body_ptr M rid \<noteq> None" using assms by (simp add: acc)
  define i where "i = iadd ind (get_grid_base_pos C (vscale (inv_delta_x M) (pos p)))"
  obtain fv rid' where d: "different_color_velocity M p (grid M i) (vscale (delta_x M) (cast_real i)) rid
        = Some (fv, rid')"
    and r': "rid' = - 1 \<or> get_rigid_body_ptr M rid' \<noteq> None"
    using different_color_velocity_defined [OF rid] by blast
  show ?thesis
    using d r' rid
    by (auto simp: resample_node_def acc Let_def i_def [symmetric])
qed

lemma boundary_penalty_defined:
  assumes "rid = - 1 \<or> get_rigid_body_ptr M rid \<noteq> None"
  shows "\<exists>M' p'. boundary_penalty M rid p = Some (M', p')
     \<and> apic_b p' = apic_b p \<and> apic_c p' = apic_c p"
  using assms by (auto simp: boundary_penalty_def Let_def)


lemma resample_rigid_particle_near_boundary:
  assumes nb: "near_boundary p" and nr: "\<not> is_rigid p"
    and frame: "\<forall>F q. apic_b (fst (plasticity C F q)) = apic_b q
                  \<and> apic_c (fst (plasticity C F q)) = apic_c q"
  shows "\<exists>M' p'. resample_rigid_particle C gc off base p M = Some (M', p')
     \<and> apic_b p' = mscalar 0 \<and> apic_c p' = mscalar 0"
proof -
  obtain v b c cdg0 rid where
    f: "fold_opt (resample_rigid_node C M gc off base p) [0..<27]
          (vconst 0, mscalar 0, mscalar 0, mscalar 0, - 1) = Some (v, b, c, cdg0, rid)"
    and rid: "rid = - 1 \<or> get_rigid_body_ptr M rid \<noteq> None"
    using fold_opt_invariant [of
        "\<lambda>acc. case acc of (v, b, c, cdg, rid) \<Rightarrow> rid = - 1 \<or> get_rigid_body_ptr M rid \<noteq> None"
        "resample_rigid_node C M gc off base p"
        "(vconst 0, mscalar 0, mscalar 0, mscalar 0, - 1)" "[0..<27]"]
      resample_rigid_node_defined [where M = M and C = C and gc = gc and off = off and base = base and p = p]
    by auto
  define p2 where "p2 = p\<lparr>apic_b := mscalar 0, apic_c := mscalar 0, velocity := v\<rparr>"
  define cdg where "cdg = rows (\<lambda>i. fused_mul_add (vconst (base_delta_t M))
      (mcol (mscale (- 4 * inv_delta_x M) b) i) (vaxis i))"
  obtain p3 n where pl: "plasticity C cdg p2 = (p3, n)" by (cases "plasticity C cdg p2")
  have p3: "apic_b p3 = mscalar 0" "apic_c p3 = mscalar 0"
    using frame [rule_format, of cdg p2] unfolding pl by (simp_all add: p2_def)
  define M1 where "M1 = M\<lparr>plasticity_counter := plasticity_counter M + n\<rparr>"
  define p4 where "p4 = p3\<lparr>pos := fused_mul_add (velocity p3) (vconst (base_delta_t M)) (pos p3)\<rparr>"
  have "rid = - 1 \<or> get_rigid_body_ptr M1 rid \<noteq> None"
    using rid by (simp add: M1_def)
  then obtain M' p' where bp: "boundary_penalty M1 rid p4 = Some (M', p')"
    and ab: "apic_b p' = apic_b p4" "apic_c p' = apic_c p4"
    using boundary_penalty_defined by blast
  have "resample_rigid_particle C gc off base p M = Some (M', p')"
    using nb nr f pl bp
    by (simp add: resample_rigid_particle_def Let_def p2_def cdg_def M1_def p4_def)
  then show ?thesis using ab p3 by (simp add: p4_def)
qed

lemma resample_particle_near_boundary:
  assumes nb: "near_boundary p" and nr: "\<not> is_rigid p"
    and frame: "\<forall>F q. apic_b (fst (plasticity C F q)) = apic_b q
                  \<and> apic_c (fst (plasticity C F q)) = apic_c q"
  shows "\<exists>M' p'. resample_particle C p M = Some (M', p')
     \<and> apic_b p' = mscalar 0 \<and> apic_c p' = apic_c p"
proof -
  obtain v b cdg0 rid where
    f: "fold_opt (resample_node C M p) region (vconst 0, mscalar 0, mscalar 0, - 1)
          = Some (v, b, cdg0, rid)"
    and rid: "rid = - 1 \<or> get_rigid_body_ptr M rid \<noteq> None"
    using fold_opt_invariant [of
        "\<lambda>acc. case acc of (v, b, cdg, rid) \<Rightarrow> rid = - 1 \<or> get_rigid_body_ptr M rid \<noteq> None"
        "resample_node C M p" "(vconst 0, mscalar 0, mscalar 0, - 1)" region]
      resample_node_defined [where M = M and C = C and p = p]
    by auto
  define p2 where "p2 = p\<lparr>apic_b := mscalar 0, velocity := v\<rparr>"
  define cdg where "cdg = madd (mscalar 1)
      (mscale (base_delta_t M) (mscale (- 4 * inv_delta_x M) b))"
  obtain p3 n where pl: "plasticity C cdg p2 = (p3, n)" by (cases "plasticity C cdg p2")
  have p3: "apic_b p3 = mscalar 0" "apic_c p3 = apic_c p"
    using frame [rule_format, of cdg p2] unfolding pl by (simp_all add: p2_def)
  define M1 where "M1 = M\<lparr>plasticity_counter := plasticity_counter M + n\<rparr>"
  define p5 where "p5 = p3\<lparr>pos := vadd (pos p3) (vscale (base_delta_t M) (velocity p3))\<rparr>
     \<lparr>pos := vscale (delta_x M)
        (vclamp (vscale (inv_delta_x M) (vadd (pos p3) (vscale (base_delta_t M) (velocity p3))))
           (vconst 0) (vsub (cast_real (res M)) (vconst (eps M))))\<rparr>"
  have "rid = - 1 \<or> get_rigid_body_ptr M1 rid \<noteq> None"
    using rid by (simp add: M1_def)
  then obtain M' p' where bp: "boundary_penalty M1 rid p5 = Some (M', p')"
    and ab: "apic_b p' = apic_b p5" "apic_c p' = apic_c p5"
    using boundary_penalty_defined by blast
  have "resample_particle C p M = Some (M', p')"
    using nb nr f pl bp
    by (simp add: resample_particle_def Let_def p2_def cdg_def M1_def p5_def)
  then show ?thesis using ab p3 by (simp add: p5_def)
qed

text \<open>
  C8 (amended): for every non-rigid particle for which \<open>near_boundary()\<close> is true, and a
  material whose \<open>plasticity\<close> does not write \<open>apic_b\<close> and \<open>apic_c\<close> (none of the
  materials does), the rigid-aware block kernel of the optimized resample
  (\<open>block_op_rigid\<close>) returns with \<open>apic_b\<close> and \<open>apic_c\<close> both the zero matrix, and
  \<open>MPM<dim>::resample\<close> returns with \<open>apic_b\<close> the zero matrix and \<open>apic_c\<close> as it was.
\<close>

theorem resample_zeroes_affine_matrices_near_boundary:
  assumes nb: "near_boundary p" and nr: "\<not> is_rigid p"
    and frame: "\<forall>F q. apic_b (fst (plasticity C F q)) = apic_b q
                  \<and> apic_c (fst (plasticity C F q)) = apic_c q"
  shows "(\<exists>M' p'. resample_rigid_particle C gc off base p M = Some (M', p')
            \<and> apic_b p' = mscalar 0 \<and> apic_c p' = mscalar 0)
       \<and> (\<exists>M' p'. resample_particle C p M = Some (M', p')
            \<and> apic_b p' = mscalar 0 \<and> apic_c p' = apic_c p)"
  using resample_rigid_particle_near_boundary [OF assms] resample_particle_near_boundary [OF assms]
  by blast


lemma first_node_step:
  "resample_normal_node one_node_cache 0 (Vec3 (1 / 2) (1 / 2) (1 / 2)) 0
       (vconst 0, mscalar 0, mscalar 0)
     = (Vec3 (1 / 8) 0 0,
        Mat3 (Vec3 (1 / 16) 0 0) (Vec3 (1 / 16) 0 0) (Vec3 (1 / 16) 0 0),
        Mat3 (Vec3 (1 / 32) 0 0) (Vec3 (1 / 32) 0 0) (Vec3 (1 / 32) 0 0))"
  by (simp add: resample_normal_node_def Let_def one_node_cache_def kernel_linearized_def
      grid_pos_offset_def kernel_weight_def kernels_def w_cache_def p_fract_def vconst_def
      fmadd_def make_float4_def set1_def fused_mul_add_def rows_def mscalar_def mdiag_def)

lemma empty_node_step:
  assumes "0 < n" "n < 27"
  shows "\<exists>c'. resample_normal_node one_node_cache 0 rp n (v, b, c) = (v, b, c')"
proof -
  have "kernel_linearized one_node_cache n \<noteq> 0"
    using assms by (simp add: kernel_linearized_def one_node_cache_def) presburger
  then have z: "linear one_node_cache (kernel_linearized one_node_cache n) = Vec4 0 0 0 0"
    by (simp add: one_node_cache_def)
  obtain b0 b1 b2 where b: "b = Mat3 b0 b1 b2" by (cases b)
  have f: "fused_mul_add (Vec3 0 0 0) x y = y" for x y
    by (cases x; cases y) (simp add: fused_mul_add_def)
  have g: "vscale w (Vec3 0 0 0) = Vec3 0 0 0" for w by simp
  show ?thesis
    by (simp add: resample_normal_node_def Let_def z f g rows_def b)
qed


lemma empty_nodes_fold:
  assumes "\<forall>n\<in>set ns. 0 < n \<and> n < 27"
  shows "\<exists>c'. fold (resample_normal_node one_node_cache 0 rp) ns (v, b, c) = (v, b, c')"
  using assms
proof (induction ns arbitrary: c)
  case Nil
  then show ?case by simp
next
  case (Cons n ns)
  obtain c1 where "resample_normal_node one_node_cache 0 rp n (v, b, c) = (v, b, c1)"
    using empty_node_step [of n rp v b c] Cons.prems by auto
  then show ?case using Cons.IH [of c1] Cons.prems by simp
qed

lemma normal_fold:
  "\<exists>c'. fold (resample_normal_node one_node_cache 0 (Vec3 (1 / 2) (1 / 2) (1 / 2))) [0..<27]
       (vconst 0, mscalar 0, mscalar 0)
     = (Vec3 (1 / 8) 0 0, Mat3 (Vec3 (1 / 16) 0 0) (Vec3 (1 / 16) 0 0) (Vec3 (1 / 16) 0 0), c')"
proof -
  have "[0..<27] = 0 # [1..<27]" by (simp add: upt_rec)
  then show ?thesis
    using empty_nodes_fold [of "[1..<27]"] by (simp add: first_node_step)
qed

lemma normal_block_keeps_affine_matrix:
  "near_boundary boundary_particle \<and> \<not> is_rigid boundary_particle
   \<and> apic_b (snd (resample_normal_particle demo_collaborators one_node_cache 0 0 (Vec3 0 0 0)
         boundary_particle (demo_mpm empty_grid)))
       = Mat3 (Vec3 (1 / 16) 0 0) (Vec3 (1 / 16) 0 0) (Vec3 (1 / 16) 0 0)"
proof -
  obtain c' where f: "fold (resample_normal_node one_node_cache 0 (Vec3 (1 / 2) (1 / 2) (1 / 2))) [0..<27]
       (vconst 0, mscalar 0, mscalar 0)
     = (Vec3 (1 / 8) 0 0, Mat3 (Vec3 (1 / 16) 0 0) (Vec3 (1 / 16) 0 0) (Vec3 (1 / 16) 0 0), c')"
    using normal_fold by blast
  have rp: "vsub (vscale (inv_delta_x (demo_mpm empty_grid)) (pos boundary_particle)) (Vec3 0 0 0)
      = Vec3 (1 / 2) (1 / 2) (1 / 2)"
    by (simp add: demo_mpm_def boundary_particle_def rest_particle_def)
  have d: "rpic_damping (demo_mpm empty_grid) = 0" by (simp add: demo_mpm_def)
  have "apic_b (snd (resample_normal_particle demo_collaborators one_node_cache 0 0 (Vec3 0 0 0)
         boundary_particle (demo_mpm empty_grid)))
       = Mat3 (Vec3 (1 / 16) 0 0) (Vec3 (1 / 16) 0 0) (Vec3 (1 / 16) 0 0)"
    by (simp add: resample_normal_particle_def Let_def rp f d demo_collaborators_def
        Elastic_plasticity_def)
  then show ?thesis
    by (simp add: boundary_particle_def rest_particle_def)
qed


lemma elastic_frame:
  "\<forall>F q. apic_b (fst (plasticity demo_collaborators F q)) = apic_b q
       \<and> apic_c (fst (plasticity demo_collaborators F q)) = apic_c q"
  by (simp add: demo_collaborators_def Elastic_plasticity_def)

lemma resample_keeps_quadratic_matrix:
  "map_option (\<lambda>r. apic_c (snd r))
      (resample_particle demo_collaborators (boundary_particle\<lparr>apic_c := mscalar 1\<rparr>)
         (demo_mpm empty_grid)) = Some (mscalar 1)"
proof -
  have "near_boundary (boundary_particle\<lparr>apic_c := mscalar 1\<rparr>)"
    "\<not> is_rigid (boundary_particle\<lparr>apic_c := mscalar 1\<rparr>)"
    by (simp_all add: boundary_particle_def rest_particle_def)
  then obtain M' p' where "resample_particle demo_collaborators (boundary_particle\<lparr>apic_c := mscalar 1\<rparr>)
         (demo_mpm empty_grid) = Some (M', p')" "apic_c p' = apic_c (boundary_particle\<lparr>apic_c := mscalar 1\<rparr>)"
    using resample_particle_near_boundary [OF _ _ elastic_frame] by blast
  then show ?thesis by simp
qed

text \<open>
  C8, as stated, fails on two of the three resample kernels.  The block kernel for
  blocks without a rigid body (\<open>block_op_normal\<close>) never tests \<open>near_boundary()\<close>: with
  one moving grid node it leaves the near-boundary particle \<open>boundary_particle\<close> with a
  non-zero \<open>apic_b\<close>.  \<open>MPM<dim>::resample\<close> zeroes \<open>apic_b\<close> only: a near-boundary
  particle that enters with \<open>apic_c = 1\<close> leaves with \<open>apic_c = 1\<close>.
\<close>

theorem resample_keeps_affine_matrices_near_boundary:
  "near_boundary boundary_particle \<and> \<not> is_rigid boundary_particle
   \<and> apic_b (snd (resample_normal_particle demo_collaborators one_node_cache 0 0 (Vec3 0 0 0)
         boundary_particle (demo_mpm empty_grid)))
       = Mat3 (Vec3 (1 / 16) 0 0) (Vec3 (1 / 16) 0 0) (Vec3 (1 / 16) 0 0)
   \<and> map_option (\<lambda>r. apic_c (snd r))
        (resample_particle demo_collaborators (boundary_particle\<lparr>apic_c := mscalar 1\<rparr>)
           (demo_mpm empty_grid)) = Some (mscalar 1)"
  using normal_block_keeps_affine_matrix resample_keeps_quadratic_matrix by simp

lemma loaded_particle_fields:
  "pos (loaded_particle nb) = Vec3 (1 / 2) (1 / 2) (1 / 2)"
  "particle_states (loaded_particle nb) = 0"
  "near_boundary (loaded_particle nb) = nb"
  "is_rigid (loaded_particle nb) = False"
  "apic_b (loaded_particle nb) = mscalar 1"
  "apic_c (loaded_particle nb) = mscalar 1"
  "velocity (loaded_particle nb) = Vec3 0 0 0"
  by (simp_all add: loaded_particle_def rest_particle_def)

lemma cell_facts:
  "get_states moving_cell = 0" "get_states zero_cell = 0"
  "velocity_and_mass moving_cell = Vec4 1 0 0 1" "velocity_and_mass zero_cell = Vec4 0 0 0 0"
  by (simp_all add: get_states_def zero_cell_def moving_cell_def)

lemma same_color_empty: "\<not> different_color m 0 0"
  by (simp add: different_color_def color_mask_def)

lemma first_weight:
  "mls_dw_w (Vec3 (1 / 2) (1 / 2) (1 / 2)) (0, 0, 0) = Vec4 0 0 0 (1 / 8)"
  by (simp add: get_stencil_start_def int_of_real_def trunc_int_def kernels_def w_cache_def
      p_fract_def vconst_def fmadd_def make_float4_def set1_def Let_def)

lemma rigid_first_node_step:
  "resample_rigid_node demo_collaborators (demo_mpm G) moving_cache 0 (Vec3 0 0 0)
       (loaded_particle nb) 0 (vconst 0, mscalar 0, mscalar 0, mscalar 0, - 1)
     = Some (Vec3 (1 / 8) 0 0, sixteenths,
         Mat3 (Vec3 (1 / 32) 0 0) (Vec3 (1 / 32) 0 0) (Vec3 (1 / 32) 0 0), mscalar 0, - 1)"
  by (simp add: resample_rigid_node_def Let_def loaded_particle_fields demo_mpm_def
      moving_cache_def kernel_linearized_def grid_pos_offset_def node_offset_def same_color_empty
      demo_collaborators_def first_weight cell_facts dim_def
      vconst_def fused_mul_add_def rows_def mscalar_def mdiag_def sixteenths_def
      del: mls_dw_w.simps)

lemma rigid_empty_node_step:
  assumes "0 < n" "n < 27"
  shows "\<exists>c'. resample_rigid_node demo_collaborators (demo_mpm G) moving_cache 0 (Vec3 0 0 0)
       (loaded_particle nb) n (v, b, c, cdg, rid) = Some (v, b, c', cdg, rid)"
proof -
  have "kernel_linearized moving_cache n \<noteq> 0"
    using assms by (simp add: kernel_linearized_def moving_cache_def) presburger
  then have z: "linear moving_cache (kernel_linearized moving_cache n) = zero_cell"
    by (simp add: moving_cache_def)
  obtain b0 b1 b2 where b: "b = Mat3 b0 b1 b2" by (cases b)
  obtain d0 d1 d2 where d: "cdg = Mat3 d0 d1 d2" by (cases cdg)
  have f: "fused_mul_add (Vec3 0 0 0) x y = y" for x y
    by (cases x; cases y) (simp add: fused_mul_add_def)
  have g: "vscale w (Vec3 0 0 0) = Vec3 0 0 0" for w by simp
  show ?thesis
    by (simp add: resample_rigid_node_def Let_def z f g rows_def b d cell_facts
        loaded_particle_fields same_color_empty)
qed

lemma rigid_empty_nodes_fold:
  assumes "\<forall>n\<in>set ns. 0 < n \<and> n < 27"
  shows "\<exists>c'. fold_opt (resample_rigid_node demo_collaborators (demo_mpm G) moving_cache 0
        (Vec3 0 0 0) (loaded_particle nb)) ns (v, b, c, cdg, rid) = Some (v, b, c', cdg, rid)"
  using assms
proof (induction ns arbitrary: c)
  case Nil
  then show ?case by simp
next
  case (Cons n ns)
  obtain c1 where "resample_rigid_node demo_collaborators (demo_mpm G) moving_cache 0
        (Vec3 0 0 0) (loaded_particle nb) n (v, b, c, cdg, rid) = Some (v, b, c1, cdg, rid)"
    using rigid_empty_node_step [of n G nb v b c cdg rid] Cons.prems by auto
  then show ?case using Cons.IH [of c1] Cons.prems by simp
qed

lemma rigid_fold:
  "\<exists>c'. fold_opt (resample_rigid_node demo_collaborators (demo_mpm G) moving_cache 0
        (Vec3 0 0 0) (loaded_particle nb)) [0..<27]
        (vconst 0, mscalar 0, mscalar 0, mscalar 0, - 1)
     = Some (Vec3 (1 / 8) 0 0, sixteenths, c', mscalar 0, - 1)"
proof -
  have "[0..<27] = 0 # [1..<27]" by (simp add: upt_rec)
  then show ?thesis
    using rigid_empty_nodes_fold [of "[1..<27]"] by (simp add: rigid_first_node_step)
qed

lemma demo_collaborator_fields:
  "damp_affine_momemtum demo_collaborators m = m"
  "plasticity demo_collaborators F q = (q\<lparr>dg_e := mmul F (dg_e q)\<rparr>, 0)"
  by (simp_all add: demo_collaborators_def Elastic_plasticity_def)

lemma rigid_block_interior:
  "map_option (\<lambda>r. apic_b (snd r))
      (resample_rigid_particle demo_collaborators moving_cache 0 (Vec3 0 0 0)
         (loaded_particle False) (demo_mpm G)) = Some sixteenths"
proof -
  obtain c' where f: "fold_opt (resample_rigid_node demo_collaborators (demo_mpm G) moving_cache 0
        (Vec3 0 0 0) (loaded_particle False)) [0..<27]
        (vconst 0, mscalar 0, mscalar 0, mscalar 0, - 1)
     = Some (Vec3 (1 / 8) 0 0, sixteenths, c', mscalar 0, - 1)"
    using rigid_fold by blast
  show ?thesis
    by (simp add: resample_rigid_particle_def Let_def f loaded_particle_fields
        demo_collaborator_fields boundary_penalty_def)
qed


lemma base_of_centre: "stencil_base (Vec3 (1 / 2) (1 / 2) (1 / 2)) = (0, 0, 0)"
  by (simp add: get_stencil_start_def int_of_real_def trunc_int_def)

lemma demo_node_fields:
  "get_grid_base_pos demo_collaborators = stencil_base"
  "get_dw_w demo_collaborators = mls_dw_w"
  "grid_velocity demo_collaborators g i = Vector_of (velocity_and_mass (g i))"
  by (simp_all add: demo_collaborators_def)

lemma demo_mpm_fields:
  "inv_delta_x (demo_mpm G) = 1" "delta_x (demo_mpm G) = 1" "grid (demo_mpm G) = G"
  "base_delta_t (demo_mpm G) = 1 / 10000" "get_rigid_body_ptr (demo_mpm G) = (\<lambda>i. None)"
  by (simp_all add: demo_mpm_def)

lemma generic_first_node_step:
  "resample_node demo_collaborators (demo_mpm moving_grid) (loaded_particle nb) (0, 0, 0)
       (vconst 0, mscalar 0, mscalar 0, - 1)
     = Some (Vec3 (1 / 8) 0 0, sixteenths, mscalar 0, - 1)"
  by (simp add: resample_node_def Let_def loaded_particle_fields demo_mpm_fields
      demo_node_fields base_of_centre first_weight moving_grid_def cell_facts same_color_empty
      dim_def vconst_def mscalar_def mdiag_def sixteenths_def
      del: mls_dw_w.simps stencil_base.simps)

lemma generic_empty_node_step:
  assumes "ind \<noteq> (0, 0, 0)"
  shows "resample_node demo_collaborators (demo_mpm moving_grid) (loaded_particle nb) ind
       (v, b, cdg, rid) = Some (v, b, cdg, rid)"
proof -
  have i: "iadd ind (0, 0, 0) = ind" by (cases ind) simp
  have g: "moving_grid ind = zero_cell" using assms by (simp add: moving_grid_def)
  obtain v0 v1 v2 where v: "v = Vec3 v0 v1 v2" by (cases v)
  have z: "vscale w (Vec3 0 0 0) = Vec3 0 0 0" for w by simp
  have o: "outer_product (Vec3 0 0 0) u = Mat3 (Vec3 0 0 0) (Vec3 0 0 0) (Vec3 0 0 0)" for u
    by (cases u) simp
  have m: "madd x (Mat3 (Vec3 0 0 0) (Vec3 0 0 0) (Vec3 0 0 0)) = x" for x
  proof -
    have "vadd u (Vec3 0 0 0) = u" for u by (cases u) simp
    then show ?thesis by (cases x) simp
  qed
  show ?thesis
    by (simp add: resample_node_def Let_def loaded_particle_fields demo_mpm_fields
        demo_node_fields base_of_centre i g cell_facts same_color_empty z o m v
        del: mls_dw_w.simps stencil_base.simps)
qed

lemma generic_empty_nodes_fold:
  assumes "\<forall>ind\<in>set inds. ind \<noteq> (0, 0, 0)"
  shows "fold_opt (resample_node demo_collaborators (demo_mpm moving_grid) (loaded_particle nb))
       inds acc = Some acc"
  using assms
proof (induction inds)
  case Nil
  then show ?case by simp
next
  case (Cons ind inds)
  obtain v b cdg rid where acc: "acc = (v, b, cdg, rid)" by (cases acc) auto
  show ?case
    using Cons generic_empty_node_step [of ind nb v b cdg rid] by (simp add: acc)
qed

lemma generic_fold:
  "fold_opt (resample_node demo_collaborators (demo_mpm moving_grid) (loaded_particle nb)) region
       (vconst 0, mscalar 0, mscalar 0, - 1)
     = Some (Vec3 (1 / 8) 0 0, sixteenths, mscalar 0, - 1)"
proof -
  have r: "region = (0, 0, 0) # tl region" by (simp add: region_nodes)
  have t: "\<forall>ind\<in>set (tl region). ind \<noteq> (0, 0, 0)" by (simp add: region_nodes)
  show ?thesis
    by (subst r) (simp add: generic_first_node_step generic_empty_nodes_fold [OF t])
qed

lemma generic_interior:
  "map_option (\<lambda>r. apic_b (snd r))
      (resample_particle demo_collaborators (loaded_particle False) (demo_mpm moving_grid))
     = Some sixteenths"
  by (simp add: resample_particle_def Let_def generic_fold loaded_particle_fields
      demo_collaborator_fields boundary_penalty_def)

theorem resample_zeroes_affine_matrices_near_boundary_witness:
  "near_boundary (loaded_particle True) \<and> \<not> is_rigid (loaded_particle True)
   \<and> (\<forall>F q. apic_b (fst (plasticity demo_collaborators F (q :: unit MPMParticle_scheme))) = apic_b q
          \<and> apic_c (fst (plasticity demo_collaborators F q)) = apic_c q)
   \<and> apic_b (loaded_particle True) = mscalar 1 \<and> apic_c (loaded_particle True) = mscalar 1
   \<and> (\<exists>M' p'. resample_rigid_particle demo_collaborators moving_cache 0 (Vec3 0 0 0)
           (loaded_particle True) (demo_mpm moving_grid) = Some (M', p')
         \<and> apic_b p' = mscalar 0 \<and> apic_c p' = mscalar 0)
   \<and> (\<exists>M' p'. resample_particle demo_collaborators (loaded_particle True) (demo_mpm moving_grid)
           = Some (M', p')
         \<and> apic_b p' = mscalar 0 \<and> apic_c p' = mscalar 1)
   \<and> map_option (\<lambda>r. apic_b (snd r))
        (resample_rigid_particle demo_collaborators moving_cache 0 (Vec3 0 0 0)
           (loaded_particle False) (demo_mpm moving_grid)) = Some sixteenths
   \<and> map_option (\<lambda>r. apic_b (snd r))
        (resample_particle demo_collaborators (loaded_particle False) (demo_mpm moving_grid))
       = Some sixteenths
   \<and> sixteenths \<noteq> mscalar 0"
proof -
  have a: "near_boundary (loaded_particle True)" by (simp add: loaded_particle_fields)
  have b: "\<not> is_rigid (loaded_particle True)" by (simp add: loaded_particle_fields)
  have c: "\<forall>F q. apic_b (fst (plasticity demo_collaborators F (q :: unit MPMParticle_scheme))) = apic_b q
          \<and> apic_c (fst (plasticity demo_collaborators F q)) = apic_c q"
    by (simp add: demo_collaborator_fields)
  have d: "sixteenths \<noteq> mscalar 0" by (simp add: sixteenths_def mscalar_def mdiag_def vconst_def)
  show ?thesis
    using resample_zeroes_affine_matrices_near_boundary
      [OF a b c, of moving_cache 0 "Vec3 0 0 0" "demo_mpm moving_grid"] a b c d
    by (simp add: loaded_particle_fields rigid_block_interior generic_interior)
qed

end
